theory Spec2Isabelle
  imports Main "HOL-Library.Word" "HOL-Library.AList"
begin

unbundle bit_operations_syntax

section \<open>JavaScript values used by the disassembler\<close>

text \<open>
  Instruction words are unsigned 32-bit values read from the module buffer; every
  operation the decoder applies to them is a JavaScript bitwise operator, which works
  modulo \<open>2 ^ 32\<close>, so they are \<open>32 word\<close>.  Extracted fields are small
  non-negative numbers (\<open>nat\<close>); sign-extended displacements and addresses are
  JavaScript numbers far below \<open>2 ^ 53\<close> and are \<open>int\<close>.
\<close>

type_synonym u32 = "32 word"

datatype js_error = TypeError | RangeError

subsection \<open>Number formatting (\<open>String(n)\<close> and the conversions of \<open>sprintf-js\<close>)\<close>

definition digit_char :: "nat \<Rightarrow> char" where
  "digit_char d = ''0123456789abcdef'' ! d"

fun dec_str :: "nat \<Rightarrow> string" where
  "dec_str n = (if n < 10 then [digit_char n] else dec_str (n div 10) @ [digit_char (n mod 10)])"

fun hex_str :: "nat \<Rightarrow> string" where
  "hex_str n = (if n < 16 then [digit_char n] else hex_str (n div 16) @ [digit_char (n mod 16)])"

declare dec_str.simps [simp del] hex_str.simps [simp del]

text \<open>\<open>String(i)\<close> for an integral number \<open>i\<close>; also what \<open>%s\<close> prints for it.\<close>

definition str_of_int :: "int \<Rightarrow> string" where
  "str_of_int i = (if i < 0 then ''-'' @ dec_str (nat (- i)) else dec_str (nat i))"

text \<open>\<open>%x\<close>: \<open>(parseInt(arg, 10) >>> 0).toString(16)\<close>, no sign handling.\<close>

definition fmt_x :: "int \<Rightarrow> string" where
  "fmt_x i = hex_str (nat (i mod 2 ^ 32))"

text \<open>\<open>%0Nx\<close>: left padding with \<open>0\<close> up to the width.\<close>

definition pad0 :: "nat \<Rightarrow> string \<Rightarrow> string" where
  "pad0 w s = replicate (w - length s) (CHR ''0'') @ s"

definition fmt_02x :: "int \<Rightarrow> string" where "fmt_02x i = pad0 2 (fmt_x i)"
definition fmt_04x :: "int \<Rightarrow> string" where "fmt_04x i = pad0 4 (fmt_x i)"
definition fmt_08x :: "int \<Rightarrow> string" where "fmt_08x i = pad0 8 (fmt_x i)"

text \<open>
  Reading an array of strings: an index past the end is \<open>undefined\<close>, which \<open>%s\<close>
  and string concatenation print as the text \<open>undefined\<close>; a \<open>null\<close> entry prints
  as \<open>null\<close>.
\<close>

definition nth_str :: "string list \<Rightarrow> nat \<Rightarrow> string" where
  "nth_str xs i = (if i < length xs then xs ! i else ''undefined'')"

definition nth_opt :: "string option list \<Rightarrow> nat \<Rightarrow> string option" where
  "nth_opt xs i = (if i < length xs then xs ! i else None)"

definition str_of_opt :: "string option \<Rightarrow> string" where
  "str_of_opt x = (case x of None \<Rightarrow> ''null'' | Some s \<Rightarrow> s)"

section \<open>GekkoDisassembler.js\<close>

subsection \<open>Constants and field extraction\<close>

definition PPCINSTR_OTHER :: nat where "PPCINSTR_OTHER = 0"
definition PPCINSTR_BRANCH :: nat where "PPCINSTR_BRANCH = 1"
definition PPCINSTR_LDST :: nat where "PPCINSTR_LDST = 2"
definition PPCINSTR_IMM :: nat where "PPCINSTR_IMM = 3"

definition PPCF_ILLEGAL :: nat where "PPCF_ILLEGAL = 1"
definition PPCF_UNSIGNED :: nat where "PPCF_UNSIGNED = 2"
definition PPCF_SUPER :: nat where "PPCF_SUPER = 4"
definition PPCF_SIXTY_FOUR :: nat where "PPCF_SIXTY_FOUR = 8"

definition PPCIDXMASK :: u32 where "PPCIDXMASK = 0xfc000000"
definition PPCIDX2MASK :: u32 where "PPCIDX2MASK = 0x000007fe"
definition PPCDMASK :: u32 where "PPCDMASK = 0x03e00000"
definition PPCAMASK :: u32 where "PPCAMASK = 0x001f0000"
definition PPCBMASK :: u32 where "PPCBMASK = 0x0000f800"
definition PPCCMASK :: u32 where "PPCCMASK = 0x000007c0"
definition PPCMMASK :: u32 where "PPCMMASK = 0x0000003e"
definition PPCCRDMASK :: u32 where "PPCCRDMASK = 0x03800000"
definition PPCCRAMASK :: u32 where "PPCCRAMASK = 0x001c0000"
definition PPCLMASK :: u32 where "PPCLMASK = 0x00600000"
definition PPCOE :: u32 where "PPCOE = 0x00000400"

definition createGetFromMask :: "u32 \<Rightarrow> nat \<Rightarrow> u32 \<Rightarrow> nat" where
  "createGetFromMask msk shiftAmt instr = unat (drop_bit shiftAmt (instr AND msk))"

definition PPCGETIDX :: "u32 \<Rightarrow> nat" where "PPCGETIDX = createGetFromMask PPCIDXMASK 26"
definition PPCGETD :: "u32 \<Rightarrow> nat" where "PPCGETD = createGetFromMask PPCDMASK 21"
definition PPCGETA :: "u32 \<Rightarrow> nat" where "PPCGETA = createGetFromMask PPCAMASK 16"
definition PPCGETB :: "u32 \<Rightarrow> nat" where "PPCGETB = createGetFromMask PPCBMASK 11"
definition PPCGETC :: "u32 \<Rightarrow> nat" where "PPCGETC = createGetFromMask PPCCMASK 6"
definition PPCGETM :: "u32 \<Rightarrow> nat" where "PPCGETM = createGetFromMask PPCMMASK 1"
definition PPCGETCRD :: "u32 \<Rightarrow> nat" where "PPCGETCRD = createGetFromMask PPCCRDMASK 23"
definition PPCGETCRA :: "u32 \<Rightarrow> nat" where "PPCGETCRA = createGetFromMask PPCCRAMASK 18"
definition PPCGETL :: "u32 \<Rightarrow> nat" where "PPCGETL = createGetFromMask PPCLMASK 21"
definition PPCGETIDX2 :: "u32 \<Rightarrow> nat" where "PPCGETIDX2 = createGetFromMask PPCIDX2MASK 1"

definition trap_condition :: "string option list" where
  "trap_condition =
    [None, Some ''lgt'', Some ''llt'', None, Some ''eq'', Some ''lge'', Some ''lle'', None,
     Some ''gt'', None, None, None, Some ''ge'', None, None, None,
     Some ''lt'', None, None, None, Some ''le'', None, None, None,
     Some ''ne'', None, None, None, None, None, None, None]"

definition cmpname :: "string list" where
  "cmpname = [''cmpw'', ''cmpd'', ''cmplw'', ''cmpld'']"

definition ps_cmpname :: "string list" where
  "ps_cmpname = [''ps_cmpu0'', ''ps_cmpo0'', ''ps_cmpu1'', ''ps_cmpo1'']"

definition b_ext :: "string list" where
  "b_ext = ['''', ''l'', ''a'', ''la'']"

definition b_condition :: "string list" where
  "b_condition = [''ge'', ''le'', ''ne'', ''ns'', ''lt'', ''gt'', ''eq'', ''so'']"

definition b_decr :: "string option list" where
  "b_decr =
    [Some ''nzf'', Some ''zf'', None, None, Some ''nzt'', Some ''zt'', None, None,
     Some ''nz'', Some ''z'', None, None, Some ''nz'', Some ''z'', None, None]"

definition regsel :: "string list" where "regsel = ['''', ''r'']"
definition oesel :: "string list" where "oesel = ['''', ''o'']"
definition rcsel :: "string list" where "rcsel = ['''', ''.'']"

definition ldstnames :: "string list" where
  "ldstnames =
    [''lwz'', ''lwzu'', ''lbz'', ''lbzu'', ''stw'', ''stwu'', ''stb'', ''stbu'',
     ''lhz'', ''lhzu'', ''lha'', ''lhau'', ''sth'', ''sthu'', ''lmw'', ''stmw'',
     ''lfs'', ''lfsu'', ''lfd'', ''lfdu'', ''stfs'', ''stfsu'', ''stfd'', ''stfdu'']"

definition regnames :: "string list" where
  "regnames =
    [''r0'', ''sp'', ''rtoc'', ''r3'', ''r4'', ''r5'', ''r6'', ''r7'', ''r8'', ''r9'', ''r10'',
     ''r11'', ''r12'', ''r13'', ''r14'', ''r15'', ''r16'', ''r17'', ''r18'', ''r19'', ''r20'',
     ''r21'', ''r22'', ''r23'', ''r24'', ''r25'', ''r26'', ''r27'', ''r28'', ''r29'', ''r30'',
     ''r31'']"

subsection \<open>The decoder's scratch state\<close>

text \<open>
  The module-level variables \<open>m_opcode\<close>, \<open>m_operands\<close>, \<open>m_type\<close>, \<open>m_flags\<close>,
  \<open>m_sreg\<close> and \<open>m_displacement\<close>.  \<open>m_instr\<close> and \<open>m_iaddr\<close> are only read
  during a decode and are passed as arguments.
\<close>

record dstate =
  m_opcode :: string
  m_operands :: string
  m_type :: nat
  m_flags :: nat
  m_sreg :: nat
  m_displacement :: int

subsection \<open>Helpers\<close>

text \<open>
  \<open>HelperRotateMask\<close>: JavaScript shift counts are taken modulo 32, so
  \<open>mask << (32 - r)\<close> with \<open>r = 0\<close> shifts by 0.
\<close>

definition HelperRotateMask :: "nat \<Rightarrow> nat \<Rightarrow> nat \<Rightarrow> u32" where
  "HelperRotateMask r mb me =
    (let begin_m = drop_bit (mb mod 32) (0xffffffff :: u32);
         end_m = (if me < 31 then drop_bit ((me + 1) mod 32) (0xffffffff :: u32) else 0);
         msk = begin_m XOR end_m;
         msk = (if me < mb then NOT msk else msk)
     in push_bit ((32 - r) mod 32) msk OR drop_bit (r mod 32) msk)"

definition ldst_offs :: "nat \<Rightarrow> string" where
  "ldst_offs val =
    (if val = 0 then ''0''
     else if val AND 0x8000 \<noteq> 0
       then ''-0x'' @ fmt_04x (int (unat ((NOT (word_of_nat val :: u32)) AND 0xffff)) + 1)
     else ''0x'' @ fmt_04x (int val))"

definition SEX12 :: "u32 \<Rightarrow> int" where
  "SEX12 x = (if x AND 0x800 \<noteq> 0 then sint (x OR 0xfffff000) else sint x)"

definition sprNumToName :: "(nat \<times> string) list" where
  "sprNumToName =
    [(1, ''XER''), (8, ''LR''), (9, ''CTR''), (18, ''DSIR''), (19, ''DAR''), (22, ''DEC''),
     (25, ''SDR1''), (26, ''SRR0''), (27, ''SRR1''), (272, ''SPRG0''), (273, ''SPRG1''),
     (274, ''SPRG2''), (275, ''SPRG3''), (282, ''EAR''), (287, ''PVR''), (528, ''IBAT0U''),
     (529, ''IBAT0L''), (530, ''IBAT1U''), (531, ''IBAT1L''), (532, ''IBAT2U''),
     (533, ''IBAT2L''), (534, ''IBAT3U''), (535, ''IBAT3L''), (536, ''DBAT0U''),
     (537, ''DBAT0L''), (538, ''DBAT1U''), (539, ''DBAT1L''), (540, ''DBAT2U''),
     (541, ''DBAT2L''), (542, ''DBAT3U''), (543, ''DBAT3L''), (912, ''GQR0''), (913, ''GQR1''),
     (914, ''GQR2''), (915, ''GQR3''), (916, ''GQR4''), (917, ''GQR5''), (918, ''GQR6''),
     (919, ''GQR7''), (920, ''HID2''), (921, ''WPAR''), (922, ''DMA_U''), (923, ''DMA_L''),
     (924, ''ECID_U''), (925, ''ECID_M''), (926, ''ECID_L''), (936, ''UMMCR0''),
     (937, ''UPMC1''), (938, ''UPMC2''), (939, ''USIA''), (940, ''UMMCR1''), (941, ''UPMC3''),
     (942, ''UPMC4''), (943, ''USDA''), (952, ''MMCR0''), (953, ''PMC1''), (954, ''PMC2''),
     (955, ''SIA''), (956, ''MMCR1''), (957, ''PMC3''), (958, ''PMC4''), (959, ''SDA''),
     (1008, ''HID0''), (1009, ''HID1''), (1010, ''IABR''), (1011, ''HID4''), (1013, ''DABR''),
     (1017, ''L2CR''), (1019, ''ICTC''), (1020, ''THRM1''), (1021, ''THRM2''),
     (1022, ''THRM3'')]"

definition spr_name :: "nat \<Rightarrow> string" where
  "spr_name i = (case map_of sprNumToName i of Some n \<Rightarrow> n | None \<Rightarrow> dec_str i)"

definition swapda :: "u32 \<Rightarrow> u32" where
  "swapda w = (w AND 0xfc00ffff) OR push_bit 5 (w AND PPCAMASK) OR signed_drop_bit 5 (w AND PPCDMASK)"

definition swapab :: "u32 \<Rightarrow> u32" where
  "swapab w = (w AND 0xffe007ff) OR push_bit 5 (w AND PPCBMASK) OR signed_drop_bit 5 (w AND PPCAMASK)"

definition ill :: "u32 \<Rightarrow> dstate \<Rightarrow> dstate" where
  "ill inOp st =
    (let st = (if inOp = 0
               then st\<lparr>m_opcode := '''', m_operands := ''---''\<rparr>
               else st\<lparr>m_opcode := ''(ill)'', m_operands := fmt_08x (uint inOp)\<rparr>)
     in st\<lparr>m_flags := m_flags st OR PPCF_ILLEGAL\<rparr>)"

text \<open>A pair of assignments to \<open>m_opcode\<close> and \<open>m_operands\<close>.\<close>

definition set_ops :: "string \<Rightarrow> string \<Rightarrow> dstate \<Rightarrow> dstate" where
  "set_ops opc opr st = st\<lparr>m_opcode := opc, m_operands := opr\<rparr>"

definition regname :: "nat \<Rightarrow> string" where
  "regname i = nth_str regnames i"

text \<open>
  \<open>imm\<close> overwrites its \<open>hex\<close> parameter with \<open>true\<close> on entry.  It returns the
  operand text and updates \<open>m_type\<close>, \<open>m_flags\<close> and \<open>m_displacement\<close>.
\<close>

definition imm :: "u32 \<Rightarrow> nat \<Rightarrow> nat \<Rightarrow> bool \<Rightarrow> dstate \<Rightarrow> string \<times> dstate" where
  "imm inVal uimm ty hex st =
    (let hex = True;
         i = int (unat (inVal AND 0xffff));
         st = st\<lparr>m_type := PPCINSTR_IMM\<rparr>;
         i = (if uimm = 0 then (if i > 0x7fff then i - 0x10000 else i) else i);
         st = (if uimm = 0 then st else st\<lparr>m_flags := m_flags st OR PPCF_UNSIGNED\<rparr>);
         st = st\<lparr>m_displacement := i\<rparr>
     in ((if ty = 0 then regname (PPCGETD inVal) @ '', '' @ regname (PPCGETA inVal) @ '', 0x'' @ fmt_x i
          else if ty = 1 then
            (if hex then regname (PPCGETA inVal) @ '', '' @ regname (PPCGETD inVal) @ '', 0x'' @ fmt_04x i
             else regname (PPCGETA inVal) @ '', '' @ regname (PPCGETD inVal) @ '', '' @ str_of_int i)
          else if ty = 2 then regname (PPCGETA inVal) @ '', '' @ str_of_int i
          else if ty = 3 then
            (if hex then regname (PPCGETD inVal) @ '', 0x'' @ fmt_04x i
             else regname (PPCGETD inVal) @ '', '' @ str_of_int i)
          else ''imm(): Wrong type''), st))"

definition ra_rb :: "u32 \<Rightarrow> string" where
  "ra_rb inVal = regname (PPCGETA inVal) @ '', '' @ regname (PPCGETB inVal)"

text \<open>
  \<open>rd_ra_rb\<close> cuts the text at the last occurrence of \<open>", "\<close>; every piece appended
  ends with it and no register name contains it, so the cut removes the last two
  characters of a non-empty text.
\<close>

definition rd_ra_rb :: "u32 \<Rightarrow> nat \<Rightarrow> string" where
  "rd_ra_rb inVal msk =
    (if msk \<noteq> 0 then
       (let result = [];
            result = (if msk AND 4 \<noteq> 0 then result @ regname (PPCGETD inVal) @ '', '' else result);
            result = (if msk AND 2 \<noteq> 0 then result @ regname (PPCGETA inVal) @ '', '' else result);
            result = (if msk AND 1 \<noteq> 0 then result @ regname (PPCGETB inVal) @ '', '' else result)
        in if result = [] then result else take (length result - 2) result)
     else [])"

definition fd_ra_rb :: "u32 \<Rightarrow> nat \<Rightarrow> string" where
  "fd_ra_rb inVal msk =
    (if msk \<noteq> 0 then
       (let result = [];
            result = (if msk AND 4 \<noteq> 0 then result @ ''f'' @ dec_str (PPCGETD inVal) @ '','' else result);
            result = (if msk AND 2 \<noteq> 0 then result @ regname (PPCGETA inVal) @ '','' else result);
            result = (if msk AND 1 \<noteq> 0 then result @ regname (PPCGETB inVal) @ '','' else result)
        in butlast result)
     else [])"

definition trapi :: "u32 \<Rightarrow> nat \<Rightarrow> dstate \<Rightarrow> dstate" where
  "trapi inVal dmode st =
    (let cnd = nth_opt trap_condition (PPCGETD inVal);
         st = st\<lparr>m_flags := m_flags st OR dmode\<rparr>;
         st = (case cnd of
                 Some c \<Rightarrow> st\<lparr>m_opcode := ''t'' @ (if dmode \<noteq> 0 then ''d'' else ''w'') @ c\<rparr>
               | None \<Rightarrow> st\<lparr>m_opcode := ''t'' @ (if dmode \<noteq> 0 then ''d'' else ''w'') @ ''i'',
                            m_operands := dec_str (PPCGETD inVal) @ '', ''\<rparr>);
         r = imm inVal 0 2 False st
     in (snd r)\<lparr>m_operands := m_operands st @ fst r\<rparr>)"

definition cmpi :: "u32 \<Rightarrow> nat \<Rightarrow> dstate \<Rightarrow> dstate" where
  "cmpi inVal uimm st =
    (let i = PPCGETL inVal
     in if i < 2 then
          (let st = (if i \<noteq> 0 then st\<lparr>m_flags := m_flags st OR PPCF_SIXTY_FOUR\<rparr> else st);
               st = st\<lparr>m_opcode := nth_str cmpname (uimm * 2 + i) @ ''i''\<rparr>;
               i = PPCGETCRD inVal;
               st = (if i \<noteq> 0 then st\<lparr>m_operands := m_operands st @ ''cr'' @ dec_str i @ '', ''\<rparr>
                     else st);
               r = imm inVal uimm 2 False st
           in (snd r)\<lparr>m_operands := m_operands st @ fst r\<rparr>)
        else ill inVal st)"

definition addi :: "u32 \<Rightarrow> string \<Rightarrow> dstate \<Rightarrow> dstate" where
  "addi inVal ext st =
    (if inVal AND 0x08000000 \<noteq> 0 \<and> PPCGETA inVal = 0 then
       (let st = st\<lparr>m_opcode := ''l'' @ ext\<rparr>;
            r = (if ext = ''i'' then imm inVal 0 3 False st else imm inVal 1 3 True st)
        in (snd r)\<lparr>m_operands := fst r\<rparr>)
     else
       (let st = st\<lparr>m_opcode := (if inVal AND 0x8000 \<noteq> 0 then ''sub'' else ''add'') @ ext\<rparr>;
            inVal = (if inVal AND 0x8000 \<noteq> 0 then (inVal XOR 0xffff) + 1 else inVal);
            r = imm inVal 1 0 False st
        in (snd r)\<lparr>m_operands := fst r\<rparr>))"

text \<open>
  \<open>branch\<close> returns the length of \<open>m_operands\<close>, which no caller uses; the model
  returns the updated state only.
\<close>

definition branch :: "u32 \<Rightarrow> string \<Rightarrow> nat \<Rightarrow> int \<Rightarrow> dstate \<Rightarrow> dstate" where
  "branch inVal bname aform bdisp st =
    (let bo = PPCGETD inVal;
         bi = PPCGETA inVal;
         y0 = bo AND 1;
         ext = nth_str b_ext (aform * 2 + unat (inVal AND 1));
         y1 = (if bdisp < 0 then y0 XOR 1 else y0);
         y = (if y1 \<noteq> 0 then ''+'' else ''-'')
     in if bo AND 4 \<noteq> 0 then
          (if bo AND 16 \<noteq> 0 then
             (if PPCGETIDX inVal \<noteq> 16 then st\<lparr>m_opcode := ''b'' @ bname @ ext\<rparr>
              else st\<lparr>m_opcode := ''bc'' @ ext, m_operands := dec_str bo @ '', '' @ dec_str bi\<rparr>)
           else
             (let st = st\<lparr>m_opcode :=
                        ''b'' @ nth_str b_condition (drop_bit 1 (bo AND 8) + (bi AND 3)) @ bname @ ext @ y\<rparr>
              in if bi \<ge> 4 then st\<lparr>m_operands := ''cr'' @ dec_str (drop_bit 2 bi)\<rparr> else st))
        else
          (let st = st\<lparr>m_opcode :=
                     ''bd'' @ str_of_opt (nth_opt b_decr (drop_bit 1 bo)) @ bname @ ext @ y\<rparr>
           in if bo AND 16 = 0 then st\<lparr>m_operands := dec_str bi\<rparr> else st))"

text \<open>
  In \<open>bc\<close> and \<open>bli\<close> the displacement \<open>d\<close> is a 32-bit signed value after
  \<open>d |= 0xffff0000\<close>, and \<open>m_iaddr + d\<close> is ordinary addition of numbers.
\<close>

definition bc :: "int \<Rightarrow> u32 \<Rightarrow> dstate \<Rightarrow> dstate" where
  "bc m_iaddr inVal st =
    (let d = inVal AND 0xfffc;
         d = (if d AND 0x8000 \<noteq> 0 then d OR 0xffff0000 else d);
         d = sint d;
         st = branch inVal [] (if inVal AND 2 \<noteq> 0 then 1 else 0) d st;
         st = (if inVal AND 2 \<noteq> 0
               then st\<lparr>m_operands := m_operands st @ '' ->0x'' @ fmt_08x d\<rparr>
               else st\<lparr>m_operands := m_operands st @ '' ->0x'' @ fmt_08x (m_iaddr + d)\<rparr>)
     in st\<lparr>m_type := PPCINSTR_BRANCH, m_displacement := d\<rparr>)"

definition bli :: "int \<Rightarrow> u32 \<Rightarrow> dstate \<Rightarrow> dstate" where
  "bli m_iaddr inVal st =
    (let d = inVal AND 0x3fffffc;
         d = (if d AND 0x02000000 \<noteq> 0 then d OR 0xfc000000 else d);
         d = sint d;
         st = st\<lparr>m_opcode := ''b'' @ nth_str b_ext (unat (inVal AND 3))\<rparr>;
         st = (if inVal AND 2 \<noteq> 0
               then st\<lparr>m_operands := ''->0x'' @ fmt_08x d\<rparr>
               else st\<lparr>m_operands := ''->0x'' @ fmt_08x (m_iaddr + d)\<rparr>)
     in st\<lparr>m_type := PPCINSTR_BRANCH, m_displacement := d\<rparr>)"

definition mcrf :: "u32 \<Rightarrow> string \<Rightarrow> dstate \<Rightarrow> dstate" where
  "mcrf inVal suffix st =
    (if inVal AND 0x0063f801 = 0
     then set_ops (''mcrf'' @ suffix)
            (''cr'' @ dec_str (PPCGETCRD inVal) @ '', cr'' @ dec_str (PPCGETCRA inVal)) st
     else ill inVal st)"

text \<open>
  \<open>crop\<close> calls \<open>n2.empty()\<close>.  Its callers pass a string or the object literal
  \<open>{}\<close> (here \<open>None\<close>); neither has a property \<open>empty\<close>, so the call raises
  \<open>TypeError: n2.empty is not a function\<close>.  It is reached only when
  \<open>cra == crb\<close>, as \<open>&&\<close> short-circuits.
\<close>

definition call_empty :: "string option \<Rightarrow> js_error + bool" where
  "call_empty n2 = Inl TypeError"

definition crop :: "u32 \<Rightarrow> string \<Rightarrow> string option \<Rightarrow> dstate \<Rightarrow> js_error + dstate" where
  "crop inVal n1 n2 st =
    (let crd = PPCGETD inVal; cra = PPCGETA inVal; crb = PPCGETB inVal
     in if inVal AND 1 = 0 then
          (if cra = crb then
             (case call_empty n2 of
                Inl e \<Rightarrow> Inl e
              | Inr empty2 \<Rightarrow>
                  (let alias = \<not> empty2;
                       st = st\<lparr>m_opcode := ''cr'' @ (if alias then str_of_opt n2 else n1)\<rparr>
                   in Inr (if alias
                           then st\<lparr>m_operands := dec_str crd @ '', '' @ dec_str cra\<rparr>
                           else st\<lparr>m_operands :=
                                  dec_str crd @ '', '' @ dec_str cra @ '', '' @ dec_str crb\<rparr>)))
           else Inr (set_ops (''cr'' @ n1)
                      (dec_str crd @ '', '' @ dec_str cra @ '', '' @ dec_str crb) st))
        else Inr (ill inVal st))"

definition nooper :: "u32 \<Rightarrow> string \<Rightarrow> nat \<Rightarrow> dstate \<Rightarrow> dstate" where
  "nooper inVal name dmode st =
    (if inVal AND (PPCDMASK OR PPCAMASK OR PPCBMASK OR 1) \<noteq> 0 then ill inVal st
     else st\<lparr>m_flags := m_flags st OR dmode, m_opcode := name\<rparr>)"

definition rlw :: "u32 \<Rightarrow> string \<Rightarrow> nat \<Rightarrow> dstate \<Rightarrow> dstate" where
  "rlw inVal name i st =
    (let s = PPCGETD inVal; a = PPCGETA inVal; bsh = PPCGETB inVal;
         mb = PPCGETC inVal; me = PPCGETM inVal
     in set_ops (''rlw'' @ name @ (if inVal AND 1 \<noteq> 0 then ''.'' else []))
          (regname a @ '', '' @ regname s @ '', '' @ nth_str regsel i @ dec_str bsh @ '', ''
             @ dec_str mb @ '', '' @ dec_str me
             @ '' ('' @ fmt_08x (uint (HelperRotateMask bsh mb me)) @ '')'') st)"

definition ori :: "u32 \<Rightarrow> string \<Rightarrow> dstate \<Rightarrow> dstate" where
  "ori inVal name st =
    (let st = st\<lparr>m_opcode := name\<rparr>; r = imm inVal 1 1 True st
     in (snd r)\<lparr>m_operands := fst r\<rparr>)"

definition rld :: "u32 \<Rightarrow> string \<Rightarrow> nat \<Rightarrow> dstate \<Rightarrow> dstate" where
  "rld inVal name i st =
    (let s = PPCGETD inVal; a = PPCGETA inVal;
         bsh = (if i \<noteq> 0 then PPCGETB inVal
                else unat (push_bit 4 (inVal AND 2)) + PPCGETB inVal);
         m = unat (drop_bit 5 (inVal AND 0x7e0));
         st = st\<lparr>m_flags := m_flags st OR PPCF_SIXTY_FOUR\<rparr>
     in set_ops (''rld'' @ name @ (if inVal AND 1 \<noteq> 0 then ''.'' else []))
          (regname a @ '', '' @ regname s @ '', '' @ nth_str regsel i @ dec_str bsh @ '', ''
             @ dec_str m) st)"

definition cmp :: "u32 \<Rightarrow> dstate \<Rightarrow> dstate" where
  "cmp inVal st =
    (let i = PPCGETL inVal
     in if i < 2 then
          (let st = (if i \<noteq> 0 then st\<lparr>m_flags := m_flags st OR PPCF_SIXTY_FOUR\<rparr> else st);
               st = st\<lparr>m_opcode := nth_str cmpname ((if inVal AND PPCIDX2MASK \<noteq> 0 then 2 else 0) + i)\<rparr>;
               i = PPCGETCRD inVal;
               st = (if i \<noteq> 0 then st\<lparr>m_operands := m_operands st @ ''cr'' @ dec_str i @ '',''\<rparr>
                     else st)
           in st\<lparr>m_operands := m_operands st @ ra_rb inVal\<rparr>)
        else ill inVal st)"

definition trap :: "u32 \<Rightarrow> nat \<Rightarrow> dstate \<Rightarrow> dstate" where
  "trap inVal dmode st =
    (let to = PPCGETD inVal; cnd = nth_opt trap_condition to
     in case cnd of
          Some c \<Rightarrow>
            (st\<lparr>m_flags := m_flags st OR dmode\<rparr>)
              \<lparr>m_opcode := ''t'' @ (if dmode \<noteq> 0 then ''d'' else ''w'') @ c,
               m_operands := ra_rb inVal\<rparr>
        | None \<Rightarrow>
            (if to = 31 then
               (if dmode \<noteq> 0
                then (st\<lparr>m_flags := m_flags st OR dmode\<rparr>)\<lparr>m_opcode := ''td'', m_operands := ''31,0,0''\<rparr>
                else st\<lparr>m_opcode := ''trap''\<rparr>)
             else ill inVal st))"

text \<open>
  In \<open>dab\<close> and \<open>rrn\<close> the index into \<open>oesel\<close> is
  \<open>(chkoe && inVal & PPCOE) || 0\<close>, which is \<open>0x400\<close>, not 1, when the OE bit is
  set: the array read is \<open>undefined\<close> and \<open>%s\<close> prints it as such.
\<close>

definition dab :: "u32 \<Rightarrow> string \<Rightarrow> nat \<Rightarrow> nat \<Rightarrow> nat \<Rightarrow> int \<Rightarrow> nat \<Rightarrow> dstate \<Rightarrow> dstate" where
  "dab inVal name msk smode chkoe chkrc dmode st =
    (if chkrc \<ge> 0 \<and> uint (inVal AND 1) \<noteq> chkrc then ill inVal st
     else
       (let st = st\<lparr>m_flags := m_flags st OR dmode\<rparr>;
            inVal = (if smode \<noteq> 0 then swapda inVal else inVal);
            oe = (if chkoe \<noteq> 0 then unat (inVal AND PPCOE) else 0);
            rc = (if chkrc < 0 then unat (inVal AND 1) else 0)
        in set_ops (name @ nth_str oesel oe @ nth_str rcsel rc) (rd_ra_rb inVal msk) st))"

definition rrn :: "u32 \<Rightarrow> string \<Rightarrow> nat \<Rightarrow> nat \<Rightarrow> int \<Rightarrow> nat \<Rightarrow> dstate \<Rightarrow> dstate" where
  "rrn inVal name smode chkoe chkrc dmode st =
    (if chkrc \<ge> 0 \<and> uint (inVal AND 1) \<noteq> chkrc then ill inVal st
     else
       (let st = st\<lparr>m_flags := m_flags st OR dmode\<rparr>;
            inVal = (if smode \<noteq> 0 then swapda inVal else inVal);
            oe = (if chkoe \<noteq> 0 then unat (inVal AND PPCOE) else 0);
            rc = (if chkrc < 0 then unat (inVal AND 1) else 0)
        in set_ops (name @ nth_str oesel oe @ nth_str rcsel rc)
             (rd_ra_rb inVal 6 @ '','' @ dec_str (PPCGETB inVal)) st))"

definition mtcr :: "u32 \<Rightarrow> dstate \<Rightarrow> dstate" where
  "mtcr inVal st =
    (let s = PPCGETD inVal; crm = unat (drop_bit 12 (inVal AND 0x000ff000))
     in if inVal AND 0x00100801 \<noteq> 0 then ill inVal st
        else
          (let st = st\<lparr>m_opcode := ''mtcr'' @ (if crm = 0xff then [] else ''f'')\<rparr>;
               st = (if crm \<noteq> 0xff
                     then st\<lparr>m_operands := m_operands st @ ''0x'' @ fmt_02x (int crm) @ '',''\<rparr>
                     else st)
           in st\<lparr>m_operands := m_operands st @ regname s\<rparr>))"

definition msr :: "u32 \<Rightarrow> nat \<Rightarrow> dstate \<Rightarrow> dstate" where
  "msr inVal smode st =
    (let s = PPCGETD inVal; sr = unat (drop_bit 16 (inVal AND 0x000f0000))
     in if inVal AND 0x0010f801 \<noteq> 0 then ill inVal st
        else
          (let st = st\<lparr>m_flags := m_flags st OR PPCF_SUPER\<rparr>;
               st = st\<lparr>m_opcode := ''m'' @ (if smode \<noteq> 0 then ''t'' else ''f'') @ ''sr''\<rparr>
           in if smode \<noteq> 0 then st\<lparr>m_operands := dec_str sr @ '', '' @ regname s\<rparr>
              else st\<lparr>m_operands := regname s @ '', '' @ dec_str sr\<rparr>))"

definition mspr :: "u32 \<Rightarrow> nat \<Rightarrow> dstate \<Rightarrow> dstate" where
  "mspr inVal smode st =
    (let d = PPCGETD inVal; spr = PPCGETB inVal * 32 + PPCGETA inVal
     in if inVal AND 1 \<noteq> 0 then ill inVal st
        else
          (let st = (if spr \<noteq> 1 \<and> spr \<noteq> 8 \<and> spr \<noteq> 9
                     then st\<lparr>m_flags := m_flags st OR PPCF_SUPER\<rparr> else st);
               x = (if spr = 1 then ''xer'' else if spr = 8 then ''lr''
                    else if spr = 9 then ''ctr'' else ''spr'');
               fmt = (if spr = 1 \<or> spr = 8 \<or> spr = 9 then (0::nat) else 1);
               st = st\<lparr>m_opcode := ''m'' @ (if smode \<noteq> 0 then ''t'' else ''f'') @ x\<rparr>
           in if fmt \<noteq> 0 then
                (if smode \<noteq> 0 then st\<lparr>m_operands := spr_name spr @ '', '' @ regname d\<rparr>
                 else st\<lparr>m_operands := regname d @ '', '' @ spr_name spr\<rparr>)
              else st\<lparr>m_operands := regname d\<rparr>))"

definition mtb :: "u32 \<Rightarrow> dstate \<Rightarrow> dstate" where
  "mtb inVal st =
    (let d = PPCGETD inVal; tbr = PPCGETB inVal * 32 + PPCGETA inVal
     in if inVal AND 1 \<noteq> 0 then ill inVal st
        else
          (let st = st\<lparr>m_operands := m_operands st @ regname d\<rparr>;
               x = (if tbr = 268 then ''l'' else if tbr = 269 then ''u'' else []);
               st = (if tbr = 268 \<or> tbr = 269 then st
                     else st\<lparr>m_flags := m_flags st OR PPCF_SUPER,
                            m_operands := m_operands st @ '','' @ dec_str tbr\<rparr>)
           in st\<lparr>m_opcode := ''mftb'' @ x\<rparr>))"

definition sradi :: "u32 \<Rightarrow> dstate \<Rightarrow> dstate" where
  "sradi inVal st =
    (let s = PPCGETD inVal; a = PPCGETA inVal;
         bsh = unat (push_bit 4 (inVal AND 2)) + PPCGETB inVal;
         st = st\<lparr>m_flags := m_flags st OR PPCF_SIXTY_FOUR\<rparr>
     in set_ops (''sradi'' @ (if inVal AND 1 \<noteq> 0 then ''.'' else []))
          (regname a @ '', '' @ regname s @ '', '' @ dec_str bsh) st)"

definition ldst :: "u32 \<Rightarrow> string \<Rightarrow> string \<Rightarrow> nat \<Rightarrow> dstate \<Rightarrow> dstate" where
  "ldst inVal name reg dmode st =
    (let s = PPCGETD inVal; a = PPCGETA inVal; d = unat (inVal AND 0xffff);
         st = st\<lparr>m_type := PPCINSTR_LDST, m_flags := m_flags st OR dmode, m_sreg := a,
                m_displacement := int d, m_opcode := name\<rparr>
     in if reg = ''r''
        then st\<lparr>m_operands := regname s @ '', '' @ ldst_offs d @ '' ('' @ regname a @ '')''\<rparr>
        else st\<lparr>m_operands := reg @ dec_str s @ '', '' @ ldst_offs d @ '' ('' @ regname a @ '')''\<rparr>)"

definition fdabc :: "u32 \<Rightarrow> string \<Rightarrow> nat \<Rightarrow> nat \<Rightarrow> dstate \<Rightarrow> dstate" where
  "fdabc inVal name msk dmode st =
    (let err = (0::nat);
         st = st\<lparr>m_flags := m_flags st OR dmode\<rparr>;
         st = st\<lparr>m_opcode := ''f'' @ name @ nth_str rcsel (unat (inVal AND 1))\<rparr>;
         st = st\<lparr>m_operands := m_operands st @ ''f'' @ dec_str (PPCGETD inVal) @ '',''\<rparr>;
         st = (if msk AND 4 \<noteq> 0
               then st\<lparr>m_operands := m_operands st @ ''f'' @ dec_str (PPCGETA inVal) @ '',''\<rparr>
               else st);
         err = (if msk AND 4 = 0 \<and> msk AND 8 = 0 then err OR PPCGETA inVal else err);
         st = (if msk AND 2 \<noteq> 0
               then st\<lparr>m_operands := m_operands st @ ''f'' @ dec_str (PPCGETC inVal) @ '',''\<rparr>
               else st);
         err = (if msk AND 2 = 0 \<and> PPCGETC inVal \<noteq> 0 \<and> msk AND 8 = 0
                then err OR PPCGETC inVal else err);
         st = (if msk AND 1 \<noteq> 0
               then st\<lparr>m_operands := m_operands st @ ''f'' @ dec_str (PPCGETB inVal) @ '',''\<rparr>
               else st);
         err = (if msk AND 1 = 0 \<and> msk AND 8 = 0 then err OR PPCGETB inVal else err);
         st = st\<lparr>m_operands := butlast (m_operands st)\<rparr>
     in if err \<noteq> 0 then ill inVal st else st)"

definition fmr :: "u32 \<Rightarrow> dstate \<Rightarrow> dstate" where
  "fmr inVal st =
    set_ops (''fmr'' @ nth_str rcsel (unat (inVal AND 1)))
      (''f'' @ dec_str (PPCGETD inVal) @ '', f'' @ dec_str (PPCGETB inVal)) st"

definition fdab :: "u32 \<Rightarrow> string \<Rightarrow> nat \<Rightarrow> dstate \<Rightarrow> dstate" where
  "fdab inVal name msk st = set_ops name (fd_ra_rb inVal msk) st"

definition fcmp :: "u32 \<Rightarrow> string \<Rightarrow> dstate \<Rightarrow> dstate" where
  "fcmp inVal c st =
    (if inVal AND 0x00600001 \<noteq> 0 then ill inVal st
     else set_ops (''fcmp'' @ c)
            (''cr'' @ dec_str (PPCGETCRD inVal) @ '',f'' @ dec_str (PPCGETA inVal)
               @ '',f'' @ dec_str (PPCGETB inVal)) st)"

definition mtfsb :: "u32 \<Rightarrow> nat \<Rightarrow> dstate \<Rightarrow> dstate" where
  "mtfsb inVal n st =
    (if inVal AND (PPCAMASK OR PPCBMASK) \<noteq> 0 then ill inVal st
     else set_ops (''mtfsb'' @ dec_str n @ nth_str rcsel (unat (inVal AND 1)))
            (dec_str (PPCGETD inVal)) st)"

subsection \<open>Paired-single instructions\<close>

text \<open>
  The field accessors read the module-level \<open>pairedInstInput\<close>, which \<open>ps\<close> and
  \<open>ps_mem\<close> set to their argument on entry; here they take it as an argument.
\<close>

definition pairedInst :: "nat \<Rightarrow> u32 \<Rightarrow> u32 \<Rightarrow> nat" where
  "pairedInst shiftAmt msk pairedInstInput = unat (drop_bit shiftAmt pairedInstInput AND msk)"

definition RA :: "u32 \<Rightarrow> nat" where "RA = pairedInst 16 0x1f"
definition RB :: "u32 \<Rightarrow> nat" where "RB = pairedInst 11 0x1f"
definition RS :: "u32 \<Rightarrow> nat" where "RS = pairedInst 21 0x1f"
definition FA :: "u32 \<Rightarrow> nat" where "FA = pairedInst 16 0x1f"
definition FB :: "u32 \<Rightarrow> nat" where "FB = pairedInst 11 0x1f"
definition FC :: "u32 \<Rightarrow> nat" where "FC = pairedInst 6 0x1f"
definition FD :: "u32 \<Rightarrow> nat" where "FD = pairedInst 21 0x1f"
definition FS :: "u32 \<Rightarrow> nat" where "FS = pairedInst 21 0x1f"
definition I_fld :: "u32 \<Rightarrow> nat" where "I_fld = pairedInst 12 0x7"
definition W_fld :: "u32 \<Rightarrow> nat" where "W_fld = pairedInst 15 0x1"
definition IX :: "u32 \<Rightarrow> nat" where "IX = pairedInst 7 0x7"
definition WX :: "u32 \<Rightarrow> nat" where "WX = pairedInst 10 0x1"

definition p_of :: "nat \<Rightarrow> string" where
  "p_of n = ''p'' @ dec_str n"

text \<open>The first \<open>switch\<close> of \<open>ps\<close>, on \<open>(inst >> 1) & 0x1f\<close>; every case returns.\<close>

definition ps_switch5 :: "u32 \<Rightarrow> (nat \<times> (dstate \<Rightarrow> dstate)) list" where
  "ps_switch5 inst =
    [(6, set_ops (if inst AND 0x40 \<noteq> 0 then ''psq_lux'' else ''psq_lx'')
           (p_of (FD inst) @ '', (r'' @ dec_str (RA inst) @ '' + r'' @ dec_str (RB inst) @ ''), ''
              @ dec_str (WX inst) @ '', qr'' @ dec_str (IX inst))),
     (7, set_ops (if inst AND 0x40 \<noteq> 0 then ''psq_stux'' else ''psq_stx'')
           (p_of (FS inst) @ '', r'' @ dec_str (RA inst) @ '', r'' @ dec_str (RB inst) @ '', ''
              @ dec_str (WX inst) @ '', qr'' @ dec_str (IX inst))),
     (18, set_ops ''ps_div'' (p_of (FD inst) @ '', '' @ p_of (FA inst) @ ''/'' @ p_of (FB inst))),
     (20, set_ops ''ps_sub'' (p_of (FD inst) @ '', '' @ p_of (FA inst) @ ''-'' @ p_of (FB inst))),
     (21, set_ops ''ps_add'' (p_of (FD inst) @ '', '' @ p_of (FA inst) @ ''+'' @ p_of (FB inst))),
     (23, set_ops ''ps_sel'' (p_of (FD inst) @ ''>=0?'' @ p_of (FA inst) @ '':'' @ p_of (FC inst))),
     (24, set_ops ''ps_res'' (p_of (FD inst) @ '', (1/'' @ p_of (FB inst) @ '')'')),
     (25, set_ops ''ps_mul'' (p_of (FD inst) @ '', '' @ p_of (FA inst) @ ''*'' @ p_of (FC inst))),
     (26, set_ops ''ps_rsqrte'' (p_of (FD inst) @ '', '' @ p_of (FB inst))),
     (28, set_ops ''ps_msub''
            (p_of (FD inst) @ '', '' @ p_of (FA inst) @ ''*'' @ p_of (FC inst) @ ''-'' @ p_of (FB inst))),
     (29, set_ops ''ps_madd''
            (p_of (FD inst) @ '', '' @ p_of (FA inst) @ ''*'' @ p_of (FC inst) @ ''+'' @ p_of (FB inst))),
     (30, set_ops ''ps_nmsub''
            (p_of (FD inst) @ '', -('' @ p_of (FA inst) @ ''*'' @ p_of (FC inst) @ ''-''
               @ p_of (FB inst) @ '')'')),
     (31, set_ops ''ps_nmadd''
            (p_of (FD inst) @ '', -('' @ p_of (FA inst) @ ''*'' @ p_of (FC inst) @ ''+''
               @ p_of (FB inst) @ '')'')),
     (10, set_ops ''ps_sum0''
            (p_of (FD inst) @ '', 0='' @ p_of (FA inst) @ ''+'' @ p_of (FB inst) @ '', 1=''
               @ p_of (FC inst))),
     (11, set_ops ''ps_sum1''
            (p_of (FD inst) @ '', 0='' @ p_of (FC inst) @ '', 1='' @ p_of (FA inst) @ ''+''
               @ p_of (FB inst))),
     (12, set_ops ''ps_muls0''
            (p_of (FD inst) @ '', '' @ p_of (FA inst) @ ''*'' @ p_of (FC inst) @ ''[0]'')),
     (13, set_ops ''ps_muls1''
            (p_of (FD inst) @ '', '' @ p_of (FA inst) @ ''*'' @ p_of (FC inst) @ ''[1]'')),
     (14, set_ops ''ps_madds0''
            (p_of (FD inst) @ '', '' @ p_of (FA inst) @ ''*'' @ p_of (FC inst) @ ''[0]+''
               @ p_of (FB inst))),
     (15, set_ops ''ps_madds1''
            (p_of (FD inst) @ '', '' @ p_of (FA inst) @ ''*'' @ p_of (FC inst) @ ''[1]+''
               @ p_of (FB inst)))]"

definition ps_cmp :: "u32 \<Rightarrow> dstate \<Rightarrow> dstate" where
  "ps_cmp inst st =
    (let st = st\<lparr>m_opcode := nth_str ps_cmpname (unat (drop_bit 6 inst AND 0x3))\<rparr>;
         i = PPCGETCRD inst;
         st = (if i \<noteq> 0 then st\<lparr>m_operands := m_operands st @ ''cr'' @ dec_str i @ '', ''\<rparr>
               else st)
     in st\<lparr>m_operands := m_operands st @ p_of (FA inst) @ '', '' @ p_of (FB inst)\<rparr>)"

text \<open>The second \<open>switch\<close> of \<open>ps\<close>, on \<open>(inst >> 1) & 0x3ff\<close>; every case returns.\<close>

definition ps_switch10 :: "u32 \<Rightarrow> (nat \<times> (dstate \<Rightarrow> dstate)) list" where
  "ps_switch10 inst =
    [(40, set_ops ''ps_neg'' (p_of (FD inst) @ '', -'' @ p_of (FB inst))),
     (72, set_ops ''ps_mr'' (p_of (FD inst) @ '', '' @ p_of (FB inst))),
     (136, set_ops ''ps_nabs'' (p_of (FD inst) @ '', -|'' @ p_of (FB inst) @ ''|'')),
     (264, set_ops ''ps_abs'' (p_of (FD inst) @ '', |'' @ p_of (FB inst) @ ''|'')),
     (0, ps_cmp inst),
     (32, ps_cmp inst),
     (64, ps_cmp inst),
     (96, ps_cmp inst),
     (528, set_ops ''ps_merge00''
             (p_of (FD inst) @ '', '' @ p_of (FA inst) @ ''[0],'' @ p_of (FB inst) @ ''[0]'')),
     (560, set_ops ''ps_merge01''
             (p_of (FD inst) @ '', '' @ p_of (FA inst) @ ''[0],'' @ p_of (FB inst) @ ''[1]'')),
     (592, set_ops ''ps_merge10''
             (p_of (FD inst) @ '', '' @ p_of (FA inst) @ ''[1],'' @ p_of (FB inst) @ ''[0]'')),
     (624, set_ops ''ps_merge11''
             (p_of (FD inst) @ '', '' @ p_of (FA inst) @ ''[1],'' @ p_of (FB inst) @ ''[1]'')),
     (1014, \<lambda>st. if inst AND PPCDMASK \<noteq> 0 then ill inst st
                  else dab inst ''dcbz_l'' 3 0 0 0 0 st)]"

definition ps :: "u32 \<Rightarrow> dstate \<Rightarrow> dstate" where
  "ps inst st =
    (case map_of (ps_switch5 inst) (unat (drop_bit 1 inst AND 0x1f)) of
       Some f \<Rightarrow> f st
     | None \<Rightarrow>
         (case map_of (ps_switch10 inst) (unat (drop_bit 1 inst AND 0x3ff)) of
            Some f \<Rightarrow> f st
          | None \<Rightarrow> set_ops (''ps_'' @ dec_str (unat (drop_bit 1 inst AND 0x1f))) ''---'' st))"

definition psq_operands :: "u32 \<Rightarrow> string" where
  "psq_operands inst =
    p_of (RS inst) @ '', '' @ str_of_int (SEX12 (inst AND 0xfff)) @ ''(r'' @ dec_str (RA inst)
      @ ''), '' @ dec_str (W_fld inst) @ '', qr'' @ dec_str (I_fld inst)"

definition ps_mem :: "u32 \<Rightarrow> dstate \<Rightarrow> dstate" where
  "ps_mem inst st =
    (let idx = PPCGETIDX inst
     in if idx = 56 then set_ops ''psq_l'' (psq_operands inst) st
        else if idx = 57 then set_ops ''psq_lu'' (psq_operands inst) st
        else if idx = 60 then set_ops ''psq_st'' (psq_operands inst) st
        else if idx = 61 then set_ops ''psq_stu'' (psq_operands inst) st
        else st)"

subsection \<open>The nested switches of \<open>doDisassembly\<close>\<close>

text \<open>
  Each \<open>switch\<close> is a table from case label to case body, searched with
  \<open>map_of\<close>; the labels of a switch are distinct and every \<open>default\<close> is
  \<open>ill(inVal)\<close>.  \<open>(PPCOE >> 1) + n\<close> is \<open>512 + n\<close>.
\<close>

text \<open>Primary opcode 30, on \<open>(inVal >> 2) & 0x7\<close>.\<close>

definition switch30 :: "(nat \<times> (u32 \<Rightarrow> dstate \<Rightarrow> dstate)) list" where
  "switch30 =
    [(0, \<lambda>inVal st. rld inVal ''icl'' 0 st),
     (1, \<lambda>inVal st. rld inVal ''icr'' 0 st),
     (2, \<lambda>inVal st. rld inVal ''ic'' 0 st),
     (3, \<lambda>inVal st. rld inVal ''imi'' 0 st),
     (4, \<lambda>inVal st. rld inVal (if inVal AND 2 \<noteq> 0 then ''cl'' else ''cr'') 1 st)]"

text \<open>Primary opcode 31, on \<open>PPCGETIDX2(inVal)\<close>.\<close>

definition switch31 :: "(nat \<times> (u32 \<Rightarrow> dstate \<Rightarrow> dstate)) list" where
  "switch31 =
    [(0, \<lambda>inVal st. if inVal AND 1 \<noteq> 0 then ill inVal st else cmp inVal st),
     (32, \<lambda>inVal st. if inVal AND 1 \<noteq> 0 then ill inVal st else cmp inVal st),
     (4, \<lambda>inVal st. if inVal AND 1 \<noteq> 0 then ill inVal st else trap inVal 0 st),
     (8, \<lambda>inVal st. dab (swapab inVal) ''subc'' 7 0 1 (-1) 0 st),
     (520, \<lambda>inVal st. dab (swapab inVal) ''subc'' 7 0 1 (-1) 0 st),
     (9, \<lambda>inVal st. dab inVal ''mulhdu'' 7 0 0 (-1) PPCF_SIXTY_FOUR st),
     (10, \<lambda>inVal st. dab inVal ''addc'' 7 0 1 (-1) 0 st),
     (522, \<lambda>inVal st. dab inVal ''addc'' 7 0 1 (-1) 0 st),
     (11, \<lambda>inVal st. dab inVal ''mulhwu'' 7 0 0 (-1) 0 st),
     (19, \<lambda>inVal st. if inVal AND (PPCAMASK OR PPCBMASK) \<noteq> 0 then ill inVal st else dab inVal ''mfcr'' 4 0 0 0 0 st),
     (20, \<lambda>inVal st. dab inVal ''lwarx'' 7 0 0 0 0 st),
     (21, \<lambda>inVal st. dab inVal ''ldx'' 7 0 0 0 PPCF_SIXTY_FOUR st),
     (23, \<lambda>inVal st. dab inVal ''lwzx'' 7 0 0 0 0 st),
     (24, \<lambda>inVal st. dab inVal ''slw'' 7 1 0 (-1) 0 st),
     (26, \<lambda>inVal st. if inVal AND PPCBMASK \<noteq> 0 then ill inVal st else dab inVal ''cntlzw'' 6 1 0 (-1) 0 st),
     (27, \<lambda>inVal st. dab inVal ''sld'' 7 1 0 (-1) PPCF_SIXTY_FOUR st),
     (28, \<lambda>inVal st. dab inVal ''and'' 7 1 0 (-1) 0 st),
     (40, \<lambda>inVal st. dab (swapab inVal) ''sub'' 7 0 1 (-1) 0 st),
     (552, \<lambda>inVal st. dab (swapab inVal) ''sub'' 7 0 1 (-1) 0 st),
     (53, \<lambda>inVal st. dab inVal ''ldux'' 7 0 0 0 PPCF_SIXTY_FOUR st),
     (54, \<lambda>inVal st. if inVal AND PPCDMASK \<noteq> 0 then ill inVal st else dab inVal ''dcbst'' 3 0 0 0 0 st),
     (55, \<lambda>inVal st. dab inVal ''lwzux'' 7 0 0 0 0 st),
     (58, \<lambda>inVal st. if inVal AND PPCBMASK \<noteq> 0 then ill inVal st else dab inVal ''cntlzd'' 6 1 0 (-1) PPCF_SIXTY_FOUR st),
     (60, \<lambda>inVal st. dab inVal ''andc'' 7 1 0 (-1) 0 st),
     (68, \<lambda>inVal st. trap inVal PPCF_SIXTY_FOUR st),
     (73, \<lambda>inVal st. dab inVal ''mulhd'' 7 0 0 (-1) PPCF_SIXTY_FOUR st),
     (75, \<lambda>inVal st. dab inVal ''mulhw'' 7 0 0 (-1) 0 st),
     (83, \<lambda>inVal st. if inVal AND (PPCAMASK OR PPCBMASK) \<noteq> 0 then ill inVal st else dab inVal ''mfmsr'' 4 0 0 0 PPCF_SUPER st),
     (84, \<lambda>inVal st. dab inVal ''ldarx'' 7 0 0 0 PPCF_SIXTY_FOUR st),
     (86, \<lambda>inVal st. if inVal AND PPCDMASK \<noteq> 0 then ill inVal st else dab inVal ''dcbf'' 3 0 0 0 0 st),
     (87, \<lambda>inVal st. dab inVal ''lbzx'' 7 0 0 0 0 st),
     (104, \<lambda>inVal st. if inVal AND PPCBMASK \<noteq> 0 then ill inVal st else dab inVal ''neg'' 6 0 1 (-1) 0 st),
     (616, \<lambda>inVal st. if inVal AND PPCBMASK \<noteq> 0 then ill inVal st else dab inVal ''neg'' 6 0 1 (-1) 0 st),
     (119, \<lambda>inVal st. dab inVal ''lbzux'' 7 0 0 0 0 st),
     (124, \<lambda>inVal st. if PPCGETD inVal = PPCGETB inVal then dab inVal ''not'' 6 1 0 (-1) 0 st else dab inVal ''nor'' 7 1 0 (-1) 0 st),
     (136, \<lambda>inVal st. dab inVal ''subfe'' 7 0 1 (-1) 0 st),
     (648, \<lambda>inVal st. dab inVal ''subfe'' 7 0 1 (-1) 0 st),
     (138, \<lambda>inVal st. dab inVal ''adde'' 7 0 1 (-1) 0 st),
     (650, \<lambda>inVal st. dab inVal ''adde'' 7 0 1 (-1) 0 st),
     (144, \<lambda>inVal st. mtcr inVal st),
     (146, \<lambda>inVal st. if inVal AND (PPCAMASK OR PPCBMASK) \<noteq> 0 then ill inVal st else dab inVal ''mtmsr'' 4 0 0 0 PPCF_SUPER st),
     (149, \<lambda>inVal st. dab inVal ''stdx'' 7 0 0 0 PPCF_SIXTY_FOUR st),
     (150, \<lambda>inVal st. dab inVal ''stwcx.'' 7 0 0 1 0 st),
     (151, \<lambda>inVal st. dab inVal ''stwx'' 7 0 0 0 0 st),
     (181, \<lambda>inVal st. dab inVal ''stdux'' 7 0 0 0 PPCF_SIXTY_FOUR st),
     (183, \<lambda>inVal st. dab inVal ''stwux'' 7 0 0 0 0 st),
     (200, \<lambda>inVal st. if inVal AND PPCBMASK \<noteq> 0 then ill inVal st else dab inVal ''subfze'' 6 0 1 (-1) 0 st),
     (712, \<lambda>inVal st. if inVal AND PPCBMASK \<noteq> 0 then ill inVal st else dab inVal ''subfze'' 6 0 1 (-1) 0 st),
     (202, \<lambda>inVal st. if inVal AND PPCBMASK \<noteq> 0 then ill inVal st else dab inVal ''addze'' 6 0 1 (-1) 0 st),
     (714, \<lambda>inVal st. if inVal AND PPCBMASK \<noteq> 0 then ill inVal st else dab inVal ''addze'' 6 0 1 (-1) 0 st),
     (210, \<lambda>inVal st. msr inVal 1 st),
     (214, \<lambda>inVal st. dab inVal ''stdcx.'' 7 0 0 1 PPCF_SIXTY_FOUR st),
     (215, \<lambda>inVal st. dab inVal ''stbx'' 7 0 0 0 0 st),
     (232, \<lambda>inVal st. if inVal AND PPCBMASK \<noteq> 0 then ill inVal st else dab inVal ''subfme'' 6 0 1 (-1) 0 st),
     (744, \<lambda>inVal st. if inVal AND PPCBMASK \<noteq> 0 then ill inVal st else dab inVal ''subfme'' 6 0 1 (-1) 0 st),
     (233, \<lambda>inVal st. dab inVal ''mulld'' 7 0 1 (-1) PPCF_SIXTY_FOUR st),
     (745, \<lambda>inVal st. dab inVal ''mulld'' 7 0 1 (-1) PPCF_SIXTY_FOUR st),
     (234, \<lambda>inVal st. if inVal AND PPCBMASK \<noteq> 0 then ill inVal st else dab inVal ''addme'' 6 0 1 (-1) 0 st),
     (746, \<lambda>inVal st. if inVal AND PPCBMASK \<noteq> 0 then ill inVal st else dab inVal ''addme'' 6 0 1 (-1) 0 st),
     (235, \<lambda>inVal st. dab inVal ''mullw'' 7 0 1 (-1) 0 st),
     (747, \<lambda>inVal st. dab inVal ''mullw'' 7 0 1 (-1) 0 st),
     (242, \<lambda>inVal st. if inVal AND PPCAMASK \<noteq> 0 then ill inVal st else dab inVal ''mtsrin'' 5 0 0 0 PPCF_SUPER st),
     (246, \<lambda>inVal st. if inVal AND PPCDMASK \<noteq> 0 then ill inVal st else dab inVal ''dcbtst'' 3 0 0 0 0 st),
     (247, \<lambda>inVal st. dab inVal ''stbux'' 7 0 0 0 0 st),
     (266, \<lambda>inVal st. dab inVal ''add'' 7 0 1 (-1) 0 st),
     (778, \<lambda>inVal st. dab inVal ''add'' 7 0 1 (-1) 0 st),
     (278, \<lambda>inVal st. if inVal AND PPCDMASK \<noteq> 0 then ill inVal st else dab inVal ''dcbt'' 3 0 0 0 0 st),
     (279, \<lambda>inVal st. dab inVal ''lhzx'' 7 0 0 0 0 st),
     (284, \<lambda>inVal st. dab inVal ''eqv'' 7 1 0 (-1) 0 st),
     (306, \<lambda>inVal st. if inVal AND (PPCDMASK OR PPCAMASK) \<noteq> 0 then ill inVal st else dab inVal ''tlbie'' 1 0 0 0 PPCF_SUPER st),
     (310, \<lambda>inVal st. dab inVal ''eciwx'' 7 0 0 0 0 st),
     (311, \<lambda>inVal st. dab inVal ''lhzux'' 7 0 0 0 0 st),
     (316, \<lambda>inVal st. dab inVal ''xor'' 7 1 0 (-1) 0 st),
     (339, \<lambda>inVal st. mspr inVal 0 st),
     (341, \<lambda>inVal st. dab inVal ''lwax'' 7 0 0 0 PPCF_SIXTY_FOUR st),
     (343, \<lambda>inVal st. dab inVal ''lhax'' 7 0 0 0 0 st),
     (370, \<lambda>inVal st. nooper inVal ''tlbia'' PPCF_SUPER st),
     (371, \<lambda>inVal st. mtb inVal st),
     (373, \<lambda>inVal st. dab inVal ''lwaux'' 7 0 0 0 PPCF_SIXTY_FOUR st),
     (375, \<lambda>inVal st. dab inVal ''lhaux'' 7 0 0 0 0 st),
     (407, \<lambda>inVal st. dab inVal ''sthx'' 7 0 0 0 0 st),
     (412, \<lambda>inVal st. dab inVal ''orc'' 7 1 0 (-1) 0 st),
     (413, \<lambda>inVal st. sradi inVal st),
     (434, \<lambda>inVal st. if inVal AND (PPCDMASK OR PPCAMASK) \<noteq> 0 then ill inVal st else dab inVal ''slbie'' 1 0 0 0 (PPCF_SUPER OR PPCF_SIXTY_FOUR) st),
     (438, \<lambda>inVal st. dab inVal ''ecowx'' 7 0 0 0 0 st),
     (439, \<lambda>inVal st. dab inVal ''sthux'' 7 0 0 0 0 st),
     (444, \<lambda>inVal st. if PPCGETD inVal = PPCGETB inVal then dab inVal ''mr'' 6 1 0 (-1) 0 st else dab inVal ''or'' 7 1 0 (-1) 0 st),
     (457, \<lambda>inVal st. dab inVal ''divdu'' 7 0 1 (-1) PPCF_SIXTY_FOUR st),
     (969, \<lambda>inVal st. dab inVal ''divdu'' 7 0 1 (-1) PPCF_SIXTY_FOUR st),
     (459, \<lambda>inVal st. dab inVal ''divwu'' 7 0 1 (-1) 0 st),
     (971, \<lambda>inVal st. dab inVal ''divwu'' 7 0 1 (-1) 0 st),
     (467, \<lambda>inVal st. mspr inVal 1 st),
     (470, \<lambda>inVal st. if inVal AND PPCDMASK \<noteq> 0 then ill inVal st else dab inVal ''dcbi'' 3 0 0 0 0 st),
     (476, \<lambda>inVal st. dab inVal ''nand'' 7 1 0 (-1) 0 st),
     (489, \<lambda>inVal st. dab inVal ''divd'' 7 0 1 (-1) PPCF_SIXTY_FOUR st),
     (1001, \<lambda>inVal st. dab inVal ''divd'' 7 0 1 (-1) PPCF_SIXTY_FOUR st),
     (491, \<lambda>inVal st. dab inVal ''divw'' 7 0 1 (-1) 0 st),
     (1003, \<lambda>inVal st. dab inVal ''divw'' 7 0 1 (-1) 0 st),
     (498, \<lambda>inVal st. nooper inVal ''slbia'' (PPCF_SUPER OR PPCF_SIXTY_FOUR) st),
     (512, \<lambda>inVal st. if inVal AND 0x007ff801 \<noteq> 0 then ill inVal st else set_ops ''mcrxr'' (''cr'' @ dec_str (PPCGETCRD inVal)) st),
     (533, \<lambda>inVal st. dab inVal ''lswx'' 7 0 0 0 0 st),
     (534, \<lambda>inVal st. dab inVal ''lwbrx'' 7 0 0 0 0 st),
     (535, \<lambda>inVal st. fdab inVal ''lfsx'' 7 st),
     (536, \<lambda>inVal st. dab inVal ''srw'' 7 1 0 (-1) 0 st),
     (539, \<lambda>inVal st. dab inVal ''srd'' 7 1 0 (-1) PPCF_SIXTY_FOUR st),
     (566, \<lambda>inVal st. nooper inVal ''tlbsync'' PPCF_SUPER st),
     (567, \<lambda>inVal st. fdab inVal ''lfsux'' 7 st),
     (595, \<lambda>inVal st. msr inVal 0 st),
     (597, \<lambda>inVal st. rrn inVal ''lswi'' 0 0 0 0 st),
     (598, \<lambda>inVal st. nooper inVal ''sync'' PPCF_SUPER st),
     (599, \<lambda>inVal st. fdab inVal ''lfdx'' 7 st),
     (631, \<lambda>inVal st. fdab inVal ''lfdux'' 7 st),
     (659, \<lambda>inVal st. if inVal AND PPCAMASK \<noteq> 0 then ill inVal st else dab inVal ''mfsrin'' 5 0 0 0 PPCF_SUPER st),
     (661, \<lambda>inVal st. dab inVal ''stswx'' 7 0 0 0 0 st),
     (662, \<lambda>inVal st. dab inVal ''stwbrx'' 7 0 0 0 0 st),
     (663, \<lambda>inVal st. fdab inVal ''stfsx'' 7 st),
     (695, \<lambda>inVal st. fdab inVal ''stfsux'' 7 st),
     (725, \<lambda>inVal st. rrn inVal ''stswi'' 0 0 0 0 st),
     (727, \<lambda>inVal st. fdab inVal ''stfdx'' 7 st),
     (759, \<lambda>inVal st. fdab inVal ''stfdux'' 7 st),
     (790, \<lambda>inVal st. dab inVal ''lhbrx'' 7 0 0 0 0 st),
     (792, \<lambda>inVal st. dab inVal ''sraw'' 7 1 0 (-1) 0 st),
     (794, \<lambda>inVal st. dab inVal ''srad'' 7 1 0 (-1) PPCF_SIXTY_FOUR st),
     (824, \<lambda>inVal st. rrn inVal ''srawi'' 1 0 (-1) 0 st),
     (854, \<lambda>inVal st. nooper inVal ''eieio'' PPCF_SUPER st),
     (918, \<lambda>inVal st. dab inVal ''sthbrx'' 7 0 0 0 0 st),
     (922, \<lambda>inVal st. if inVal AND PPCBMASK \<noteq> 0 then ill inVal st else dab inVal ''extsh'' 6 1 0 (-1) 0 st),
     (954, \<lambda>inVal st. if inVal AND PPCBMASK \<noteq> 0 then ill inVal st else dab inVal ''extsb'' 6 1 0 (-1) 0 st),
     (982, \<lambda>inVal st. if inVal AND PPCDMASK \<noteq> 0 then ill inVal st else dab inVal ''icbi'' 3 0 0 0 0 st),
     (983, \<lambda>inVal st. fdab inVal ''stfiwx'' 7 st),
     (986, \<lambda>inVal st. if inVal AND PPCBMASK \<noteq> 0 then ill inVal st else dab inVal ''extsw'' 6 1 0 (-1) PPCF_SIXTY_FOUR st),
     (1014, \<lambda>inVal st. if inVal AND PPCDMASK \<noteq> 0 then ill inVal st else dab inVal ''dcbz'' 3 0 0 0 0 st)]"

text \<open>Primary opcode 58, on \<open>inVal & 3\<close>.\<close>

definition switch58 :: "(nat \<times> (u32 \<Rightarrow> dstate \<Rightarrow> dstate)) list" where
  "switch58 =
    [(0, \<lambda>inVal st. ldst (inVal AND NOT 3) ''ld'' ''r'' PPCF_SIXTY_FOUR st),
     (1, \<lambda>inVal st. ldst (inVal AND NOT 3) ''ldu'' ''r'' PPCF_SIXTY_FOUR st),
     (2, \<lambda>inVal st. ldst (inVal AND NOT 3) ''lwa'' ''r'' PPCF_SIXTY_FOUR st)]"

text \<open>Primary opcode 59, on \<open>inVal & 0x3e\<close>.\<close>

definition switch59 :: "(nat \<times> (u32 \<Rightarrow> dstate \<Rightarrow> dstate)) list" where
  "switch59 =
    [(36, \<lambda>inVal st. fdabc inVal ''divs'' 5 0 st),
     (40, \<lambda>inVal st. fdabc inVal ''subs'' 5 0 st),
     (42, \<lambda>inVal st. fdabc inVal ''adds'' 5 0 st),
     (44, \<lambda>inVal st. fdabc inVal ''sqrts'' 1 0 st),
     (48, \<lambda>inVal st. fdabc inVal ''res'' 1 0 st),
     (50, \<lambda>inVal st. fdabc inVal ''muls'' 6 0 st),
     (56, \<lambda>inVal st. fdabc inVal ''msubs'' 7 0 st),
     (58, \<lambda>inVal st. fdabc inVal ''madds'' 7 0 st),
     (60, \<lambda>inVal st. fdabc inVal ''nmsubs'' 7 0 st),
     (62, \<lambda>inVal st. fdabc inVal ''nmadds'' 7 0 st)]"

text \<open>Primary opcode 62, on \<open>inVal & 3\<close>.\<close>

definition switch62 :: "(nat \<times> (u32 \<Rightarrow> dstate \<Rightarrow> dstate)) list" where
  "switch62 =
    [(0, \<lambda>inVal st. ldst (inVal AND NOT 3) ''std'' ''r'' PPCF_SIXTY_FOUR st),
     (1, \<lambda>inVal st. ldst (inVal AND NOT 3) ''stdu'' ''r'' PPCF_SIXTY_FOUR st)]"

text \<open>Primary opcode 63 with bit \<open>32\<close> set, on \<open>inVal & 0x1e\<close>.\<close>

definition switch63a :: "(nat \<times> (u32 \<Rightarrow> dstate \<Rightarrow> dstate)) list" where
  "switch63a =
    [(4, \<lambda>inVal st. fdabc inVal ''div'' 5 0 st),
     (8, \<lambda>inVal st. fdabc inVal ''sub'' 5 0 st),
     (10, \<lambda>inVal st. fdabc inVal ''add'' 5 0 st),
     (12, \<lambda>inVal st. fdabc inVal ''sqrt'' 1 0 st),
     (14, \<lambda>inVal st. fdabc inVal ''sel'' 7 0 st),
     (18, \<lambda>inVal st. fdabc inVal ''mul'' 6 0 st),
     (20, \<lambda>inVal st. fdabc inVal ''rsqrte'' 1 0 st),
     (24, \<lambda>inVal st. fdabc inVal ''msub'' 7 0 st),
     (26, \<lambda>inVal st. fdabc inVal ''madd'' 7 0 st),
     (28, \<lambda>inVal st. fdabc inVal ''nmsub'' 7 0 st),
     (30, \<lambda>inVal st. fdabc inVal ''nmadd'' 7 0 st)]"

text \<open>Primary opcode 63 with bit \<open>32\<close> clear, on \<open>PPCGETIDX2(inVal)\<close>.\<close>

definition switch63b :: "(nat \<times> (u32 \<Rightarrow> dstate \<Rightarrow> dstate)) list" where
  "switch63b =
    [(0, \<lambda>inVal st. fcmp inVal ''u'' st),
     (12, \<lambda>inVal st. fdabc inVal ''rsp'' 1 0 st),
     (14, \<lambda>inVal st. fdabc inVal ''ctiw'' 1 0 st),
     (15, \<lambda>inVal st. fdabc inVal ''ctiwz'' 1 0 st),
     (32, \<lambda>inVal st. fcmp inVal ''o'' st),
     (38, \<lambda>inVal st. mtfsb inVal 1 st),
     (40, \<lambda>inVal st. fdabc inVal ''neg'' 9 0 st),
     (64, \<lambda>inVal st. mcrf inVal ''s'' st),
     (70, \<lambda>inVal st. mtfsb inVal 0 st),
     (72, \<lambda>inVal st. fmr inVal st),
     (134, \<lambda>inVal st. if inVal AND 0x006f0800 = 0 then set_ops (''mtfsfi'' @ nth_str rcsel (unat (inVal AND 1))) (''cr'' @ dec_str (PPCGETCRD inVal) @ '','' @ dec_str (unat (drop_bit 12 (inVal AND 0xf000)))) st else ill inVal st),
     (136, \<lambda>inVal st. fdabc inVal ''nabs'' 9 0 st),
     (264, \<lambda>inVal st. fdabc inVal ''abs'' 9 0 st),
     (583, \<lambda>inVal st. if inVal AND (PPCAMASK OR PPCBMASK) \<noteq> 0 then ill inVal st else dab inVal ''mffs'' 4 0 0 (-1) 0 st),
     (711, \<lambda>inVal st. if inVal AND 0x02010000 = 0 then set_ops (''mtfsf'' @ nth_str rcsel (unat (inVal AND 1))) (''0x'' @ fmt_x (uint (drop_bit 17 inVal AND 0xff)) @ '', f'' @ dec_str (PPCGETB inVal)) st else ill inVal st),
     (814, \<lambda>inVal st. fdabc inVal ''fctid'' 9 PPCF_SIXTY_FOUR st),
     (815, \<lambda>inVal st. fdabc inVal ''fctidz'' 9 PPCF_SIXTY_FOUR st),
     (846, \<lambda>inVal st. fdabc inVal ''fcfid'' 9 PPCF_SIXTY_FOUR st)]"

definition run_switch ::
  "(nat \<times> (u32 \<Rightarrow> dstate \<Rightarrow> dstate)) list \<Rightarrow> nat \<Rightarrow> u32 \<Rightarrow> dstate \<Rightarrow> dstate" where
  "run_switch tbl key inVal st =
    (case map_of tbl key of Some body \<Rightarrow> body inVal st | None \<Rightarrow> ill inVal st)"

text \<open>Primary opcode 19, on \<open>PPCGETIDX2(inVal)\<close>; the \<open>crop\<close> cases can raise.\<close>

definition switch19 :: "(nat \<times> (u32 \<Rightarrow> dstate \<Rightarrow> js_error + dstate)) list" where
  "switch19 =
    [(0, \<lambda>inVal st. Inr (mcrf inVal [] st)),
     (16, \<lambda>inVal st. Inr (branch inVal ''lr'' 0 0 st)),
     (33, \<lambda>inVal st. crop inVal ''nor'' (Some ''not'') st),
     (50, \<lambda>inVal st. Inr (nooper inVal ''rfi'' PPCF_SUPER st)),
     (129, \<lambda>inVal st. crop inVal ''andc'' None st),
     (150, \<lambda>inVal st. Inr (nooper inVal ''isync'' 0 st)),
     (193, \<lambda>inVal st. crop inVal ''xor'' (Some ''clr'') st),
     (225, \<lambda>inVal st. crop inVal ''nand'' None st),
     (257, \<lambda>inVal st. crop inVal ''and'' None st),
     (289, \<lambda>inVal st. crop inVal ''eqv'' (Some ''set'') st),
     (417, \<lambda>inVal st. crop inVal ''orc'' None st),
     (449, \<lambda>inVal st. crop inVal ''or'' (Some ''move'') st),
     (528, \<lambda>inVal st. Inr (branch inVal ''ctr'' 0 0 st))]"

subsection \<open>\<open>doDisassembly\<close> and \<open>disassemble\<close>\<close>

text \<open>
  The outer \<open>switch\<close> on the primary opcode \<open>PPCGETIDX(inVal)\<close>, in the order of the
  source.  Primary opcodes without a case (0, 1, 5, 6, 9, 22) take the \<open>default\<close>,
  \<open>ill(inVal)\<close>.
\<close>

definition ldst_int :: "u32 \<Rightarrow> dstate \<Rightarrow> js_error + dstate" where
  "ldst_int inVal st = Inr (ldst inVal (nth_str ldstnames (PPCGETIDX inVal - 32)) ''r'' 0 st)"

definition ldst_float :: "u32 \<Rightarrow> dstate \<Rightarrow> js_error + dstate" where
  "ldst_float inVal st = Inr (ldst inVal (nth_str ldstnames (PPCGETIDX inVal - 32)) ''f'' 0 st)"

definition top_switch :: "int \<Rightarrow> (nat \<times> (u32 \<Rightarrow> dstate \<Rightarrow> js_error + dstate)) list" where
  "top_switch m_iaddr =
    [(2, \<lambda>inVal st. Inr (trapi inVal PPCF_SIXTY_FOUR st)),
     (3, \<lambda>inVal st. Inr (trapi inVal 0 st)),
     (4, \<lambda>inVal st. Inr (ps inVal st)),
     (56, \<lambda>inVal st. Inr (ps_mem inVal st)),
     (57, \<lambda>inVal st. Inr (ps_mem inVal st)),
     (60, \<lambda>inVal st. Inr (ps_mem inVal st)),
     (61, \<lambda>inVal st. Inr (ps_mem inVal st)),
     (7, \<lambda>inVal st. Inr (let st = st\<lparr>m_opcode := ''mulli''\<rparr>; r = imm inVal 0 0 False st
                          in (snd r)\<lparr>m_operands := fst r\<rparr>)),
     (8, \<lambda>inVal st. Inr (let st = st\<lparr>m_opcode := ''subfic''\<rparr>; r = imm inVal 0 0 False st
                          in (snd r)\<lparr>m_operands := fst r\<rparr>)),
     (10, \<lambda>inVal st. Inr (cmpi inVal 1 st)),
     (11, \<lambda>inVal st. Inr (cmpi inVal 0 st)),
     (12, \<lambda>inVal st. Inr (addi inVal ''ic'' st)),
     (13, \<lambda>inVal st. Inr (addi inVal ''ic.'' st)),
     (14, \<lambda>inVal st. Inr (addi inVal ''i'' st)),
     (15, \<lambda>inVal st. Inr (addi inVal ''is'' st)),
     (16, \<lambda>inVal st. Inr (bc m_iaddr inVal st)),
     (17, \<lambda>inVal st. Inr (if inVal AND NOT PPCIDXMASK = 2 then st\<lparr>m_opcode := ''sc''\<rparr>
                           else ill inVal st)),
     (18, \<lambda>inVal st. Inr (bli m_iaddr inVal st)),
     (19, \<lambda>inVal st. (case map_of switch19 (PPCGETIDX2 inVal) of
                          Some body \<Rightarrow> body inVal st
                        | None \<Rightarrow> Inr (ill inVal st))),
     (20, \<lambda>inVal st. Inr (rlw inVal ''imi'' 0 st)),
     (21, \<lambda>inVal st. Inr (rlw inVal ''inm'' 0 st)),
     (23, \<lambda>inVal st. Inr (rlw inVal ''nm'' 1 st)),
     (24, \<lambda>inVal st. Inr (if inVal AND NOT PPCIDXMASK \<noteq> 0 then ori inVal ''ori'' st
                           else st\<lparr>m_opcode := ''nop''\<rparr>)),
     (25, \<lambda>inVal st. Inr (ori inVal ''oris'' st)),
     (26, \<lambda>inVal st. Inr (ori inVal ''xori'' st)),
     (27, \<lambda>inVal st. Inr (ori inVal ''xoris'' st)),
     (28, \<lambda>inVal st. Inr (ori inVal ''andi.'' st)),
     (29, \<lambda>inVal st. Inr (ori inVal ''andis.'' st)),
     (30, \<lambda>inVal st. Inr (run_switch switch30 (unat (drop_bit 2 inVal AND 0x7)) inVal st)),
     (31, \<lambda>inVal st. Inr (run_switch switch31 (PPCGETIDX2 inVal) inVal st)),
     (32, ldst_int), (33, ldst_int), (34, ldst_int), (35, ldst_int),
     (36, ldst_int), (37, ldst_int), (38, ldst_int), (39, ldst_int),
     (40, ldst_int), (41, ldst_int), (42, ldst_int), (43, ldst_int),
     (44, ldst_int), (45, ldst_int), (46, ldst_int), (47, ldst_int),
     (48, ldst_float), (49, ldst_float), (50, ldst_float), (51, ldst_float),
     (52, ldst_float), (53, ldst_float), (54, ldst_float), (55, ldst_float),
     (58, \<lambda>inVal st. Inr (run_switch switch58 (unat (inVal AND 3)) inVal st)),
     (59, \<lambda>inVal st. Inr (run_switch switch59 (unat (inVal AND 0x3e)) inVal st)),
     (62, \<lambda>inVal st. Inr (run_switch switch62 (unat (inVal AND 3)) inVal st)),
     (63, \<lambda>inVal st. Inr (if inVal AND 32 \<noteq> 0
                           then run_switch switch63a (unat (inVal AND 0x1e)) inVal st
                           else run_switch switch63b (PPCGETIDX2 inVal) inVal st))]"

text \<open>
  \<open>doDisassembly\<close> resets \<open>m_opcode\<close>, \<open>m_operands\<close>, \<open>m_type\<close> and \<open>m_flags\<close>
  and leaves \<open>m_sreg\<close> and \<open>m_displacement\<close> as the previous decode left them, so it
  takes the previous state.  Its return value \<open>m_instr + 1\<close> is not used.  With
  \<open>bigEndian\<close> false the bytes are swapped, the top byte with the sign-propagating
  \<open>>>\<close>.
\<close>

definition doDisassembly :: "dstate \<Rightarrow> u32 \<Rightarrow> int \<Rightarrow> bool \<Rightarrow> js_error + dstate" where
  "doDisassembly st0 m_instr m_iaddr bigEndian =
    (let inVal = m_instr;
         inVal = (if \<not> bigEndian
                  then push_bit 24 (inVal AND 0xff) OR push_bit 8 (inVal AND 0xff00)
                       OR signed_drop_bit 8 (inVal AND 0xff0000)
                       OR signed_drop_bit 24 (inVal AND 0xff000000)
                  else inVal);
         st = st0\<lparr>m_opcode := [], m_operands := [], m_type := PPCINSTR_OTHER, m_flags := 0\<rparr>
     in case map_of (top_switch m_iaddr) (PPCGETIDX inVal) of
          Some body \<Rightarrow> body inVal st
        | None \<Rightarrow> Inr (ill inVal st))"

text \<open>The values of the module-level variables when the module is loaded.\<close>

definition init_dstate :: dstate where
  "init_dstate = \<lparr>m_opcode = [], m_operands = [], m_type = 0, m_flags = PPCF_ILLEGAL,
                  m_sreg = 0, m_displacement = 0\<rparr>"

text \<open>
  \<open>disassemble(opcode, instrAddr, bigEndian = true)\<close> returns the text
  \<open>m_opcode + "\t" + m_operands\<close>; the model returns the decoder state with it.
\<close>

definition disassemble :: "dstate \<Rightarrow> u32 \<Rightarrow> int \<Rightarrow> bool \<Rightarrow> js_error + (string \<times> dstate)" where
  "disassemble st0 opcode instrAddr bigEndian =
    (case doDisassembly st0 opcode instrAddr bigEndian of
       Inl e \<Rightarrow> Inl e
     | Inr st \<Rightarrow> Inr (m_opcode st @ [CHR 0x09] @ m_operands st, st))"

section \<open>relProcessor.js\<close>

subsection \<open>The regular expressions\<close>

text \<open>
  Characters are code units below 256; of these \<open>\s\<close> matches tab, line feed,
  vertical tab, form feed, carriage return, space and the no-break space.
\<close>

definition is_space :: "char \<Rightarrow> bool" where
  "is_space c = ((of_char c :: nat) = 9 \<or> (of_char c :: nat) = 10 \<or> (of_char c :: nat) = 11
     \<or> (of_char c :: nat) = 12 \<or> (of_char c :: nat) = 13 \<or> (of_char c :: nat) = 32
     \<or> (of_char c :: nat) = 160)"

definition is_hex_lower :: "char \<Rightarrow> bool" where
  "is_hex_lower c =
    ((48 \<le> (of_char c :: nat) \<and> (of_char c :: nat) \<le> 57)
     \<or> (97 \<le> (of_char c :: nat) \<and> (of_char c :: nat) \<le> 102))"

text \<open>
  \<open>/^(b[\S]*)\s*->0x([0-9a-f]{8})/\<close>, with the backtracking of a regular-expression
  engine written out: \<open>match_tail\<close> is \<open>->0x([0-9a-f]{8})\<close> at the start of the
  text, \<open>match_ws\<close> puts the greedy \<open>\s*\<close> before it, \<open>match_nsp\<close> the greedy
  \<open>[\S]*\<close> whose match so far is \<open>acc\<close>.  The result is the two capture groups.
\<close>

definition match_tail :: "string \<Rightarrow> string option" where
  "match_tail s =
    (let h = take 8 (drop 4 s)
     in if take 4 s = ''->0x'' \<and> length h = 8 \<and> list_all is_hex_lower h then Some h else None)"

fun match_ws :: "string \<Rightarrow> string option" where
  "match_ws [] = match_tail []"
| "match_ws (c # cs) =
    (if is_space c
     then (case match_ws cs of Some r \<Rightarrow> Some r | None \<Rightarrow> match_tail (c # cs))
     else match_tail (c # cs))"

fun match_nsp :: "string \<Rightarrow> string \<Rightarrow> (string \<times> string) option" where
  "match_nsp acc [] = map_option (Pair acc) (match_ws [])"
| "match_nsp acc (c # cs) =
    (if \<not> is_space c
     then (case match_nsp (acc @ [c]) cs of
             Some r \<Rightarrow> Some r
           | None \<Rightarrow> map_option (Pair acc) (match_ws (c # cs)))
     else map_option (Pair acc) (match_ws (c # cs)))"

definition match_branch :: "string \<Rightarrow> (string \<times> string) option" where
  "match_branch instr =
    (case instr of
       [] \<Rightarrow> None
     | c # cs \<Rightarrow> if c = CHR ''b'' then match_nsp ''b'' cs else None)"

text \<open>\<open>/^blr\s$/\<close>.\<close>

definition is_blr :: "string \<Rightarrow> bool" where
  "is_blr instr = (length instr = 4 \<and> take 3 instr = ''blr'' \<and> is_space (instr ! 3))"

text \<open>\<open>Number('0x' + h)\<close> for a text \<open>h\<close> of lower-case hexadecimal digits.\<close>

definition hexdigit_val :: "char \<Rightarrow> nat" where
  "hexdigit_val c = (if (of_char c :: nat) \<le> 57 then of_char c - 48 else of_char c - 87)"

definition hex_val :: "string \<Rightarrow> nat" where
  "hex_val h = foldl (\<lambda>acc c. 16 * acc + hexdigit_val c) 0 h"

subsection \<open>Inputs\<close>

text \<open>
  The symbol maps are objects whose keys are addresses and whose values are names; a
  lookup is truthy when the key is present with a non-empty name.  The buffer is a list
  of bytes; \<open>readUInt32BE\<close> raises a \<open>RangeError\<close> outside it.
\<close>

type_synonym symmap = "nat \<rightharpoonup> string"

definition truthy :: "string option \<Rightarrow> bool" where
  "truthy v = (case v of None \<Rightarrow> False | Some s \<Rightarrow> s \<noteq> [])"

definition readUInt32BE :: "8 word list \<Rightarrow> int \<Rightarrow> js_error + u32" where
  "readUInt32BE buf off =
    (if 0 \<le> off \<and> off + 4 \<le> int (length buf)
     then (let i = nat off
           in Inr (word_of_nat (unat (buf ! i) * 2 ^ 24 + unat (buf ! (i + 1)) * 2 ^ 16
                     + unat (buf ! (i + 2)) * 2 ^ 8 + unat (buf ! (i + 3)))))
     else Inl RangeError)"

record rel_input =
  relBuffer :: "8 word list"
  relPtr :: nat
  relName :: string
  relMap :: symmap
  frameworkMap :: symmap

definition clearMsb :: int where "clearMsb = 0x7fffffff"

definition labelNames :: "string list" where
  "labelNames =
    [''APPLE'', ''BANANA'', ''CHOCOLATE'', ''DONUT'', ''EGGPLANT'', ''FLAMINGO'',
     ''GRAPEFRUIT'', ''HARPOON'', ''IGLOO'', ''JELLYFISH'', ''KAYAK'', ''LOBSTER'',
     ''MILK'', ''NOODLE'', ''ORANGE'', ''PAPER'', ''QUARTZ'', ''RASPBERRY'',
     ''SANDWICH'', ''TANGERINE'', ''UNICORN'', ''VIOLIN'', ''WATER'', ''XRAY'',
     ''YOYO'', ''ZEBRA'']"

definition nl :: string where "nl = [CHR 0x0A]"

definition EQUALS_DIVIDER :: string where
  "EQUALS_DIVIDER = replicate 50 (CHR ''='') @ nl"

subsection \<open>\<open>disassembleSection\<close>\<close>

text \<open>
  The loop \<open>for (offsetInSection = 0; offsetInSection < sectionLength; offsetInSection += 4)\<close>,
  from a given offset.  The state is the decoder's variables and whatever the callback
  updates; an exception raised by the read, the decoder or the callback ends the loop.
\<close>

function disassembleSection_from ::
  "rel_input \<Rightarrow> nat \<Rightarrow> nat \<Rightarrow> (string \<Rightarrow> nat \<Rightarrow> 's \<Rightarrow> js_error + 's) \<Rightarrow> nat \<Rightarrow> dstate \<times> 's
     \<Rightarrow> js_error + dstate \<times> 's" where
  "disassembleSection_from inp sectionAddr sectionLength callback offsetInSection ds =
    (if offsetInSection < sectionLength then
       (case readUInt32BE (relBuffer inp)
               (int sectionAddr - int (relPtr inp) + int offsetInSection) of
          Inl e \<Rightarrow> Inl e
        | Inr word \<Rightarrow>
            (case disassemble (fst ds) word (int (sectionAddr + offsetInSection)) True of
               Inl e \<Rightarrow> Inl e
             | Inr r \<Rightarrow>
                 (case callback (fst r) offsetInSection (snd ds) of
                    Inl e \<Rightarrow> Inl e
                  | Inr s' \<Rightarrow>
                      disassembleSection_from inp sectionAddr sectionLength callback
                        (offsetInSection + 4) (snd r, s'))))
     else Inr ds)"
  by pat_completeness auto
termination
  by (relation "measure (\<lambda>(inp, sectionAddr, sectionLength, callback, offsetInSection, ds).
                  sectionLength - offsetInSection)") auto

declare disassembleSection_from.simps [simp del]

definition disassembleSection ::
  "rel_input \<Rightarrow> nat \<Rightarrow> nat \<Rightarrow> (string \<Rightarrow> nat \<Rightarrow> 's \<Rightarrow> js_error + 's) \<Rightarrow> dstate \<times> 's
     \<Rightarrow> js_error + dstate \<times> 's" where
  "disassembleSection inp sectionAddr sectionLength callback ds =
    disassembleSection_from inp sectionAddr sectionLength callback 0 ds"

subsection \<open>\<open>populateBranchDestinations\<close>\<close>

text \<open>
  \<open>obj\<close> maps a function's offset to an object that maps a destination address to
  its \<open>reachedFromBelow\<close> flag.  Objects are association lists with distinct keys;
  \<open>AList.update\<close> replaces the value of a present key and appends an absent one.
\<close>

record astate =
  a_obj :: "(nat \<times> (nat \<times> bool) list) list"
  a_currRelFnOffset :: nat

definition populate_callback :: "rel_input \<Rightarrow> nat \<Rightarrow> string \<Rightarrow> nat \<Rightarrow> astate \<Rightarrow> js_error + astate" where
  "populate_callback inp sectionAddr instr offsetInSection s0 =
    (let s = (if truthy (relMap inp offsetInSection)
              then s0\<lparr>a_currRelFnOffset := offsetInSection,
                      a_obj := AList.update offsetInSection [] (a_obj s0)\<rparr>
              else s0)
     in case match_branch instr of
          None \<Rightarrow> Inr s
        | Some m \<Rightarrow>
            (let branchInstr = fst m
             in if branchInstr \<noteq> ''bl'' then
                  (case map_of (a_obj s) (a_currRelFnOffset s) of
                     None \<Rightarrow> Inl TypeError
                   | Some fnObj0 \<Rightarrow>
                       (let bDestNum = hex_val (snd m);
                            fnObj1 = (case map_of fnObj0 bDestNum of
                                        None \<Rightarrow> AList.update bDestNum False fnObj0
                                      | Some v \<Rightarrow> fnObj0);
                            currAddr = sectionAddr + offsetInSection;
                            fnObj2 = (case map_of fnObj1 bDestNum of
                                        Some False \<Rightarrow>
                                          (if currAddr > bDestNum
                                           then AList.update bDestNum True fnObj1 else fnObj1)
                                      | _ \<Rightarrow> fnObj1)
                        in Inr (s\<lparr>a_obj := AList.update (a_currRelFnOffset s) fnObj2 (a_obj s)\<rparr>)))
                else Inr s))"

text \<open>
  \<open>Object.keys\<close> of an object whose keys are numbers below \<open>2 ^ 32\<close> lists them in
  ascending numeric order.  \<open>Array.prototype.sort\<close> without a comparison function
  orders the keys, which are the decimal texts of the addresses, as strings: by the
  first differing code unit, a proper prefix first.
\<close>

fun js_str_less :: "string \<Rightarrow> string \<Rightarrow> bool" where
  "js_str_less [] [] = False"
| "js_str_less [] (y # ys) = True"
| "js_str_less (x # xs) [] = False"
| "js_str_less (x # xs) (y # ys) =
    (if (of_char x :: nat) < of_char y then True
     else if (of_char y :: nat) < of_char x then False
     else js_str_less xs ys)"

fun insort_default :: "nat \<Rightarrow> nat list \<Rightarrow> nat list" where
  "insort_default k [] = [k]"
| "insort_default k (x # xs) =
    (if js_str_less (dec_str k) (dec_str x) then k # x # xs else x # insort_default k xs)"

definition sort_default :: "nat list \<Rightarrow> nat list" where
  "sort_default ks = foldr insort_default ks []"

definition object_keys :: "(nat \<times> 'v) list \<Rightarrow> nat list" where
  "object_keys ob = sort (map fst ob)"

text \<open>The body of \<open>Object.keys(fnObj).forEach\<close>, with \<open>labelIndex\<close> as an argument.\<close>

fun assign_labels :: "nat option \<Rightarrow> nat list \<Rightarrow> nat \<Rightarrow> (nat \<times> string) list" where
  "assign_labels addrForFinishFn [] labelIndex = []"
| "assign_labels addrForFinishFn (bDest # ks) labelIndex =
    (bDest,
     if Some bDest = addrForFinishFn then ''FINISH_FUNCTION''
     else if labelIndex < 26 then nth_str labelNames labelIndex
     else replicate (labelIndex div 26) (char_of (0x61 + labelIndex mod 26)))
    # assign_labels addrForFinishFn ks (labelIndex + 1)"

text \<open>The body of \<open>Object.keys(obj).forEach\<close> for one function: its \<open>resultObj\<close>.\<close>

definition name_destinations :: "(nat \<times> bool) list \<Rightarrow> (nat \<times> string) list" where
  "name_destinations fnObj =
    (let arr = sort_default (object_keys fnObj);
         addrForFinishFn =
           (if length arr > 0 \<and> map_of fnObj (last arr) = Some False then Some (last arr)
            else None)
     in assign_labels addrForFinishFn (object_keys fnObj) 0)"

text \<open>
  The module-level \<open>branchDestinations\<close> is empty when \<open>processRel\<close> runs, once per
  process; after the scan it has one entry per key of \<open>obj\<close>.  The table is returned
  together with the decoder's variables.
\<close>

type_synonym label_table = "(nat \<times> (nat \<times> string) list) list"

definition populateBranchDestinations ::
  "rel_input \<Rightarrow> nat \<Rightarrow> nat \<Rightarrow> dstate \<Rightarrow> js_error + dstate \<times> label_table" where
  "populateBranchDestinations inp sectionAddr sectionLength dst =
    (case disassembleSection inp sectionAddr sectionLength (populate_callback inp sectionAddr)
            (dst, \<lparr>a_obj = [], a_currRelFnOffset = 0\<rparr>) of
       Inl e \<Rightarrow> Inl e
     | Inr r \<Rightarrow>
         Inr (fst r, map (\<lambda>fn. (fst fn, name_destinations (snd fn))) (a_obj (snd r))))"

subsection \<open>\<open>processTextSection\<close>\<close>

record estate =
  startingNewFn :: bool
  leaveBlankLine :: bool
  e_currRelFnOffset :: nat
  stream :: string

definition stream_write :: "string \<Rightarrow> estate \<Rightarrow> estate" where
  "stream_write txt s = s\<lparr>stream := stream s @ txt\<rparr>"

text \<open>The annotation of a matched branch (the \<open>if (match)\<close> block).\<close>

definition annotate ::
  "rel_input \<Rightarrow> label_table \<Rightarrow> nat \<Rightarrow> nat \<Rightarrow> string \<Rightarrow> js_error + string" where
  "annotate inp branchDestinations sectionAddr currRelFnOffset instr =
    (case match_branch instr of
       None \<Rightarrow> Inr instr
     | Some m \<Rightarrow>
         (let branchInstr = fst m
          in if branchInstr = ''bl'' then
               (let blTarget = hex_val (snd m);
                    blName0 = frameworkMap inp blTarget;
                    a = nat ((int blTarget - int sectionAddr) mod 2 ^ 31);
                    relOffsetText = (if truthy blName0 then [] else ''0x'' @ fmt_x (int a) @ '' '');
                    blName = (if truthy blName0 then blName0 else relMap inp a)
                in case blName of
                     Some n \<Rightarrow>
                       if n \<noteq> [] then Inr (instr @ '' ___ '' @ snd m @ '' '' @ relOffsetText @ n @ '' ___'')
                       else Inr (instr @ '' UNRECOGNIZED BRANCH'')
                   | None \<Rightarrow> Inr (instr @ '' UNRECOGNIZED BRANCH''))
             else if branchInstr \<noteq> ''blr'' then
               (let targetAddr = hex_val (snd m)
                in case map_of branchDestinations currRelFnOffset of
                     None \<Rightarrow> Inl TypeError
                   | Some fnTable \<Rightarrow>
                       (case map_of fnTable targetAddr of
                          Some targetName \<Rightarrow>
                            if targetName \<noteq> []
                            then Inr (instr @ '' ===> '' @ targetName @ ''_'' @ snd m)
                            else Inr (instr @ '' UNRECOGNIZED BRANCH TARGET'')
                        | None \<Rightarrow> Inr (instr @ '' UNRECOGNIZED BRANCH TARGET'')))
             else Inr instr))"

text \<open>
  The blank line or the header block before an instruction.  In the header,
  \<open>0x80000000 | sectionAddr\<close> is a signed 32-bit value.
\<close>

definition write_separator :: "rel_input \<Rightarrow> nat \<Rightarrow> nat \<Rightarrow> estate \<Rightarrow> estate" where
  "write_separator inp sectionAddr offsetInSection s =
    (if leaveBlankLine s then stream_write nl (s\<lparr>leaveBlankLine := False\<rparr>)
     else if startingNewFn s then
       (let s1 = s\<lparr>startingNewFn := False\<rparr>;
            s2 = (if offsetInSection > 0 then stream_write (nl @ nl) s1 else s1);
            fnName = (if truthy (relMap inp offsetInSection)
                      then (case relMap inp offsetInSection of Some n \<Rightarrow> n | None \<Rightarrow> [])
                      else ''UNKNOWN FUNCTION'');
            s3 = stream_write EQUALS_DIVIDER s2;
            s4 = stream_write
                   (''0x'' @ fmt_x (int offsetInSection) @ '' ''
                      @ fmt_08x (sint ((0x80000000 :: u32) OR word_of_nat sectionAddr)
                                 + int offsetInSection)
                      @ '' '' @ fnName @ '':'' @ nl) s3
        in stream_write EQUALS_DIVIDER s4)
     else s)"

text \<open>The label line before an instruction at a recorded destination.\<close>

definition write_label :: "label_table \<Rightarrow> nat \<Rightarrow> nat \<Rightarrow> estate \<Rightarrow> js_error + estate" where
  "write_label branchDestinations sectionAddr offsetInSection s =
    (case map_of branchDestinations (e_currRelFnOffset s) of
       None \<Rightarrow> Inl TypeError
     | Some fnTable \<Rightarrow>
         (case map_of fnTable (sectionAddr + offsetInSection) of
            Some name \<Rightarrow>
              if name \<noteq> []
              then Inr (stream_write
                          (name @ ''_'' @ fmt_08x (int (sectionAddr + offsetInSection)) @ '':'' @ nl) s)
              else Inr s
          | None \<Rightarrow> Inr s))"

text \<open>The flags set after an instruction line; \<open>instr\<close> is the annotated text.\<close>

definition after_instr :: "label_table \<Rightarrow> (string \<times> string) option \<Rightarrow> string \<Rightarrow> nat \<Rightarrow> estate \<Rightarrow> estate" where
  "after_instr branchDestinations mtch instr offsetInSection s =
    (if (case mtch of None \<Rightarrow> False | Some m \<Rightarrow> fst m = ''b'') then s\<lparr>leaveBlankLine := True\<rparr>
     else if is_blr instr then
       (if map_of branchDestinations (offsetInSection + 4) \<noteq> None
        then s\<lparr>startingNewFn := True\<rparr>
        else s\<lparr>leaveBlankLine := True\<rparr>)
     else s)"

definition emit_callback ::
  "rel_input \<Rightarrow> label_table \<Rightarrow> nat \<Rightarrow> string \<Rightarrow> nat \<Rightarrow> estate \<Rightarrow> js_error + estate" where
  "emit_callback inp branchDestinations sectionAddr instr0 offsetInSection s0 =
    (let s1 = (if truthy (relMap inp offsetInSection)
               then s0\<lparr>e_currRelFnOffset := offsetInSection\<rparr> else s0);
         mtch = match_branch instr0
     in case annotate inp branchDestinations sectionAddr (e_currRelFnOffset s1) instr0 of
          Inl e \<Rightarrow> Inl e
        | Inr instr \<Rightarrow>
            (let s2 = write_separator inp sectionAddr offsetInSection s1
             in case write_label branchDestinations sectionAddr offsetInSection s2 of
                  Inl e \<Rightarrow> Inl e
                | Inr s3 \<Rightarrow>
                    (let s4 = stream_write ([CHR 0x09] @ instr @ nl) s3
                     in Inr (after_instr branchDestinations mtch instr offsetInSection s4))))"

text \<open>
  \<open>processTextSection\<close>: the analyzer pass, then the emission pass; the result is the
  text written to the output file.  The decoder's variables carry over from one call of
  \<open>disassemble\<close> to the next, across both passes.
\<close>

definition processTextSection :: "rel_input \<Rightarrow> nat \<Rightarrow> nat \<Rightarrow> js_error + string" where
  "processTextSection inp sectionAddr sectionLength =
    (case populateBranchDestinations inp sectionAddr sectionLength init_dstate of
       Inl e \<Rightarrow> Inl e
     | Inr r \<Rightarrow>
         (let branchDestinations = snd r;
              s0 = \<lparr>startingNewFn = True, leaveBlankLine = False, e_currRelFnOffset = 0,
                    stream = relName inp @ ''.rel'' @ nl @ nl\<rparr>
          in case disassembleSection inp sectionAddr sectionLength
                    (emit_callback inp branchDestinations sectionAddr) (fst r, s0) of
               Inl e \<Rightarrow> Inl e
             | Inr r' \<Rightarrow> Inr (stream (snd r'))))"

section \<open>Definitions used to state the properties\<close>

text \<open>
  The displacement format in the words of the specification, with the case of a zero
  displacement that the code adds: \<open>%04x\<close> of a value below \<open>0x10000\<close> is its
  four hexadecimal digits; a displacement with the sign bit set is printed as \<open>-0x\<close>
  and the magnitude of its two's complement, any other as \<open>0x\<close> and its value.
\<close>

definition hex4 :: "nat \<Rightarrow> string" where
  "hex4 n = [digit_char (n div 4096 mod 16), digit_char (n div 256 mod 16),
             digit_char (n div 16 mod 16), digit_char (n mod 16)]"

definition spec_ldst_offs :: "nat \<Rightarrow> string" where
  "spec_ldst_offs d =
    (if d = 0 then ''0''
     else if d \<ge> 0x8000 then ''-0x'' @ hex4 (0x10000 - d)
     else ''0x'' @ hex4 d)"

text \<open>
  Invariants of a decode: the instruction is not classified load/store, or its operand
  text ends with the displacement in the format above and the base register.
\<close>

definition not_ldst :: "dstate \<Rightarrow> bool" where
  "not_ldst st = (m_type st \<noteq> PPCINSTR_LDST)"

definition ldst_rendered :: "dstate \<Rightarrow> bool" where
  "ldst_rendered st =
    (0 \<le> m_displacement st \<and> m_displacement st < 65536 \<and>
     (\<exists>r. m_operands st =
            r @ '', '' @ spec_ldst_offs (nat (m_displacement st)) @ '' ('' @ regname (m_sreg st) @ '')''))"

definition decoded_ok :: "dstate \<Rightarrow> bool" where
  "decoded_ok st = (not_ldst st \<or> ldst_rendered st)"



text \<open>
  Two decoder states agree on the variables that \<open>doDisassembly\<close> resets.
\<close>

definition core_eq :: "dstate \<Rightarrow> dstate \<Rightarrow> bool" where
  "core_eq st st' =
    (m_opcode st = m_opcode st' \<and> m_operands st = m_operands st' \<and> m_type st = m_type st'
     \<and> m_flags st = m_flags st')"

text \<open>
  Inputs of the runs evaluated below.  Each module is loaded at \<open>0x80001000\<close> and its
  text section starts at the same address; the buffer holds the section's words in
  big-endian byte order.
  \<^item> \<open>input_two_blocks\<close>: \<open>blr; nop\<close>, with names at offsets 0 and 4.
  \<^item> \<open>input_blr_dest\<close>: \<open>bne ->+8; blr; nop\<close>, with a name at offset 0.
  \<^item> \<open>input_forward\<close>: \<open>b ->+4; nop\<close>, with a name at offset 0.
  \<^item> \<open>input_forward_cond\<close>: \<open>bne ->+4; nop\<close>, with a name at offset 0.
  \<^item> \<open>input_forward_cr\<close>: \<open>bne cr1 ->+4; nop\<close>, with a name at offset 0.
  \<^item> \<open>input_no_scope\<close>: \<open>nop\<close>, with an empty module map.
  \<^item> \<open>input_mixed_digits\<close>: \<open>b ->+8; ba ->0x8; nop\<close>, with a name at offset 0.
\<close>

definition input_two_blocks :: rel_input where
  "input_two_blocks =
    \<lparr>relBuffer = [0x4E, 0x80, 0x00, 0x20, 0x60, 0x00, 0x00, 0x00], relPtr = 0x80001000,
     relName = ''m'', relMap = [0 \<mapsto> ''f'', 4 \<mapsto> ''g''], frameworkMap = Map.empty\<rparr>"

definition input_blr_dest :: rel_input where
  "input_blr_dest =
    \<lparr>relBuffer = [0x40, 0x82, 0x00, 0x08, 0x4E, 0x80, 0x00, 0x20, 0x60, 0x00, 0x00, 0x00],
     relPtr = 0x80001000, relName = ''m'', relMap = [0 \<mapsto> ''f''], frameworkMap = Map.empty\<rparr>"

definition input_forward :: rel_input where
  "input_forward =
    \<lparr>relBuffer = [0x48, 0x00, 0x00, 0x04, 0x60, 0x00, 0x00, 0x00], relPtr = 0x80001000,
     relName = ''m'', relMap = [0 \<mapsto> ''f''], frameworkMap = Map.empty\<rparr>"

definition input_forward_cond :: rel_input where
  "input_forward_cond =
    \<lparr>relBuffer = [0x40, 0x82, 0x00, 0x04, 0x60, 0x00, 0x00, 0x00], relPtr = 0x80001000,
     relName = ''m'', relMap = [0 \<mapsto> ''f''], frameworkMap = Map.empty\<rparr>"

definition input_forward_cr :: rel_input where
  "input_forward_cr =
    \<lparr>relBuffer = [0x40, 0x86, 0x00, 0x04, 0x60, 0x00, 0x00, 0x00], relPtr = 0x80001000,
     relName = ''m'', relMap = [0 \<mapsto> ''f''], frameworkMap = Map.empty\<rparr>"

definition input_no_scope :: rel_input where
  "input_no_scope =
    \<lparr>relBuffer = [0x60, 0x00, 0x00, 0x00], relPtr = 0x80001000,
     relName = ''m'', relMap = Map.empty, frameworkMap = Map.empty\<rparr>"

definition input_mixed_digits :: rel_input where
  "input_mixed_digits =
    \<lparr>relBuffer = [0x48, 0x00, 0x00, 0x08, 0x48, 0x00, 0x00, 0x0A, 0x60, 0x00, 0x00, 0x00],
     relPtr = 0x80001000, relName = ''m'', relMap = [0 \<mapsto> ''f''], frameworkMap = Map.empty\<rparr>"

text \<open>The text that a decoder in its initial state gives for a word at an address.\<close>

definition decode_text :: "u32 \<Rightarrow> int \<Rightarrow> js_error + string" where
  "decode_text w a = map_sum id fst (disassemble init_dstate w a True)"

text \<open>Every scope that the analyzer has opened is at an offset named in the module map.\<close>

definition scopes_named :: "rel_input \<Rightarrow> astate \<Rightarrow> bool" where
  "scopes_named inp s = (\<forall>k \<in> fst ` set (a_obj s). truthy (relMap inp k))"


section \<open>Evaluation of the model\<close>

lemma replicate_numeral: "replicate (numeral k) x = x # replicate (pred_numeral k) x"
  by (simp add: numeral_eq_Suc)

lemmas fmt_defs = fmt_08x_def fmt_04x_def fmt_02x_def fmt_x_def pad0_def hex_str.simps dec_str.simps
  digit_char_def str_of_int_def nth_str_def nth_opt_def str_of_opt_def replicate_numeral

lemmas field_defs = createGetFromMask_def PPCGETIDX_def PPCGETD_def PPCGETA_def PPCGETB_def
  PPCGETC_def PPCGETM_def PPCGETCRD_def PPCGETCRA_def PPCGETL_def PPCGETIDX2_def
  PPCIDXMASK_def PPCIDX2MASK_def PPCDMASK_def PPCAMASK_def PPCBMASK_def PPCCMASK_def PPCMMASK_def
  PPCCRDMASK_def PPCCRAMASK_def PPCLMASK_def PPCOE_def
  PPCINSTR_OTHER_def PPCINSTR_BRANCH_def PPCINSTR_LDST_def PPCINSTR_IMM_def
  PPCF_ILLEGAL_def PPCF_UNSIGNED_def PPCF_SUPER_def PPCF_SIXTY_FOUR_def

lemmas table_defs = trap_condition_def cmpname_def ps_cmpname_def b_ext_def b_condition_def
  b_decr_def regsel_def oesel_def rcsel_def ldstnames_def regnames_def regname_def

text \<open>The cases of the outer \<open>switch\<close> that the theorems below go through.\<close>

lemma top_switch_default:
  "k \<in> {0, 1, 5, 6, 9, 22} \<Longrightarrow> map_of (top_switch a) k = None"
  by (auto simp add: top_switch_def)

lemma top_switch_16: "map_of (top_switch a) 16 = Some (\<lambda>inVal st. Inr (bc a inVal st))"
  by (simp add: top_switch_def)

lemma top_switch_18: "map_of (top_switch a) 18 = Some (\<lambda>inVal st. Inr (bli a inVal st))"
  by (simp add: top_switch_def)

lemma top_switch_19:
  "map_of (top_switch a) 19 =
     Some (\<lambda>inVal st. case map_of switch19 (PPCGETIDX2 inVal) of
                          Some body \<Rightarrow> body inVal st
                        | None \<Rightarrow> Inr (ill inVal st))"
  by (simp add: top_switch_def)

lemma top_switch_32: "map_of (top_switch a) 32 = Some ldst_int"
  by (simp add: top_switch_def)

lemma top_switch_24:
  "map_of (top_switch a) 24 =
     Some (\<lambda>inVal st. Inr (if inVal AND NOT PPCIDXMASK \<noteq> 0 then ori inVal ''ori'' st
                           else st\<lparr>m_opcode := ''nop''\<rparr>))"
  by (simp add: top_switch_def)

section \<open>The decoder on single words\<close>

text \<open>
  C1 (the decoder is total, unrecognised patterns are classified Illegal rather than
  failing).  The word \<open>0x4cc63182\<close> is \<open>crxor 6,6,6\<close>: primary opcode 19, extended
  opcode 193, both source bits equal.  \<open>crop\<close> then calls \<open>n2.empty()\<close>, a method
  that JavaScript strings do not have, and the decode raises a \<open>TypeError\<close>, at every
  address and from every previous state of the decoder.
\<close>

theorem crxor_same_bits_raises: "disassemble st0 0x4cc63182 a True = Inl TypeError"
  by (simp add: disassemble_def doDisassembly_def top_switch_19 switch19_def crop_def
      call_empty_def field_defs)

text \<open>
  C6 as stated (the all-zero word is not flagged Illegal) fails: after decoding
  \<open>0x00000000\<close> the text is a tab followed by \<open>---\<close> and the Illegal bit of
  \<open>m_flags\<close> is set.
\<close>

theorem zero_word_flag_counterexample:
  "map_sum id (\<lambda>r. (fst r, m_flags (snd r) AND PPCF_ILLEGAL))
     (disassemble init_dstate 0 0x80001000 True) = Inr ([CHR 0x09] @ ''---'', 1)"
  by (simp add: disassemble_def doDisassembly_def top_switch_default ill_def field_defs
      init_dstate_def)

text \<open>
  C6, amended: decoding the all-zero word, at any address, from any previous state and
  in either byte order, yields the empty mnemonic and the operand text \<open>---\<close>, and
  \<open>m_flags\<close> is exactly the Illegal flag.
\<close>

theorem zero_word_decode:
  "disassemble st0 0 a bigEndian =
     Inr ([CHR 0x09] @ ''---'',
          st0\<lparr>m_opcode := [], m_operands := ''---'', m_type := PPCINSTR_OTHER,
              m_flags := PPCF_ILLEGAL\<rparr>)"
  by (simp add: disassemble_def doDisassembly_def top_switch_default ill_def field_defs)

text \<open>
  C9 as stated (word \<open>0x4800000B\<close> at \<open>0x80001000\<close> has operand text
  \<open>->0x00000000\<close>) fails: the displacement field of that word is 8.
\<close>

theorem bla_counterexample:
  "map_sum id fst (disassemble init_dstate 0x4800000B 0x80001000 True)
     \<noteq> Inr (''bla'' @ [CHR 0x09] @ ''->0x00000000'')"
  by (simp add: disassemble_def doDisassembly_def top_switch_18 bli_def field_defs fmt_defs
      table_defs Let_def)

text \<open>
  C9, amended: word \<open>0x4800000B\<close>, at any address, decodes to mnemonic \<open>bla\<close> and
  operand text \<open>->0x00000008\<close>; the instruction is classified Branch, no flag is set,
  and the displacement, which is the absolute target, is 8.
\<close>

theorem bla_decode:
  "disassemble st0 0x4800000B a True =
     Inr (''bla'' @ [CHR 0x09] @ ''->0x00000008'',
          st0\<lparr>m_opcode := ''bla'', m_operands := ''->0x00000008'', m_type := PPCINSTR_BRANCH,
              m_flags := 0, m_displacement := 8\<rparr>)"
  by (simp add: disassemble_def doDisassembly_def top_switch_18 bli_def field_defs fmt_defs
      table_defs Let_def)

section \<open>Load/store displacements\<close>

subsection \<open>\<open>ldst_offs\<close> against the format of the specification\<close>

lemma hex_str_small: "n < 16 \<Longrightarrow> hex_str n = [digit_char n]"
  by (simp add: hex_str.simps)

lemma hex_str_step: "16 \<le> n \<Longrightarrow> hex_str n = hex_str (n div 16) @ [digit_char (n mod 16)]"
  by (subst hex_str.simps) simp

lemma digit_char_0: "digit_char 0 = CHR ''0''"
  by (simp add: digit_char_def)

lemma fmt_04x_hex4:
  assumes "n < 65536"
  shows "fmt_04x (int n) = hex4 n"
proof -
  have m: "nat (int n mod 2 ^ 32) = n" using assms by simp
  consider "n < 16" | "16 \<le> n" "n < 256" | "256 \<le> n" "n < 4096" | "4096 \<le> n" "n < 65536"
    using assms by linarith
  then show ?thesis
  proof cases
    case 1
    then show ?thesis
      by (simp add: fmt_04x_def fmt_x_def m pad0_def hex_str_small hex4_def digit_char_0 replicate_numeral)
  next
    case 2
    then have "n div 16 < 16" by simp
    with 2 show ?thesis
      by (simp add: fmt_04x_def fmt_x_def m pad0_def hex_str_step hex_str_small hex4_def digit_char_0 replicate_numeral)
  next
    case 3
    then have a: "n div 16 < 256" "16 \<le> n div 16" "n div 16 div 16 < 16" "16 \<le> n" by auto
    have b: "n div 16 div 16 = n div 256" by (simp add: div_mult2_eq)
    from 3 a show ?thesis
      by (simp add: fmt_04x_def fmt_x_def m pad0_def hex_str_step hex_str_small hex4_def digit_char_0 replicate_numeral b)
  next
    case 4
    then have a: "16 \<le> n" "16 \<le> n div 16" "16 \<le> n div 16 div 16" "n div 16 div 16 div 16 < 16" by auto
    have b: "n div 16 div 16 = n div 256" "n div 256 div 16 = n div 4096" by (simp_all add: div_mult2_eq)
    from 4 a show ?thesis
      by (simp add: fmt_04x_def fmt_x_def m pad0_def hex_str_step hex_str_small hex4_def b)
  qed
qed

lemma sign_bit_nat:
  fixes val :: nat
  assumes "val < 65536"
  shows "(val AND 0x8000 \<noteq> 0) = (0x8000 \<le> val)"
proof -
  have "(val AND 2 ^ 15 = 0) = (\<not> bit val 15)"
    by (rule and_exp_eq_0_iff_not_bit)
  moreover have "bit val 15 = odd (val div 2 ^ 15)"
    by (rule bit_iff_odd)
  moreover have "val div 2 ^ 15 < 2"
    using assms by simp
  then have "odd (val div 2 ^ 15) = (2 ^ 15 \<le> val)"
    by (cases "val div 2 ^ 15 = 0") (auto simp add: div_eq_0_iff)
  ultimately show ?thesis by simp
qed

lemma complement_magnitude:
  assumes "val < 65536"
  shows "unat ((NOT (word_of_nat val :: u32)) AND 0xffff) = 65535 - val"
proof -
  let ?w = "word_of_nat val :: u32"
  have uw: "unat ?w = val"
    using assms by (simp add: unat_of_nat)
  have "NOT ?w = - 1 - ?w"
    by (simp add: not_eq_complement)
  then have "unat (NOT ?w) = unat (- 1 :: u32) - unat ?w"
    by (simp add: unat_sub)
  then have n: "unat (NOT ?w) = 4294967295 - val"
    using uw by (simp add: unsigned_minus_1_eq_mask mask_eq_exp_minus_1)
  have "NOT ?w AND 0xffff = take_bit 16 (NOT ?w)"
    by (simp add: take_bit_eq_mask mask_eq_exp_minus_1)
  then have "unat (NOT ?w AND 0xffff) = unat (take_bit 16 (NOT ?w))"
    by (rule arg_cong)
  also have "\<dots> = take_bit 16 (unat (NOT ?w))"
    by (rule unsigned_take_bit_eq)
  also have "\<dots> = unat (NOT ?w) mod 2 ^ 16"
    by (rule take_bit_eq_mod)
  also have "\<dots> = (4294967295 - val) mod 65536"
    using n by simp
  also have "\<dots> = ((65535 - val) + 65535 * 65536) mod 65536"
    using assms by simp
  also have "\<dots> = (65535 - val) mod 65536"
    by (rule mod_mult_self1)
  also have "\<dots> = 65535 - val"
    by simp
  finally show ?thesis .
qed

lemma ldst_offs_format:
  assumes "val < 65536"
  shows "ldst_offs val = spec_ldst_offs val"
proof (cases "val = 0")
  case True
  then show ?thesis by (simp add: ldst_offs_def spec_ldst_offs_def)
next
  case nz: False
  show ?thesis
  proof (cases "32768 \<le> val")
    case True
    then have s: "val AND 0x8000 \<noteq> 0"
      using sign_bit_nat [OF assms] by simp
    have "int (unat ((NOT (word_of_nat val :: u32)) AND 0xffff)) + 1 = int (65536 - val)"
      using assms complement_magnitude [of val] by simp
    moreover have "65536 - val < 65536"
      using nz by simp
    ultimately have "fmt_04x (int (unat ((NOT (word_of_nat val :: u32)) AND 0xffff)) + 1)
        = hex4 (65536 - val)"
      by (simp only: fmt_04x_hex4)
    with nz s True show ?thesis
      by (simp only: ldst_offs_def spec_ldst_offs_def if_True if_False numeral_le_iff)
        simp
  next
    case False
    then have s: "val AND 0x8000 = 0"
      using sign_bit_nat [OF assms] by simp
    from nz s False assms show ?thesis
      by (simp add: ldst_offs_def spec_ldst_offs_def fmt_04x_hex4)
  qed
qed

subsection \<open>The classification of a decoded instruction\<close>

text \<open>
  Only \<open>ldst\<close> classifies an instruction as load/store: every other case body
  leaves \<open>m_type\<close> alone or sets it to Immediate or Branch.
\<close>

lemmas type_defs = not_ldst_def PPCINSTR_OTHER_def PPCINSTR_BRANCH_def PPCINSTR_LDST_def
  PPCINSTR_IMM_def

lemma m_type_ill: "m_type (ill inOp st) = m_type st"
  by (simp add: ill_def)

lemma m_type_set_ops: "m_type (set_ops a b st) = m_type st"
  by (simp add: set_ops_def)

lemma m_type_imm: "m_type (snd (imm inVal uimm ty hex st)) = PPCINSTR_IMM"
  by (simp add: imm_def Let_def)

lemmas m_type_simps = m_type_ill m_type_set_ops m_type_imm

lemma not_ldst_ill: "not_ldst st \<Longrightarrow> not_ldst (ill inOp st)"
  by (simp add: type_defs m_type_simps)

lemma not_ldst_set_ops: "not_ldst st \<Longrightarrow> not_ldst (set_ops a b st)"
  by (simp add: type_defs m_type_simps)

lemma not_ldst_imm: "not_ldst (snd (imm inVal uimm ty hex st))"
  by (simp add: type_defs m_type_simps)

lemma not_ldst_trapi: "not_ldst (trapi inVal dmode st)"
  by (simp add: trapi_def Let_def type_defs m_type_simps split: option.split)

lemma not_ldst_cmpi: "not_ldst st \<Longrightarrow> not_ldst (cmpi inVal uimm st)"
  by (simp add: cmpi_def Let_def type_defs m_type_simps)

lemma not_ldst_addi: "not_ldst (addi inVal ext st)"
  by (simp add: addi_def Let_def type_defs m_type_simps)

lemma not_ldst_ori: "not_ldst (ori inVal name st)"
  by (simp add: ori_def Let_def type_defs m_type_simps)

lemma not_ldst_branch: "not_ldst st \<Longrightarrow> not_ldst (branch inVal bname aform bdisp st)"
  by (simp add: branch_def Let_def type_defs m_type_simps)

lemma not_ldst_bc: "not_ldst (bc a inVal st)"
  by (simp add: bc_def Let_def type_defs m_type_simps)

lemma not_ldst_bli: "not_ldst (bli a inVal st)"
  by (simp add: bli_def Let_def type_defs m_type_simps)

lemma not_ldst_mcrf: "not_ldst st \<Longrightarrow> not_ldst (mcrf inVal suffix st)"
  by (simp add: mcrf_def Let_def type_defs m_type_simps)

lemma not_ldst_crop: "not_ldst st \<Longrightarrow> crop inVal n1 n2 st = Inr st' \<Longrightarrow> not_ldst st'"
  by (auto simp add: crop_def call_empty_def Let_def type_defs m_type_simps split: if_splits)

lemma not_ldst_nooper: "not_ldst st \<Longrightarrow> not_ldst (nooper inVal name dmode st)"
  by (simp add: nooper_def Let_def type_defs m_type_simps)

lemma not_ldst_rlw: "not_ldst st \<Longrightarrow> not_ldst (rlw inVal name i st)"
  by (simp add: rlw_def Let_def type_defs m_type_simps)

lemma not_ldst_rld: "not_ldst st \<Longrightarrow> not_ldst (rld inVal name i st)"
  by (simp add: rld_def Let_def type_defs m_type_simps)

lemma not_ldst_cmp: "not_ldst st \<Longrightarrow> not_ldst (cmp inVal st)"
  by (simp add: cmp_def Let_def type_defs m_type_simps)

lemma not_ldst_trap: "not_ldst st \<Longrightarrow> not_ldst (trap inVal dmode st)"
  by (simp add: trap_def Let_def type_defs m_type_simps split: option.split)

lemma not_ldst_dab: "not_ldst st \<Longrightarrow> not_ldst (dab inVal name msk smode chkoe chkrc dmode st)"
  by (simp add: dab_def Let_def type_defs m_type_simps)

lemma not_ldst_rrn: "not_ldst st \<Longrightarrow> not_ldst (rrn inVal name smode chkoe chkrc dmode st)"
  by (simp add: rrn_def Let_def type_defs m_type_simps)

lemma not_ldst_mtcr: "not_ldst st \<Longrightarrow> not_ldst (mtcr inVal st)"
  by (simp add: mtcr_def Let_def type_defs m_type_simps)

lemma not_ldst_msr: "not_ldst st \<Longrightarrow> not_ldst (msr inVal smode st)"
  by (simp add: msr_def Let_def type_defs m_type_simps)

lemma not_ldst_mspr: "not_ldst st \<Longrightarrow> not_ldst (mspr inVal smode st)"
  by (simp add: mspr_def Let_def type_defs m_type_simps)

lemma not_ldst_mtb: "not_ldst st \<Longrightarrow> not_ldst (mtb inVal st)"
  by (simp add: mtb_def Let_def type_defs m_type_simps)

lemma not_ldst_sradi: "not_ldst st \<Longrightarrow> not_ldst (sradi inVal st)"
  by (simp add: sradi_def Let_def type_defs m_type_simps)

lemma not_ldst_fdabc: "not_ldst st \<Longrightarrow> not_ldst (fdabc inVal name msk dmode st)"
  by (simp add: fdabc_def Let_def type_defs m_type_simps)

lemma not_ldst_fmr: "not_ldst st \<Longrightarrow> not_ldst (fmr inVal st)"
  by (simp add: fmr_def Let_def type_defs m_type_simps)

lemma not_ldst_fdab: "not_ldst st \<Longrightarrow> not_ldst (fdab inVal name msk st)"
  by (simp add: fdab_def Let_def type_defs m_type_simps)

lemma not_ldst_fcmp: "not_ldst st \<Longrightarrow> not_ldst (fcmp inVal c st)"
  by (simp add: fcmp_def Let_def type_defs m_type_simps)

lemma not_ldst_mtfsb: "not_ldst st \<Longrightarrow> not_ldst (mtfsb inVal n st)"
  by (simp add: mtfsb_def Let_def type_defs m_type_simps)

lemma not_ldst_ps_cmp: "not_ldst st \<Longrightarrow> not_ldst (ps_cmp inst st)"
  by (simp add: ps_cmp_def Let_def type_defs m_type_simps)

lemma not_ldst_ps_mem: "not_ldst st \<Longrightarrow> not_ldst (ps_mem inst st)"
  by (simp add: ps_mem_def Let_def type_defs m_type_simps)

lemmas not_ldst_helpers = not_ldst_ill not_ldst_set_ops not_ldst_trapi not_ldst_cmpi
  not_ldst_addi not_ldst_ori not_ldst_branch not_ldst_bc not_ldst_bli not_ldst_mcrf not_ldst_nooper
  not_ldst_rlw not_ldst_rld not_ldst_cmp not_ldst_trap not_ldst_dab not_ldst_rrn not_ldst_mtcr
  not_ldst_msr not_ldst_mspr not_ldst_mtb not_ldst_sradi not_ldst_fdabc not_ldst_fmr not_ldst_fdab
  not_ldst_fcmp not_ldst_mtfsb not_ldst_ps_cmp not_ldst_ps_mem

lemma ps_switch5_not_ldst:
  "list_all (\<lambda>e. \<forall>st. not_ldst st \<longrightarrow> not_ldst (snd e st)) (ps_switch5 inst)"
  by (simp add: ps_switch5_def not_ldst_helpers)

lemma ps_switch10_not_ldst:
  "list_all (\<lambda>e. \<forall>st. not_ldst st \<longrightarrow> not_ldst (snd e st)) (ps_switch10 inst)"
  by (simp add: ps_switch10_def not_ldst_helpers)

lemma list_all_map_of:
  "list_all P tbl \<Longrightarrow> map_of tbl k = Some v \<Longrightarrow> P (k, v)"
  by (auto simp add: list_all_iff dest: map_of_SomeD)

lemma not_ldst_ps: "not_ldst st \<Longrightarrow> not_ldst (ps inst st)"
  using list_all_map_of [OF ps_switch5_not_ldst] list_all_map_of [OF ps_switch10_not_ldst]
  by (auto simp add: ps_def not_ldst_set_ops split: option.split)

lemma switch30_not_ldst:
  "list_all (\<lambda>e. \<forall>inVal st. not_ldst st \<longrightarrow> not_ldst (snd e inVal st)) switch30"
  by (simp add: switch30_def not_ldst_helpers)

lemma switch31_not_ldst:
  "list_all (\<lambda>e. \<forall>inVal st. not_ldst st \<longrightarrow> not_ldst (snd e inVal st)) switch31"
  by (simp add: switch31_def not_ldst_helpers)

lemma switch59_not_ldst:
  "list_all (\<lambda>e. \<forall>inVal st. not_ldst st \<longrightarrow> not_ldst (snd e inVal st)) switch59"
  by (simp add: switch59_def not_ldst_helpers)

lemma switch63a_not_ldst:
  "list_all (\<lambda>e. \<forall>inVal st. not_ldst st \<longrightarrow> not_ldst (snd e inVal st)) switch63a"
  by (simp add: switch63a_def not_ldst_helpers)

lemma switch63b_not_ldst:
  "list_all (\<lambda>e. \<forall>inVal st. not_ldst st \<longrightarrow> not_ldst (snd e inVal st)) switch63b"
  by (simp add: switch63b_def not_ldst_helpers)

lemma switch19_not_ldst:
  "list_all (\<lambda>e. \<forall>inVal st st'. not_ldst st \<longrightarrow> snd e inVal st = Inr st' \<longrightarrow> not_ldst st') switch19"
  by (auto simp add: switch19_def not_ldst_helpers dest: not_ldst_crop)

lemma not_ldst_upd:
  "not_ldst st \<Longrightarrow> not_ldst (st\<lparr>m_opcode := a\<rparr>)"
  "not_ldst st \<Longrightarrow> not_ldst (st\<lparr>m_operands := b\<rparr>)"
  by (simp_all add: type_defs)

lemma unat_and_ffff: "unat ((w :: u32) AND 0xffff) < 65536"
proof -
  have "w AND 0xffff = take_bit 16 w"
    by (simp add: take_bit_eq_mask mask_eq_exp_minus_1)
  then have "unat (w AND 0xffff) = unat (take_bit 16 w)"
    by (rule arg_cong)
  also have "\<dots> = take_bit 16 (unat w)"
    by (rule unsigned_take_bit_eq)
  also have "\<dots> < 2 ^ 16"
    by (rule take_bit_nat_less_exp)
  finally show ?thesis by simp
qed

lemma ldst_rendered_ldst: "ldst_rendered (ldst inVal name reg dmode st)"
proof -
  have d: "unat (inVal AND 0xffff) < 65536" by (rule unat_and_ffff)
  then have "int (unat (inVal AND 0xffff)) < int 65536"
    by (simp only: of_nat_less_iff)
  then have d2: "uint (inVal AND 0xffff) < 65536"
    by simp
  show ?thesis
    using d d2 by (auto simp add: ldst_rendered_def ldst_def Let_def ldst_offs_format)
qed

lemma decoded_ok_ldst: "decoded_ok (ldst inVal name reg dmode st)"
  by (simp add: decoded_ok_def ldst_rendered_ldst)

lemma decoded_ok_not_ldst: "not_ldst st \<Longrightarrow> decoded_ok st"
  by (simp add: decoded_ok_def)

lemma not_ldst_run_switch:
  assumes "list_all (\<lambda>e. \<forall>inVal st. not_ldst st \<longrightarrow> not_ldst (snd e inVal st)) tbl"
    and "not_ldst st"
  shows "not_ldst (run_switch tbl k inVal st)"
  using list_all_map_of [OF assms(1), of k] assms(2)
  by (auto simp add: run_switch_def not_ldst_ill split: option.split)

lemma switch58_ok: "not_ldst st \<Longrightarrow> decoded_ok (run_switch switch58 k inVal st)"
  by (auto simp add: run_switch_def switch58_def decoded_ok_ldst not_ldst_ill decoded_ok_not_ldst
      split: option.split if_splits)

lemma switch62_ok: "not_ldst st \<Longrightarrow> decoded_ok (run_switch switch62 k inVal st)"
  by (auto simp add: run_switch_def switch62_def decoded_ok_ldst not_ldst_ill decoded_ok_not_ldst
      split: option.split if_splits)

lemma switch19_ok:
  assumes "not_ldst st"
    and "(case map_of switch19 k of Some body \<Rightarrow> body inVal st | None \<Rightarrow> Inr (ill inVal st)) = Inr st'"
  shows "not_ldst st'"
  using list_all_map_of [OF switch19_not_ldst, of k] assms
  by (auto simp add: not_ldst_ill split: option.splits)

lemmas not_ldst_switches =
  not_ldst_run_switch [OF switch30_not_ldst] not_ldst_run_switch [OF switch31_not_ldst]
  not_ldst_run_switch [OF switch59_not_ldst] not_ldst_run_switch [OF switch63a_not_ldst]
  not_ldst_run_switch [OF switch63b_not_ldst]

lemma top_switch_ok:
  "list_all (\<lambda>e. \<forall>inVal st st'. not_ldst st \<longrightarrow> snd e inVal st = Inr st' \<longrightarrow> decoded_ok st')
     (top_switch a)"
  by (auto simp add: top_switch_def ldst_int_def ldst_float_def Let_def decoded_ok_ldst
      switch58_ok switch62_ok
      intro!: decoded_ok_not_ldst not_ldst_helpers not_ldst_ps not_ldst_upd not_ldst_imm
        not_ldst_switches
      elim: switch19_ok)

text \<open>
  C10 as stated (a displacement whose sign bit is clear is printed as \<open>0x%04x\<close>)
  fails for the displacement zero, which \<open>ldst_offs\<close> prints as the single digit
  \<open>0\<close>: \<open>lwz r0, 0(r3)\<close> is the word \<open>0x80030000\<close>.
\<close>

theorem ldst_zero_displacement_counterexample:
  "map_sum id fst (disassemble init_dstate 0x80030000 0x80001000 True)
     = Inr (''lwz'' @ [CHR 0x09] @ ''r0, 0 (r3)'')
   \<and> ldst_offs 0 \<noteq> ''0x'' @ fmt_04x 0"
  by (simp add: disassemble_def doDisassembly_def top_switch_32 ldst_int_def ldst_def ldst_offs_def
      field_defs fmt_defs table_defs Let_def init_dstate_def)

text \<open>
  C10, amended: for every word that the decoder classifies as load/store, in either
  byte order, the displacement is a 16-bit value and the rendered text ends with the
  displacement and the base register in parentheses, the displacement being the digit
  \<open>0\<close> when it is zero, \<open>-0x%04x\<close> of the two's-complement magnitude when its
  sign bit is set and \<open>0x%04x\<close> otherwise (hexadecimal, never decimal).
\<close>

theorem ldst_operand_format:
  assumes "disassemble st0 w a bigEndian = Inr (txt, st)"
    and "m_type st = PPCINSTR_LDST"
  shows "0 \<le> m_displacement st \<and> m_displacement st < 65536 \<and>
         (\<exists>r. txt = m_opcode st @ [CHR 0x09] @ r @ '', ''
                  @ spec_ldst_offs (nat (m_displacement st)) @ '' ('' @ regname (m_sreg st) @ '')'')"
proof -
  let ?s = "st0\<lparr>m_opcode := [], m_operands := [], m_type := PPCINSTR_OTHER, m_flags := 0\<rparr>"
  have n: "not_ldst ?s" by (simp add: type_defs)
  from assms(1) obtain inVal where
    d: "(case map_of (top_switch a) (PPCGETIDX inVal) of
           Some body \<Rightarrow> body inVal ?s | None \<Rightarrow> Inr (ill inVal ?s)) = Inr st"
    and t: "txt = m_opcode st @ [CHR 0x09] @ m_operands st"
    by (auto simp add: disassemble_def doDisassembly_def Let_def split: sum.splits)
  have "decoded_ok st"
    using d n list_all_map_of [OF top_switch_ok, of a "PPCGETIDX inVal"]
    by (auto simp add: not_ldst_ill decoded_ok_not_ldst split: option.splits)
  with assms(2) have "ldst_rendered st"
    by (simp add: decoded_ok_def not_ldst_def)
  with t show ?thesis
    by (auto simp add: ldst_rendered_def)
qed

theorem ldst_operand_format_witness:
  "disassemble init_dstate 0x8003FFFC 0x80001000 True
     = Inr (''lwz'' @ [CHR 0x09] @ ''r0, -0x0004 (r3)'',
            \<lparr>m_opcode = ''lwz'', m_operands = ''r0, -0x0004 (r3)'', m_type = PPCINSTR_LDST,
             m_flags = 0, m_sreg = 3, m_displacement = 65532\<rparr>)
   \<and> (\<exists>r. ''lwz'' @ [CHR 0x09] @ ''r0, -0x0004 (r3)''
            = ''lwz'' @ [CHR 0x09] @ r @ '', '' @ spec_ldst_offs 65532 @ '' ('' @ regname 3 @ '')'')"
proof -
  let ?st = "\<lparr>m_opcode = ''lwz'', m_operands = ''r0, -0x0004 (r3)'', m_type = PPCINSTR_LDST,
              m_flags = 0, m_sreg = 3, m_displacement = 65532\<rparr>"
  have h1: "disassemble init_dstate 0x8003FFFC 0x80001000 True
              = Inr (''lwz'' @ [CHR 0x09] @ ''r0, -0x0004 (r3)'', ?st)"
    by (simp add: disassemble_def doDisassembly_def top_switch_32 ldst_int_def ldst_def
        ldst_offs_def field_defs fmt_defs table_defs Let_def init_dstate_def)
  have h2: "m_type ?st = PPCINSTR_LDST"
    by simp
  from ldst_operand_format [OF h1 h2] h1 show ?thesis
    by simp
qed

section \<open>Branches that the passes do not recognise\<close>

subsection \<open>Texts on which the regular expression fails\<close>















lemma populate_callback_no_match:
  "match_branch instr = None \<Longrightarrow>
   populate_callback inp sectionAddr instr off s =
     Inr (if truthy (relMap inp off)
          then s\<lparr>a_currRelFnOffset := off, a_obj := AList.update off [] (a_obj s)\<rparr>
          else s)"
  by (simp add: populate_callback_def Let_def)

lemma annotate_no_match:
  "match_branch instr = None \<Longrightarrow> annotate inp bd sectionAddr cur instr = Inr instr"
  by (simp add: annotate_def)





section \<open>The text of a decode does not depend on the previous decode\<close>

text \<open>
  Every case body reads only the variables that \<open>doDisassembly\<close> has just reset, so
  the text returned by \<open>disassemble\<close> is the same from every previous state of
  the decoder's variables.
\<close>

lemma core_eq_ill: "core_eq st st' \<Longrightarrow> core_eq (ill inOp st) (ill inOp st')"
  by (simp add: core_eq_def ill_def)

lemma core_eq_set_ops: "core_eq st st' \<Longrightarrow> core_eq (set_ops x y st) (set_ops x y st')"
  by (simp add: core_eq_def set_ops_def)

lemma core_eq_upd:
  "core_eq st st' \<Longrightarrow> core_eq (st\<lparr>m_opcode := x\<rparr>) (st'\<lparr>m_opcode := x\<rparr>)"
  "core_eq st st' \<Longrightarrow> core_eq (st\<lparr>m_operands := y\<rparr>) (st'\<lparr>m_operands := y\<rparr>)"
  by (simp_all add: core_eq_def)

lemma core_eq_imm:
  "core_eq st st' \<Longrightarrow> fst (imm inVal uimm ty hex st) = fst (imm inVal uimm ty hex st')"
  "core_eq st st' \<Longrightarrow> core_eq (snd (imm inVal uimm ty hex st)) (snd (imm inVal uimm ty hex st'))"
  by (simp_all add: core_eq_def imm_def Let_def)


lemma core_eq_trapi: "core_eq st st' \<Longrightarrow> core_eq (trapi inVal dmode st) (trapi inVal dmode st')"
  by (auto simp add: core_eq_def trapi_def Let_def ill_def set_ops_def imm_def split: option.split)

lemma core_eq_cmpi: "core_eq st st' \<Longrightarrow> core_eq (cmpi inVal uimm st) (cmpi inVal uimm st')"
  by (auto simp add: core_eq_def cmpi_def Let_def ill_def set_ops_def imm_def)

lemma core_eq_addi: "core_eq st st' \<Longrightarrow> core_eq (addi inVal ext st) (addi inVal ext st')"
  by (auto simp add: core_eq_def addi_def Let_def ill_def set_ops_def imm_def)

lemma core_eq_ori: "core_eq st st' \<Longrightarrow> core_eq (ori inVal name st) (ori inVal name st')"
  by (auto simp add: core_eq_def ori_def Let_def ill_def set_ops_def imm_def)

lemma core_eq_branch: "core_eq st st' \<Longrightarrow> core_eq (branch inVal bname aform bdisp st) (branch inVal bname aform bdisp st')"
  by (auto simp add: core_eq_def branch_def Let_def ill_def set_ops_def imm_def)

lemma core_eq_bc: "core_eq st st' \<Longrightarrow> core_eq (bc a inVal st) (bc a inVal st')"
  by (auto simp add: core_eq_def bc_def Let_def ill_def set_ops_def imm_def branch_def)

lemma core_eq_bli: "core_eq st st' \<Longrightarrow> core_eq (bli a inVal st) (bli a inVal st')"
  by (auto simp add: core_eq_def bli_def Let_def ill_def set_ops_def imm_def)

lemma core_eq_mcrf: "core_eq st st' \<Longrightarrow> core_eq (mcrf inVal suffix st) (mcrf inVal suffix st')"
  by (auto simp add: core_eq_def mcrf_def Let_def ill_def set_ops_def imm_def)

lemma core_eq_nooper: "core_eq st st' \<Longrightarrow> core_eq (nooper inVal name dmode st) (nooper inVal name dmode st')"
  by (auto simp add: core_eq_def nooper_def Let_def ill_def set_ops_def imm_def)

lemma core_eq_rlw: "core_eq st st' \<Longrightarrow> core_eq (rlw inVal name i st) (rlw inVal name i st')"
  by (auto simp add: core_eq_def rlw_def Let_def ill_def set_ops_def imm_def)

lemma core_eq_rld: "core_eq st st' \<Longrightarrow> core_eq (rld inVal name i st) (rld inVal name i st')"
  by (auto simp add: core_eq_def rld_def Let_def ill_def set_ops_def imm_def)

lemma core_eq_cmp: "core_eq st st' \<Longrightarrow> core_eq (cmp inVal st) (cmp inVal st')"
  by (auto simp add: core_eq_def cmp_def Let_def ill_def set_ops_def imm_def)

lemma core_eq_trap: "core_eq st st' \<Longrightarrow> core_eq (trap inVal dmode st) (trap inVal dmode st')"
  by (auto simp add: core_eq_def trap_def Let_def ill_def set_ops_def imm_def split: option.split)

lemma core_eq_dab: "core_eq st st' \<Longrightarrow> core_eq (dab inVal name msk smode chkoe chkrc dmode st) (dab inVal name msk smode chkoe chkrc dmode st')"
  by (auto simp add: core_eq_def dab_def Let_def ill_def set_ops_def imm_def)

lemma core_eq_rrn: "core_eq st st' \<Longrightarrow> core_eq (rrn inVal name smode chkoe chkrc dmode st) (rrn inVal name smode chkoe chkrc dmode st')"
  by (auto simp add: core_eq_def rrn_def Let_def ill_def set_ops_def imm_def)

lemma core_eq_mtcr: "core_eq st st' \<Longrightarrow> core_eq (mtcr inVal st) (mtcr inVal st')"
  by (auto simp add: core_eq_def mtcr_def Let_def ill_def set_ops_def imm_def)

lemma core_eq_msr: "core_eq st st' \<Longrightarrow> core_eq (msr inVal smode st) (msr inVal smode st')"
  by (auto simp add: core_eq_def msr_def Let_def ill_def set_ops_def imm_def)

lemma core_eq_mspr: "core_eq st st' \<Longrightarrow> core_eq (mspr inVal smode st) (mspr inVal smode st')"
  by (auto simp add: core_eq_def mspr_def Let_def ill_def set_ops_def imm_def)

lemma core_eq_mtb: "core_eq st st' \<Longrightarrow> core_eq (mtb inVal st) (mtb inVal st')"
  by (auto simp add: core_eq_def mtb_def Let_def ill_def set_ops_def imm_def)

lemma core_eq_sradi: "core_eq st st' \<Longrightarrow> core_eq (sradi inVal st) (sradi inVal st')"
  by (auto simp add: core_eq_def sradi_def Let_def ill_def set_ops_def imm_def)

lemma core_eq_ldst: "core_eq st st' \<Longrightarrow> core_eq (ldst inVal name reg dmode st) (ldst inVal name reg dmode st')"
  by (auto simp add: core_eq_def ldst_def Let_def ill_def set_ops_def imm_def)

lemma core_eq_fdabc: "core_eq st st' \<Longrightarrow> core_eq (fdabc inVal name msk dmode st) (fdabc inVal name msk dmode st')"
  by (auto simp add: core_eq_def fdabc_def Let_def ill_def set_ops_def imm_def)

lemma core_eq_fmr: "core_eq st st' \<Longrightarrow> core_eq (fmr inVal st) (fmr inVal st')"
  by (auto simp add: core_eq_def fmr_def Let_def ill_def set_ops_def imm_def)

lemma core_eq_fdab: "core_eq st st' \<Longrightarrow> core_eq (fdab inVal name msk st) (fdab inVal name msk st')"
  by (auto simp add: core_eq_def fdab_def Let_def ill_def set_ops_def imm_def)

lemma core_eq_fcmp: "core_eq st st' \<Longrightarrow> core_eq (fcmp inVal c st) (fcmp inVal c st')"
  by (auto simp add: core_eq_def fcmp_def Let_def ill_def set_ops_def imm_def)

lemma core_eq_mtfsb: "core_eq st st' \<Longrightarrow> core_eq (mtfsb inVal n st) (mtfsb inVal n st')"
  by (auto simp add: core_eq_def mtfsb_def Let_def ill_def set_ops_def imm_def)

lemma core_eq_ps_cmp: "core_eq st st' \<Longrightarrow> core_eq (ps_cmp inst st) (ps_cmp inst st')"
  by (auto simp add: core_eq_def ps_cmp_def Let_def ill_def set_ops_def imm_def)

lemma core_eq_ps_mem: "core_eq st st' \<Longrightarrow> core_eq (ps_mem inst st) (ps_mem inst st')"
  by (auto simp add: core_eq_def ps_mem_def Let_def ill_def set_ops_def imm_def)

lemmas core_eq_helpers = core_eq_ill core_eq_set_ops core_eq_upd core_eq_imm
  core_eq_trapi core_eq_cmpi core_eq_addi core_eq_ori core_eq_branch core_eq_bc
  core_eq_bli core_eq_mcrf core_eq_nooper core_eq_rlw core_eq_rld core_eq_cmp
  core_eq_trap core_eq_dab core_eq_rrn core_eq_mtcr core_eq_msr core_eq_mspr
  core_eq_mtb core_eq_sradi core_eq_ldst core_eq_fdabc core_eq_fmr core_eq_fdab
  core_eq_fcmp core_eq_mtfsb core_eq_ps_cmp core_eq_ps_mem

lemma core_eq_crop:
  "core_eq st st' \<Longrightarrow> rel_sum (=) core_eq (crop inVal n1 n2 st) (crop inVal n1 n2 st')"
  by (simp add: crop_def call_empty_def Let_def core_eq_ill core_eq_set_ops)

lemma ps_switch5_core:
  "list_all (\<lambda>e. \<forall>st st'. core_eq st st' \<longrightarrow> core_eq (snd e st) (snd e st')) (ps_switch5 inst)"
  by (simp add: ps_switch5_def core_eq_helpers)

lemma ps_switch10_core:
  "list_all (\<lambda>e. \<forall>st st'. core_eq st st' \<longrightarrow> core_eq (snd e st) (snd e st')) (ps_switch10 inst)"
  by (simp add: ps_switch10_def core_eq_helpers)

lemma core_eq_ps: "core_eq st st' \<Longrightarrow> core_eq (ps inst st) (ps inst st')"
  using list_all_map_of [OF ps_switch5_core] list_all_map_of [OF ps_switch10_core]
  by (auto simp add: ps_def core_eq_set_ops split: option.split)

lemma switch30_core:
  "list_all (\<lambda>e. \<forall>inVal st st'. core_eq st st' \<longrightarrow> core_eq (snd e inVal st) (snd e inVal st')) switch30"
  by (simp add: switch30_def core_eq_helpers)

lemma switch31_core:
  "list_all (\<lambda>e. \<forall>inVal st st'. core_eq st st' \<longrightarrow> core_eq (snd e inVal st) (snd e inVal st')) switch31"
  by (simp add: switch31_def core_eq_helpers)

lemma switch58_core:
  "list_all (\<lambda>e. \<forall>inVal st st'. core_eq st st' \<longrightarrow> core_eq (snd e inVal st) (snd e inVal st')) switch58"
  by (simp add: switch58_def core_eq_helpers)

lemma switch59_core:
  "list_all (\<lambda>e. \<forall>inVal st st'. core_eq st st' \<longrightarrow> core_eq (snd e inVal st) (snd e inVal st')) switch59"
  by (simp add: switch59_def core_eq_helpers)

lemma switch62_core:
  "list_all (\<lambda>e. \<forall>inVal st st'. core_eq st st' \<longrightarrow> core_eq (snd e inVal st) (snd e inVal st')) switch62"
  by (simp add: switch62_def core_eq_helpers)

lemma switch63a_core:
  "list_all (\<lambda>e. \<forall>inVal st st'. core_eq st st' \<longrightarrow> core_eq (snd e inVal st) (snd e inVal st')) switch63a"
  by (simp add: switch63a_def core_eq_helpers)

lemma switch63b_core:
  "list_all (\<lambda>e. \<forall>inVal st st'. core_eq st st' \<longrightarrow> core_eq (snd e inVal st) (snd e inVal st')) switch63b"
  by (simp add: switch63b_def core_eq_helpers)

lemma switch19_core:
  "list_all (\<lambda>e. \<forall>inVal st st'. core_eq st st' \<longrightarrow> rel_sum (=) core_eq (snd e inVal st) (snd e inVal st')) switch19"
  by (simp add: switch19_def core_eq_helpers core_eq_crop)

lemma core_eq_run_switch:
  assumes "list_all (\<lambda>e. \<forall>inVal st st'. core_eq st st' \<longrightarrow> core_eq (snd e inVal st) (snd e inVal st')) tbl"
    and "core_eq st st'"
  shows "core_eq (run_switch tbl k inVal st) (run_switch tbl k inVal st')"
  using list_all_map_of [OF assms(1), of k] assms(2)
  by (auto simp add: run_switch_def core_eq_ill split: option.split)

lemmas core_eq_switches =
  core_eq_run_switch [OF switch30_core] core_eq_run_switch [OF switch31_core]
  core_eq_run_switch [OF switch58_core] core_eq_run_switch [OF switch59_core]
  core_eq_run_switch [OF switch62_core] core_eq_run_switch [OF switch63a_core]
  core_eq_run_switch [OF switch63b_core]

lemma core_eq_switch19:
  assumes "core_eq st st'"
  shows "rel_sum (=) core_eq
     (case map_of switch19 k of Some body \<Rightarrow> body inVal st | None \<Rightarrow> Inr (ill inVal st))
     (case map_of switch19 k of Some body \<Rightarrow> body inVal st' | None \<Rightarrow> Inr (ill inVal st'))"
  using list_all_map_of [OF switch19_core, of k] assms
  by (auto simp add: core_eq_ill split: option.split)

lemma core_eq_imm_op:
  "core_eq st st' \<Longrightarrow>
   core_eq ((snd (imm inVal uimm ty hex (st\<lparr>m_opcode := n\<rparr>)))
              \<lparr>m_operands := fst (imm inVal uimm ty hex (st\<lparr>m_opcode := n\<rparr>))\<rparr>)
           ((snd (imm inVal uimm ty hex (st'\<lparr>m_opcode := n\<rparr>)))
              \<lparr>m_operands := fst (imm inVal uimm ty hex (st'\<lparr>m_opcode := n\<rparr>))\<rparr>)"
  by (auto simp add: core_eq_def imm_def Let_def)

lemma top_switch_core:
  "list_all (\<lambda>e. \<forall>inVal st st'. core_eq st st' \<longrightarrow> rel_sum (=) core_eq (snd e inVal st) (snd e inVal st'))
     (top_switch a)"
  by (simp add: top_switch_def ldst_int_def ldst_float_def Let_def core_eq_helpers core_eq_ps
      core_eq_switches core_eq_switch19 core_eq_imm_op)

lemma doDisassembly_core:
  "rel_sum (=) core_eq (doDisassembly st0 w a be) (doDisassembly st0' w a be)"
proof -
  let ?r = "\<lambda>s. s\<lparr>m_opcode := [], m_operands := [], m_type := PPCINSTR_OTHER, m_flags := 0\<rparr>"
  have c: "core_eq (?r st0) (?r st0')" by (simp add: core_eq_def)
  show ?thesis
    using c list_all_map_of [OF top_switch_core, of a]
    by (auto simp add: doDisassembly_def Let_def core_eq_ill split: option.split)
qed

lemma disassemble_text_independent:
  "map_sum id fst (disassemble st0 w a be) = map_sum id fst (disassemble st0' w a be)"
  using doDisassembly_core [of st0 w a be st0']
  by (auto simp add: disassemble_def core_eq_def rel_sum.simps split: sum.splits)

section \<open>The two passes\<close>

subsection \<open>Evaluation on concrete sections\<close>

lemmas pass_defs = processTextSection_def populateBranchDestinations_def disassembleSection_def
  disassembleSection_from.simps populate_callback_def emit_callback_def annotate_def
  write_separator_def write_label_def after_instr_def stream_write_def name_destinations_def
  object_keys_def sort_default_def truthy_def readUInt32BE_def match_branch_def match_tail_def
  is_blr_def is_space_def is_hex_lower_def hex_val_def hexdigit_val_def nl_def EQUALS_DIVIDER_def
  labelNames_def init_dstate_def

lemma decode_blr:
  "disassemble st0 0x4E800020 a True =
     Inr (''blr'' @ [CHR 0x09],
          st0\<lparr>m_opcode := ''blr'', m_operands := [], m_type := PPCINSTR_OTHER, m_flags := 0\<rparr>)"
  by (simp add: disassemble_def doDisassembly_def top_switch_19 switch19_def branch_def field_defs
      table_defs fmt_defs Let_def)

lemma decode_nop:
  "disassemble st0 0x60000000 a True =
     Inr (''nop'' @ [CHR 0x09],
          st0\<lparr>m_opcode := ''nop'', m_operands := [], m_type := PPCINSTR_OTHER, m_flags := 0\<rparr>)"
  by (simp add: disassemble_def doDisassembly_def top_switch_24 field_defs)

lemma decode_b_4:
  "disassemble st0 0x48000004 a True =
     Inr (''b'' @ [CHR 0x09] @ ''->0x'' @ fmt_08x (a + 4),
          st0\<lparr>m_opcode := ''b'', m_operands := ''->0x'' @ fmt_08x (a + 4),
              m_type := PPCINSTR_BRANCH, m_flags := 0, m_displacement := 4\<rparr>)"
  by (simp add: disassemble_def doDisassembly_def top_switch_18 bli_def field_defs table_defs
      nth_str_def Let_def)

lemma decode_b_8:
  "disassemble st0 0x48000008 a True =
     Inr (''b'' @ [CHR 0x09] @ ''->0x'' @ fmt_08x (a + 8),
          st0\<lparr>m_opcode := ''b'', m_operands := ''->0x'' @ fmt_08x (a + 8),
              m_type := PPCINSTR_BRANCH, m_flags := 0, m_displacement := 8\<rparr>)"
  by (simp add: disassemble_def doDisassembly_def top_switch_18 bli_def field_defs table_defs
      nth_str_def Let_def)

lemma decode_ba_8:
  "disassemble st0 0x4800000A a True =
     Inr (''ba'' @ [CHR 0x09] @ ''->0x00000008'',
          st0\<lparr>m_opcode := ''ba'', m_operands := ''->0x00000008'',
              m_type := PPCINSTR_BRANCH, m_flags := 0, m_displacement := 8\<rparr>)"
  by (simp add: disassemble_def doDisassembly_def top_switch_18 bli_def field_defs table_defs
      fmt_defs Let_def)

lemma decode_bne_8:
  "disassemble st0 0x40820008 a True =
     Inr (''bne-'' @ [CHR 0x09] @ '' ->0x'' @ fmt_08x (a + 8),
          st0\<lparr>m_opcode := ''bne-'', m_operands := '' ->0x'' @ fmt_08x (a + 8),
              m_type := PPCINSTR_BRANCH, m_flags := 0, m_displacement := 8\<rparr>)"
  by (simp add: disassemble_def doDisassembly_def top_switch_16 bc_def branch_def field_defs
      table_defs nth_str_def Let_def)

lemmas decode_words = decode_blr decode_nop decode_b_4 decode_b_8 decode_ba_8 decode_bne_8

subsection \<open>Exceptions during a run\<close>

text \<open>
  C2 (no exception escapes either pass, also when the module map has no entry at
  section offset 0).  For a section of one \<open>nop\<close> and an empty module map the
  analyzer opens no scope, the table \<open>branchDestinations\<close> stays empty, and the
  emitter's read of \<open>branchDestinations[currRelFnOffset][...]\<close> before the first
  instruction line raises a \<open>TypeError\<close>.
\<close>

theorem missing_scope_raises:
  "processTextSection input_no_scope 0x80001000 4 = Inl TypeError"
  by (simp add: pass_defs input_no_scope_def decode_words fmt_defs)

subsection \<open>The finish slot\<close>

text \<open>
  C3 (the finish name goes to the highest-address destination, if it has no backward
  reference).  In \<open>input_mixed_digits\<close> the function at offset 0 has the destinations
  \<open>0x80001008\<close>, reached only from the lower address \<open>0x80001000\<close>, and \<open>8\<close>,
  reached from the higher address \<open>0x80001004\<close>.  The keys are sorted as decimal
  texts, \<open>"2147487752" < "8"\<close>, so the slot examined is \<open>8\<close>, whose flag is set, and
  no destination is named \<open>FINISH_FUNCTION\<close>.
\<close>

theorem finish_slot_sorted_as_text:
  "disassembleSection input_mixed_digits 0x80001000 12
     (populate_callback input_mixed_digits 0x80001000)
     (init_dstate, \<lparr>a_obj = [], a_currRelFnOffset = 0\<rparr>)
   = Inr (\<lparr>m_opcode = ''nop'', m_operands = [], m_type = PPCINSTR_OTHER, m_flags = 0, m_sreg = 0,
          m_displacement = 8\<rparr>,
         \<lparr>a_obj = [(0, [(0x80001008, False), (8, True)])], a_currRelFnOffset = 0\<rparr>)
   \<and> populateBranchDestinations input_mixed_digits 0x80001000 12 init_dstate
   = Inr (\<lparr>m_opcode = ''nop'', m_operands = [], m_type = PPCINSTR_OTHER, m_flags = 0, m_sreg = 0,
          m_displacement = 8\<rparr>,
         [(0, [(8, ''APPLE''), (0x80001008, ''BANANA'')])])"
  by (simp add: pass_defs input_mixed_digits_def decode_words fmt_defs)

subsection \<open>After a return\<close>

lemma match_branch_blr: "match_branch [CHR ''b'', CHR ''l'', CHR ''r'', CHR 0x09] = None"
  by (simp add: match_branch_def match_tail_def is_space_def Let_def)

lemma is_blr_blr: "is_blr [CHR ''b'', CHR ''l'', CHR ''r'', CHR 0x09]"
  by (simp add: is_blr_def is_space_def)

lemma write_separator_flags:
  "leaveBlankLine (write_separator inp sa off s) = False"
  "startingNewFn (write_separator inp sa off s) = (startingNewFn s \<and> leaveBlankLine s)"
  "e_currRelFnOffset (write_separator inp sa off s) = e_currRelFnOffset s"
  by (auto simp add: write_separator_def stream_write_def Let_def)

lemma write_label_flags:
  assumes "write_label bd sa off s = Inr s'"
  shows "leaveBlankLine s' = leaveBlankLine s" and "startingNewFn s' = startingNewFn s"
    and "e_currRelFnOffset s' = e_currRelFnOffset s"
  using assms by (auto simp add: write_label_def stream_write_def split: option.splits if_splits)

text \<open>
  C5 as stated (after \<open>blr\<close> a header block starts if and only if the next address
  is a recorded destination of the active function) fails.  In \<open>input_blr_dest\<close> the
  address after the \<open>blr\<close> is the destination of the \<open>bne\<close>, and the emitter
  writes a blank line and the label, not a header block.
\<close>

theorem blr_before_destination_counterexample:
  "processTextSection input_blr_dest 0x80001000 12 =
     Inr (''m.rel'' @ nl @ nl
          @ EQUALS_DIVIDER @ ''0x0 80001000 f:'' @ nl @ EQUALS_DIVIDER
          @ [CHR 0x09] @ ''bne-'' @ [CHR 0x09] @ '' ->0x80001008 ===> FINISH_FUNCTION_80001008'' @ nl
          @ [CHR 0x09] @ ''blr'' @ [CHR 0x09] @ nl
          @ nl
          @ ''FINISH_FUNCTION_80001008:'' @ nl
          @ [CHR 0x09] @ ''nop'' @ [CHR 0x09] @ nl)"
  by (simp add: pass_defs input_blr_dest_def decode_words fmt_defs)

text \<open>
  C5, amended: after emitting a \<open>blr\<close> line the emitter starts a new function header
  block if and only if the next section offset is a key of the label table, that is, the
  start of a function scope; otherwise it schedules a single blank separator line.  (The
  two flags are never both set when an instruction is processed, see
  \<open>emit_flags_exclusive\<close> below.)
\<close>

theorem blr_next_block:
  assumes "emit_callback inp bd sa (''blr'' @ [CHR 0x09]) off s = Inr s'"
    and "\<not> (startingNewFn s \<and> leaveBlankLine s)"
  shows "startingNewFn s' = (map_of bd (off + 4) \<noteq> None)
       \<and> leaveBlankLine s' = (map_of bd (off + 4) = None)"
proof -
  let ?s1 = "if truthy (relMap inp off) then s\<lparr>e_currRelFnOffset := off\<rparr> else s"
  let ?s2 = "write_separator inp sa off ?s1"
  from assms(1) obtain s3 where
    l: "write_label bd sa off ?s2 = Inr s3" and
    r: "s' = after_instr bd None (''blr'' @ [CHR 0x09]) off
               (stream_write ([CHR 0x09] @ (''blr'' @ [CHR 0x09]) @ nl) s3)"
    by (auto simp add: emit_callback_def Let_def match_branch_blr
        annotate_no_match [OF match_branch_blr] split: sum.splits)
  have f: "leaveBlankLine s3 = False" "startingNewFn s3 = False"
    using write_label_flags [OF l] assms(2) by (auto simp add: write_separator_flags)
  show ?thesis
    using f is_blr_blr by (simp add: r after_instr_def stream_write_def)
qed

theorem blr_next_block_witness:
  "emit_callback input_two_blocks [(0, []), (4, [])] 0x80001000 (''blr'' @ [CHR 0x09]) 0
     \<lparr>startingNewFn = True, leaveBlankLine = False, e_currRelFnOffset = 0, stream = []\<rparr>
   = Inr \<lparr>startingNewFn = True, leaveBlankLine = False, e_currRelFnOffset = 0,
          stream = EQUALS_DIVIDER @ ''0x0 80001000 f:'' @ nl @ EQUALS_DIVIDER
                   @ [CHR 0x09] @ ''blr'' @ [CHR 0x09] @ nl\<rparr>
   \<and> map_of [(0 :: nat, [] :: (nat \<times> string) list), (4, [])] (0 + 4) \<noteq> None"
proof -
  let ?s = "\<lparr>startingNewFn = True, leaveBlankLine = False, e_currRelFnOffset = 0, stream = []\<rparr>"
  let ?s' = "\<lparr>startingNewFn = True, leaveBlankLine = False, e_currRelFnOffset = 0,
          stream = EQUALS_DIVIDER @ ''0x0 80001000 f:'' @ nl @ EQUALS_DIVIDER
                   @ [CHR 0x09] @ ''blr'' @ [CHR 0x09] @ nl\<rparr>"
  have h1: "emit_callback input_two_blocks [(0, []), (4, [])] 0x80001000 (''blr'' @ [CHR 0x09]) 0 ?s
              = Inr ?s'"
    by (simp add: pass_defs input_two_blocks_def fmt_defs Let_def)
  have h2: "\<not> (startingNewFn ?s \<and> leaveBlankLine ?s)"
    by simp
  from blr_next_block [OF h1 h2] h1 show ?thesis
    by simp
qed

subsection \<open>Blank lines around header blocks\<close>

lemma emit_flags_exclusive:
  assumes "emit_callback inp bd sa instr off s = Inr s'"
    and "\<not> (startingNewFn s \<and> leaveBlankLine s)"
  shows "\<not> (startingNewFn s' \<and> leaveBlankLine s')"
proof -
  let ?s1 = "if truthy (relMap inp off) then s\<lparr>e_currRelFnOffset := off\<rparr> else s"
  let ?s2 = "write_separator inp sa off ?s1"
  from assms(1) obtain instr' s3 where
    l: "write_label bd sa off ?s2 = Inr s3" and
    r: "s' = after_instr bd (match_branch instr) instr' off
               (stream_write ([CHR 0x09] @ instr' @ nl) s3)"
    by (auto simp add: emit_callback_def Let_def split: sum.splits)
  have f: "leaveBlankLine s3 = False" "startingNewFn s3 = False"
    using write_label_flags [OF l] assms(2) by (auto simp add: write_separator_flags)
  show ?thesis
    using f by (auto simp add: r after_instr_def stream_write_def)
qed

lemma write_label_stream:
  assumes "write_label bd sa off s = Inr s'"
  shows "\<exists>lab. stream s' = stream s @ lab"
  using assms by (auto simp add: write_label_def stream_write_def split: option.splits if_splits)

lemma emit_callback_stream:
  assumes "emit_callback inp bd sa instr off s = Inr s'"
  shows "\<exists>chunk. stream s' = stream s @ chunk"
proof -
  let ?s1 = "if truthy (relMap inp off) then s\<lparr>e_currRelFnOffset := off\<rparr> else s"
  let ?s2 = "write_separator inp sa off ?s1"
  from assms(1) obtain instr' s3 where
    l: "write_label bd sa off ?s2 = Inr s3" and
    r: "s' = after_instr bd (match_branch instr) instr' off
               (stream_write ([CHR 0x09] @ instr' @ nl) s3)"
    by (auto simp add: emit_callback_def Let_def split: sum.splits)
  obtain lab where "stream s3 = stream ?s2 @ lab"
    using write_label_stream [OF l] by blast
  moreover have "\<exists>sep. stream ?s2 = stream s @ sep"
    by (simp add: write_separator_def stream_write_def Let_def)
  ultimately show ?thesis
    by (auto simp add: r after_instr_def stream_write_def)
qed

lemma emit_callback_header:
  assumes "emit_callback inp bd sa instr off s = Inr s'"
    and "startingNewFn s" and "\<not> leaveBlankLine s"
  shows "\<exists>hdr lab line.
           stream s' = stream s @ (if 0 < off then nl @ nl else []) @ EQUALS_DIVIDER @ hdr @ nl
                         @ EQUALS_DIVIDER @ lab @ [CHR 0x09] @ line @ nl"
proof -
  let ?s1 = "if truthy (relMap inp off) then s\<lparr>e_currRelFnOffset := off\<rparr> else s"
  let ?s2 = "write_separator inp sa off ?s1"
  from assms(1) obtain instr' s3 where
    l: "write_label bd sa off ?s2 = Inr s3" and
    r: "s' = after_instr bd (match_branch instr) instr' off
               (stream_write ([CHR 0x09] @ instr' @ nl) s3)"
    by (auto simp add: emit_callback_def Let_def split: sum.splits)
  obtain lab where lab: "stream s3 = stream ?s2 @ lab"
    using write_label_stream [OF l] by blast
  have "\<exists>hdr. stream ?s2 = stream s @ (if 0 < off then nl @ nl else []) @ EQUALS_DIVIDER @ hdr @ nl
                  @ EQUALS_DIVIDER"
    using assms(2,3) by (simp add: write_separator_def stream_write_def Let_def)
  then obtain hdr where "stream ?s2 = stream s @ (if 0 < off then nl @ nl else []) @ EQUALS_DIVIDER
       @ hdr @ nl @ EQUALS_DIVIDER" by blast
  with lab have "stream s' = stream s @ (if 0 < off then nl @ nl else []) @ EQUALS_DIVIDER @ hdr @ nl
                         @ EQUALS_DIVIDER @ lab @ [CHR 0x09] @ instr' @ nl"
    by (simp add: r after_instr_def stream_write_def)
  then show ?thesis by blast
qed

lemma emit_loop_stream:
  "disassembleSection_from inp sa len (emit_callback inp bd sa) off ds = Inr ds'
     \<Longrightarrow> \<exists>rest. stream (snd ds') = stream (snd ds) @ rest"
proof (induction inp sa len "emit_callback inp bd sa" off ds rule: disassembleSection_from.induct)
  case (1 inp sa len off ds)
  show ?case
  proof (cases "off < len")
    case False
    with "1.prems" show ?thesis
      by (simp add: disassembleSection_from.simps)
  next
    case True
    from "1.prems" True obtain w r s1 where
      rd: "readUInt32BE (relBuffer inp) (int sa - int (relPtr inp) + int off) = Inr w" and
      dc: "disassemble (fst ds) w (int (sa + off)) True = Inr r" and
      cb: "emit_callback inp bd sa (fst r) off (snd ds) = Inr s1" and
      nx: "disassembleSection_from inp sa len (emit_callback inp bd sa) (off + 4) (snd r, s1) = Inr ds'"
      by (subst (asm) disassembleSection_from.simps) (auto split: sum.splits)
    from "1.hyps" [OF True rd dc cb nx] obtain rest where "stream (snd ds') = stream s1 @ rest"
      by auto
    moreover obtain chunk where "stream s1 = stream (snd ds) @ chunk"
      using emit_callback_stream [OF cb] by blast
    ultimately show ?thesis by simp
  qed
qed

text \<open>
  C8 as stated (exactly one blank line separates consecutive function blocks) fails:
  in \<open>input_two_blocks\<close> the second header block is separated from the last line of
  the first block by two blank lines; the first block follows the blank line that ends
  the module-name header.
\<close>

theorem two_blank_lines_counterexample:
  "processTextSection input_two_blocks 0x80001000 8 =
     Inr (''m.rel'' @ nl @ nl
          @ EQUALS_DIVIDER @ ''0x0 80001000 f:'' @ nl @ EQUALS_DIVIDER
          @ [CHR 0x09] @ ''blr'' @ [CHR 0x09] @ nl
          @ nl
          @ nl
          @ EQUALS_DIVIDER @ ''0x4 80001004 g:'' @ nl @ EQUALS_DIVIDER
          @ [CHR 0x09] @ ''nop'' @ [CHR 0x09] @ nl)"
  by (simp add: pass_defs input_two_blocks_def decode_words fmt_defs)

text \<open>
  C8, amended: when the emitter writes a header block at an offset above 0 it first
  writes two newline characters, so two blank lines separate the block from the
  instruction line before it; at offset 0 it writes none.  Every chunk written for an
  instruction ends with the instruction line.  The output of a run over a non-empty
  section starts with the module-name line, one blank line and the first divider.
\<close>

theorem header_block_separation:
  "(emit_callback inp bd sa instr off s = Inr s' \<longrightarrow> startingNewFn s \<longrightarrow> \<not> leaveBlankLine s \<longrightarrow>
      (\<exists>hdr lab line.
          stream s' = stream s @ (if 0 < off then nl @ nl else []) @ EQUALS_DIVIDER @ hdr @ nl
                        @ EQUALS_DIVIDER @ lab @ [CHR 0x09] @ line @ nl))
   \<and> (processTextSection inp sa len = Inr out \<longrightarrow> 0 < len \<longrightarrow>
      (\<exists>rest. out = relName inp @ ''.rel'' @ nl @ nl @ EQUALS_DIVIDER @ rest))"
proof (intro conjI impI)
  assume "emit_callback inp bd sa instr off s = Inr s'" "startingNewFn s" "\<not> leaveBlankLine s"
  then show "\<exists>hdr lab line.
          stream s' = stream s @ (if 0 < off then nl @ nl else []) @ EQUALS_DIVIDER @ hdr @ nl
                        @ EQUALS_DIVIDER @ lab @ [CHR 0x09] @ line @ nl"
    by (rule emit_callback_header)
next
  assume p: "processTextSection inp sa len = Inr out" and len: "0 < len"
  let ?s0 = "\<lparr>startingNewFn = True, leaveBlankLine = False, e_currRelFnOffset = 0,
              stream = relName inp @ ''.rel'' @ nl @ nl\<rparr>"
  from p obtain dst bd ds' where
    lp: "disassembleSection_from inp sa len (emit_callback inp bd sa) 0 (dst, ?s0) = Inr ds'" and
    o: "out = stream (snd ds')"
    by (auto simp add: processTextSection_def disassembleSection_def Let_def split: sum.splits)
  from lp len obtain r s1 where
    cb: "emit_callback inp bd sa (fst r) 0 ?s0 = Inr s1" and
    nx: "disassembleSection_from inp sa len (emit_callback inp bd sa) (0 + 4) (snd r, s1) = Inr ds'"
    by (subst (asm) disassembleSection_from.simps) (auto split: sum.splits)
  obtain hdr lab line where
    "stream s1 = stream ?s0 @ (if 0 < (0::nat) then nl @ nl else []) @ EQUALS_DIVIDER @ hdr @ nl
                   @ EQUALS_DIVIDER @ lab @ [CHR 0x09] @ line @ nl"
    using emit_callback_header [OF cb] by auto
  moreover obtain rest where "stream (snd ds') = stream s1 @ rest"
    using emit_loop_stream [OF nx] by auto
  ultimately show "\<exists>rest. out = relName inp @ ''.rel'' @ nl @ nl @ EQUALS_DIVIDER @ rest"
    using o by simp
qed

theorem header_block_separation_witness:
  "emit_callback input_two_blocks [(0, []), (4, [])] 0x80001000 (''nop'' @ [CHR 0x09]) 4
     \<lparr>startingNewFn = True, leaveBlankLine = False, e_currRelFnOffset = 0, stream = ''x'' @ nl\<rparr>
   = Inr \<lparr>startingNewFn = False, leaveBlankLine = False, e_currRelFnOffset = 4,
          stream = ''x'' @ nl @ nl @ nl @ EQUALS_DIVIDER @ ''0x4 80001004 g:'' @ nl
                   @ EQUALS_DIVIDER @ [CHR 0x09] @ ''nop'' @ [CHR 0x09] @ nl\<rparr>
   \<and> (\<exists>hdr lab line.
          ''x'' @ nl @ nl @ nl @ EQUALS_DIVIDER @ ''0x4 80001004 g:'' @ nl
             @ EQUALS_DIVIDER @ [CHR 0x09] @ ''nop'' @ [CHR 0x09] @ nl
          = (''x'' @ nl) @ (nl @ nl) @ EQUALS_DIVIDER @ hdr @ nl @ EQUALS_DIVIDER @ lab
              @ [CHR 0x09] @ line @ nl)
   \<and> (\<exists>rest. ''m.rel'' @ nl @ nl
          @ EQUALS_DIVIDER @ ''0x0 80001000 f:'' @ nl @ EQUALS_DIVIDER
          @ [CHR 0x09] @ ''blr'' @ [CHR 0x09] @ nl @ nl @ nl
          @ EQUALS_DIVIDER @ ''0x4 80001004 g:'' @ nl @ EQUALS_DIVIDER
          @ [CHR 0x09] @ ''nop'' @ [CHR 0x09] @ nl
        = relName input_two_blocks @ ''.rel'' @ nl @ nl @ EQUALS_DIVIDER @ rest)"
proof -
  let ?s = "\<lparr>startingNewFn = True, leaveBlankLine = False, e_currRelFnOffset = 0,
             stream = ''x'' @ nl\<rparr>"
  let ?s' = "\<lparr>startingNewFn = False, leaveBlankLine = False, e_currRelFnOffset = 4,
          stream = ''x'' @ nl @ nl @ nl @ EQUALS_DIVIDER @ ''0x4 80001004 g:'' @ nl
                   @ EQUALS_DIVIDER @ [CHR 0x09] @ ''nop'' @ [CHR 0x09] @ nl\<rparr>"
  let ?out = "''m.rel'' @ nl @ nl
          @ EQUALS_DIVIDER @ ''0x0 80001000 f:'' @ nl @ EQUALS_DIVIDER
          @ [CHR 0x09] @ ''blr'' @ [CHR 0x09] @ nl @ nl @ nl
          @ EQUALS_DIVIDER @ ''0x4 80001004 g:'' @ nl @ EQUALS_DIVIDER
          @ [CHR 0x09] @ ''nop'' @ [CHR 0x09] @ nl"
  have h1: "emit_callback input_two_blocks [(0, []), (4, [])] 0x80001000 (''nop'' @ [CHR 0x09]) 4 ?s
              = Inr ?s'"
    by (simp add: pass_defs input_two_blocks_def fmt_defs Let_def)
  have h2: "startingNewFn ?s" and h3: "\<not> leaveBlankLine ?s"
    by simp_all
  have h4: "processTextSection input_two_blocks 0x80001000 8 = Inr ?out"
    by (simp add: pass_defs input_two_blocks_def decode_words fmt_defs)
  have h5: "0 < (8 :: nat)"
    by simp
  note t = header_block_separation [where inp = input_two_blocks and bd = "[(0, []), (4, [])]"
      and sa = "0x80001000" and instr = "''nop'' @ [CHR 0x09]" and off = 4 and s = ?s and s' = ?s'
      and len = 8 and out = ?out]
  have a: "\<exists>hdr lab line. stream ?s' = stream ?s @ (if 0 < (4 :: nat) then nl @ nl else [])
             @ EQUALS_DIVIDER @ hdr @ nl @ EQUALS_DIVIDER @ lab @ [CHR 0x09] @ line @ nl"
    using t h1 h2 h3 by blast
  have b: "\<exists>rest. ?out = relName input_two_blocks @ ''.rel'' @ nl @ nl @ EQUALS_DIVIDER @ rest"
    using t h4 h5 by blast
  from a b h1 show ?thesis
    by simp
qed

subsection \<open>Sections that begin outside every function\<close>

text \<open>
  The analyzer opens a scope only at an offset that the module map names, so without a
  name at offset 0 the label table has no entry for the scope \<open>0\<close> that the emitter
  starts in.  The emitter's first callback then reads a property of \<open>undefined\<close>:
  every run on a non-empty section ends in an exception, whatever the words are, and the
  \<open>UNKNOWN FUNCTION\<close> header is never followed by an instruction line.
\<close>

lemma update_keys_insert:
  "fst ` set (AList.update k v al) = insert k (fst ` set al)"
  by (induction al) auto

lemma map_of_Some_key:
  "map_of al k = Some v \<Longrightarrow> insert k (fst ` set al) = fst ` set al"
  by (auto dest: map_of_SomeD simp add: rev_image_eqI)

lemma populate_callback_keys:
  assumes "populate_callback inp sa instr off s = Inr s'"
  shows "fst ` set (a_obj s') =
         (if truthy (relMap inp off) then insert off (fst ` set (a_obj s))
          else fst ` set (a_obj s))"
proof -
  define s1 where "s1 = (if truthy (relMap inp off)
              then s\<lparr>a_currRelFnOffset := off, a_obj := AList.update off [] (a_obj s)\<rparr>
              else s)"
  have k1: "fst ` set (a_obj s1) =
         (if truthy (relMap inp off) then insert off (fst ` set (a_obj s))
          else fst ` set (a_obj s))"
    by (simp add: s1_def update_keys_insert)
  have "fst ` set (a_obj s') = fst ` set (a_obj s1)"
  proof (cases "match_branch instr")
    case None
    then show ?thesis
      using assms by (simp add: populate_callback_def s1_def [symmetric])
  next
    case (Some m)
    show ?thesis
    proof (cases "fst m = ''bl''")
      case True
      then show ?thesis
        using assms Some by (simp add: populate_callback_def s1_def [symmetric] Let_def)
    next
      case False
      show ?thesis
      proof (cases "map_of (a_obj s1) (a_currRelFnOffset s1)")
        case None
        then show ?thesis
          using assms Some False
          by (simp add: populate_callback_def s1_def [symmetric] Let_def)
      next
        case look: (Some fnObj0)
        obtain fnObj2 where
          "s' = s1\<lparr>a_obj := AList.update (a_currRelFnOffset s1) fnObj2 (a_obj s1)\<rparr>"
          using assms Some False look
          by (simp add: populate_callback_def s1_def [symmetric] Let_def) metis
        then show ?thesis
          by (simp add: update_keys_insert map_of_Some_key [OF look])
      qed
    qed
  qed
  then show ?thesis
    by (simp only: k1)
qed

lemma populate_callback_scopes:
  assumes "populate_callback inp sa instr off s = Inr s'" and "scopes_named inp s"
  shows "scopes_named inp s'"
  using assms(2) unfolding scopes_named_def populate_callback_keys [OF assms(1)]
  by (simp split: if_splits)

lemma analyzer_loop_scopes:
  "disassembleSection_from inp sa len (populate_callback inp sa) off ds = Inr ds'
   \<Longrightarrow> scopes_named inp (snd ds) \<Longrightarrow> scopes_named inp (snd ds')"
proof (induction inp sa len "populate_callback inp sa" off ds rule: disassembleSection_from.induct)
  case (1 inp sa len off ds)
  show ?case
  proof (cases "off < len")
    case False
    with 1(2,3) show ?thesis
      by (subst (asm) disassembleSection_from.simps) simp
  next
    case True
    from 1(2) True obtain w r s' where
      rd: "readUInt32BE (relBuffer inp) (int sa - int (relPtr inp) + int off) = Inr w"
      and dc: "disassemble (fst ds) w (int (sa + off)) True = Inr r"
      and cb: "populate_callback inp sa (fst r) off (snd ds) = Inr s'"
      and rest: "disassembleSection_from inp sa len (populate_callback inp sa) (off + 4) (snd r, s')
                 = Inr ds'"
      by (subst (asm) disassembleSection_from.simps) (auto split: sum.splits)
    have "scopes_named inp s'"
      using populate_callback_scopes [OF cb 1(3)] .
    then show ?thesis
      using "1.hyps" [OF True rd dc cb rest] by simp
  qed
qed

lemma label_table_scopes:
  assumes "populateBranchDestinations inp sa len dst = Inr (st, bd)"
    and "\<not> truthy (relMap inp 0)"
  shows "map_of bd 0 = None"
proof -
  from assms(1) obtain r where
    run: "disassembleSection_from inp sa len (populate_callback inp sa) 0
            (dst, \<lparr>a_obj = [], a_currRelFnOffset = 0\<rparr>) = Inr r"
    and bd: "bd = map (\<lambda>fn. (fst fn, name_destinations (snd fn))) (a_obj (snd r))"
    by (auto simp add: populateBranchDestinations_def disassembleSection_def split: sum.splits)
  have "scopes_named inp (snd r)"
    using analyzer_loop_scopes [OF run] by (simp add: scopes_named_def)
  then have "0 \<notin> fst ` set (a_obj (snd r))"
    using assms(2) by (auto simp add: scopes_named_def)
  then have "0 \<notin> fst ` set bd"
    by (simp add: bd image_image)
  then show ?thesis
    by (simp add: map_of_eq_None_iff)
qed

lemma write_separator_scope:
  "e_currRelFnOffset (write_separator inp sa off s) = e_currRelFnOffset s"
  by (simp add: write_separator_def stream_write_def Let_def)

lemma emit_callback_no_scope:
  assumes "map_of bd (e_currRelFnOffset s) = None" and "\<not> truthy (relMap inp off)"
  shows "\<exists>e. emit_callback inp bd sa instr off s = Inl e"
  using assms
  by (cases "annotate inp bd sa (e_currRelFnOffset s) instr")
     (simp_all add: emit_callback_def Let_def write_label_def write_separator_scope)

lemma emitter_loop_no_scope:
  assumes "0 < len" and "map_of bd (e_currRelFnOffset s) = None" and "\<not> truthy (relMap inp 0)"
  shows "\<exists>e. disassembleSection inp sa len (emit_callback inp bd sa) (st, s) = Inl e"
proof (cases "readUInt32BE (relBuffer inp) (int sa - int (relPtr inp) + int 0)")
  case (Inl e)
  then show ?thesis
    using assms(1) unfolding disassembleSection_def
    by (subst disassembleSection_from.simps) simp
next
  case rd: (Inr w)
  show ?thesis
  proof (cases "disassemble st w (int (sa + 0)) True")
    case (Inl e)
    then show ?thesis
      using assms(1) rd unfolding disassembleSection_def
      by (subst disassembleSection_from.simps) simp
  next
    case dc: (Inr r)
    obtain e where "emit_callback inp bd sa (fst r) 0 s = Inl e"
      using emit_callback_no_scope [OF assms(2,3)] by blast
    then show ?thesis
      using assms(1) rd dc unfolding disassembleSection_def
      by (subst disassembleSection_from.simps) simp
  qed
qed

lemma unnamed_start_raises:
  assumes "\<not> truthy (relMap inp 0)" and "0 < len"
  shows "\<exists>e. processTextSection inp sa len = Inl e"
proof (cases "populateBranchDestinations inp sa len init_dstate")
  case (Inl e)
  then show ?thesis
    by (simp add: processTextSection_def)
next
  case (Inr r)
  then have "map_of (snd r) 0 = None"
    using label_table_scopes [of inp sa len init_dstate "fst r" "snd r"] assms(1) by simp
  then obtain e where
    "disassembleSection inp sa len (emit_callback inp (snd r) sa)
       (fst r, \<lparr>startingNewFn = True, leaveBlankLine = False, e_currRelFnOffset = 0,
                 stream = relName inp @ ''.rel'' @ nl @ nl\<rparr>) = Inl e"
    using emitter_loop_no_scope [OF assms(2) _ assms(1), of "snd r" _ sa "fst r"] by force
  then show ?thesis
    using Inr by (simp add: processTextSection_def Let_def)
qed

section \<open>A forward branch to the second instruction\<close>

text \<open>
  The text of an instruction does not depend on the decoder's variables, so both passes
  see the text that a fresh decoder gives.
\<close>

lemma decode_text_any:
  assumes "decode_text w a = Inr t"
  shows "\<exists>st'. disassemble st w a True = Inr (t, st')"
proof -
  have "map_sum id fst (disassemble st w a True) = Inr t"
    using assms disassemble_text_independent [of st w a True init_dstate]
    by (simp add: decode_text_def)
  then show ?thesis
    by (cases "disassemble st w a True") auto
qed

lemma loop_step:
  assumes "off < len"
    and "readUInt32BE (relBuffer inp) (int sa - int (relPtr inp) + int off) = Inr w"
    and "disassemble st w (int (sa + off)) True = Inr (t, st')"
    and "cb t off s = Inr s'"
  shows "disassembleSection_from inp sa len cb off (st, s)
         = disassembleSection_from inp sa len cb (off + 4) (st', s')"
  using assms by (subst disassembleSection_from.simps) simp

lemma loop_two:
  assumes "readUInt32BE (relBuffer inp) (int sa - int (relPtr inp)) = Inr w1"
    and "readUInt32BE (relBuffer inp) (int sa - int (relPtr inp) + 4) = Inr w2"
    and "disassemble st0 w1 (int sa) True = Inr (t1, st1)"
    and "cb t1 0 s0 = Inr s1"
    and "disassemble st1 w2 (int sa + 4) True = Inr (t2, st2)"
    and "cb t2 4 s1 = Inr s2"
  shows "disassembleSection inp sa 8 cb (st0, s0) = Inr (st2, s2)"
proof -
  have "disassembleSection_from inp sa 8 cb 0 (st0, s0)
        = disassembleSection_from inp sa 8 cb (0 + 4) (st1, s1)"
    using assms by (intro loop_step) simp_all
  also have "\<dots> = disassembleSection_from inp sa 8 cb (4 + 4) (st2, s2)"
    using assms by (simp only: add_0) (intro loop_step, simp_all)
  also have "\<dots> = Inr (st2, s2)"
    by (subst disassembleSection_from.simps) simp
  finally show ?thesis
    by (simp only: disassembleSection_def)
qed

lemma is_blr_long: "4 < length t \<Longrightarrow> \<not> is_blr t"
  by (simp add: is_blr_def)

lemma match_branch_not_blr:
  assumes "is_blr t"
  shows "match_branch t = None"
proof -
  have len: "length t = 4" and pre: "take 3 t = ''blr''" and sp: "is_space (t ! 3)"
    using assms by (simp_all add: is_blr_def)
  obtain c0 c1 c2 c3 where t: "t = [c0, c1, c2, c3]"
    using len by (auto simp add: numeral_eq_Suc length_Suc_conv)
  have "c0 = CHR ''b''" "c1 = CHR ''l''" "c2 = CHR ''r''" "is_space c3"
    using pre sp by (simp_all add: t numeral_eq_Suc)
  then show ?thesis
    by (simp add: t match_branch_def match_tail_def is_space_def Let_def)
qed

lemma decode_bne_4:
  "disassemble st0 0x40820004 a True =
     Inr (''bne-'' @ [CHR 0x09] @ '' ->0x'' @ fmt_08x (a + 4),
          st0\<lparr>m_opcode := ''bne-'', m_operands := '' ->0x'' @ fmt_08x (a + 4),
              m_type := PPCINSTR_BRANCH, m_flags := 0, m_displacement := 4\<rparr>)"
  by (simp add: disassemble_def doDisassembly_def top_switch_16 bc_def branch_def field_defs
      table_defs nth_str_def Let_def)

text \<open>
  C4 (a two-instruction function whose only branch goes from the first instruction to
  the second gets one label line before the second instruction, and the label is not
  \<open>FINISH_FUNCTION\<close>).  The run of \<open>b ->+4; nop\<close> writes the label
  \<open>FINISH_FUNCTION_80001004\<close>: the destination is the last key of the function and
  the only branch to it is at a lower address, so \<open>reachedFromBelow\<close> stays false.
\<close>

theorem forward_branch_counterexample:
  "processTextSection input_forward 0x80001000 8 =
     Inr (''m.rel'' @ nl @ nl
          @ EQUALS_DIVIDER @ ''0x0 80001000 f:'' @ nl @ EQUALS_DIVIDER
          @ [CHR 0x09] @ ''b'' @ [CHR 0x09] @ ''->0x80001004 ===> FINISH_FUNCTION_80001004'' @ nl
          @ nl
          @ ''FINISH_FUNCTION_80001004:'' @ nl
          @ [CHR 0x09] @ ''nop'' @ [CHR 0x09] @ nl)"
  by (simp add: pass_defs input_forward_def decode_words fmt_defs)

text \<open>
  C4, amended: a section that is one two-instruction function (both words lie in the
  buffer and decode without an exception, the module map names offset 0 and does not
  name offset 4), whose first instruction's text is recognised as a branch by the
  regular expression \<open>^(b\S*)\s*->0x<8 hex digits>\<close>, with a mnemonic other than
  \<open>bl\<close> and with the address of the second instruction as its target, and whose
  second instruction's text is not recognised as a branch, is written as the header
  block, the first instruction's line (annotated with \<open>FINISH_FUNCTION\<close> and the
  target, unless the mnemonic is \<open>blr\<close>), a blank line when the mnemonic is \<open>b\<close>,
  the one label line \<open>FINISH_FUNCTION_<address>:\<close>, and the second instruction's
  line right after it.
\<close>

theorem forward_branch_label:
  assumes rd1: "readUInt32BE (relBuffer inp) (int sa - int (relPtr inp)) = Inr w1"
    and rd2: "readUInt32BE (relBuffer inp) (int sa - int (relPtr inp) + 4) = Inr w2"
    and d1: "decode_text w1 (int sa) = Inr t1"
    and m1: "match_branch t1 = Some (mn, h)"
    and mn: "mn \<noteq> ''bl''"
    and tg: "hex_val h = sa + 4"
    and d2: "decode_text w2 (int sa + 4) = Inr t2"
    and m2: "match_branch t2 = None"
    and n0: "relMap inp 0 = Some name" "name \<noteq> []"
    and n4: "\<not> truthy (relMap inp 4)"
  shows "processTextSection inp sa 8 =
     Inr (relName inp @ ''.rel'' @ nl @ nl
          @ EQUALS_DIVIDER
          @ ''0x0 '' @ fmt_08x (sint ((0x80000000 :: u32) OR word_of_nat sa)) @ '' '' @ name @ '':'' @ nl
          @ EQUALS_DIVIDER
          @ [CHR 0x09] @ t1
          @ (if mn = ''blr'' then [] else '' ===> FINISH_FUNCTION_'' @ h) @ nl
          @ (if mn = ''b'' then nl else [])
          @ ''FINISH_FUNCTION_'' @ fmt_08x (int (sa + 4)) @ '':'' @ nl
          @ [CHR 0x09] @ t2 @ nl)"
proof -
  obtain st1 where a1: "disassemble init_dstate w1 (int sa) True = Inr (t1, st1)"
    using decode_text_any [OF d1] by blast
  obtain st2 where a2: "disassemble st1 w2 (int sa + 4) True = Inr (t2, st2)"
    using decode_text_any [OF d2] by blast
  obtain st3 where a3: "disassemble st2 w1 (int sa) True = Inr (t1, st3)"
    using decode_text_any [OF d1] by blast
  obtain st4 where a4: "disassemble st3 w2 (int sa + 4) True = Inr (t2, st4)"
    using decode_text_any [OF d2] by blast
  have t0: "truthy (relMap inp 0)"
    using n0 by (simp add: truthy_def)
  let ?A0 = "\<lparr>a_obj = [], a_currRelFnOffset = 0\<rparr>"
  let ?A1 = "\<lparr>a_obj = [(0, [(sa + 4, False)])], a_currRelFnOffset = 0\<rparr>"
  have c1: "populate_callback inp sa t1 0 ?A0 = Inr ?A1"
    using t0 m1 mn tg by (simp add: populate_callback_def Let_def)
  have c2: "populate_callback inp sa t2 4 ?A1 = Inr ?A1"
    using n4 m2 by (simp add: populate_callback_no_match)
  have scan: "disassembleSection inp sa 8 (populate_callback inp sa) (init_dstate, ?A0)
              = Inr (st2, ?A1)"
    by (rule loop_two [OF rd1 rd2 a1 c1 a2 c2])
  let ?bd = "[(0 :: nat, [(sa + 4, ''FINISH_FUNCTION'')])]"
  have nd: "name_destinations [(sa + 4, False)] = [(sa + 4, ''FINISH_FUNCTION'')]"
    by (simp add: name_destinations_def object_keys_def sort_default_def)
  have pop: "populateBranchDestinations inp sa 8 init_dstate = Inr (st2, ?bd)"
    by (simp add: populateBranchDestinations_def scan nd)
  let ?hdr = "EQUALS_DIVIDER
          @ ''0x0 '' @ fmt_08x (sint ((0x80000000 :: u32) OR word_of_nat sa)) @ '' '' @ name @ '':'' @ nl
          @ EQUALS_DIVIDER"
  let ?ann = "if mn = ''blr'' then [] else '' ===> FINISH_FUNCTION_'' @ h"
  let ?l1 = "[CHR 0x09] @ t1 @ ?ann @ nl"
  let ?E0 = "\<lparr>startingNewFn = True, leaveBlankLine = False, e_currRelFnOffset = 0,
              stream = relName inp @ ''.rel'' @ nl @ nl\<rparr>"
  let ?E1 = "\<lparr>startingNewFn = False, leaveBlankLine = (mn = ''b''), e_currRelFnOffset = 0,
              stream = relName inp @ ''.rel'' @ nl @ nl @ ?hdr @ ?l1\<rparr>"
  have an: "annotate inp ?bd sa 0 t1 = Inr (t1 @ ?ann)"
    using m1 mn tg by (simp add: annotate_def Let_def)
  have nb: "\<not> is_blr (t1 @ ?ann)"
    using m1 match_branch_not_blr [of t1] by (auto simp add: is_blr_long)
  have af: "after_instr ?bd (Some (mn, h)) (t1 @ ?ann) 0 s = s\<lparr>leaveBlankLine := (mn = ''b'') \<or> leaveBlankLine s\<rparr>"
    for s :: estate
    using nb by (simp add: after_instr_def)
  have e1: "emit_callback inp ?bd sa t1 0 ?E0 = Inr ?E1"
    using t0 n0 m1 an
    by (simp add: emit_callback_def Let_def write_separator_def write_label_def af
        stream_write_def fmt_x_def hex_str.simps digit_char_def)
  let ?E2 = "after_instr ?bd None t2 4
      (\<lparr>startingNewFn = False, leaveBlankLine = False, e_currRelFnOffset = 0,
        stream = relName inp @ ''.rel'' @ nl @ nl @ ?hdr @ ?l1 @ (if mn = ''b'' then nl else [])
          @ ''FINISH_FUNCTION_'' @ fmt_08x (int (sa + 4)) @ '':'' @ nl @ [CHR 0x09] @ t2 @ nl\<rparr>)"
  have e2: "emit_callback inp ?bd sa t2 4 ?E1 = Inr ?E2"
    using n4 m2
    by (simp add: emit_callback_def Let_def annotate_no_match write_separator_def write_label_def
        stream_write_def)
  have emit: "disassembleSection inp sa 8 (emit_callback inp ?bd sa) (st2, ?E0) = Inr (st4, ?E2)"
    by (rule loop_two [OF rd1 rd2 a3 e1 a4 e2])
  have st: "stream ?E2 = relName inp @ ''.rel'' @ nl @ nl @ ?hdr @ ?l1 @ (if mn = ''b'' then nl else [])
          @ ''FINISH_FUNCTION_'' @ fmt_08x (int (sa + 4)) @ '':'' @ nl @ [CHR 0x09] @ t2 @ nl"
    by (simp add: after_instr_def)
  have "processTextSection inp sa 8 = Inr (stream ?E2)"
    by (simp only: processTextSection_def pop emit Let_def sum.case fst_conv snd_conv)
  then show ?thesis
    unfolding st by (simp only: append_assoc)
qed

theorem forward_branch_label_witness:
  "processTextSection input_forward_cond 0x80001000 8 =
     Inr (''m.rel'' @ nl @ nl
          @ EQUALS_DIVIDER @ ''0x0 80001000 f:'' @ nl @ EQUALS_DIVIDER
          @ [CHR 0x09] @ ''bne-'' @ [CHR 0x09] @ '' ->0x80001004 ===> FINISH_FUNCTION_80001004'' @ nl
          @ ''FINISH_FUNCTION_80001004:'' @ nl
          @ [CHR 0x09] @ ''nop'' @ [CHR 0x09] @ nl)"
proof -
  have rd1: "readUInt32BE (relBuffer input_forward_cond)
               (int 0x80001000 - int (relPtr input_forward_cond)) = Inr 0x40820004"
    by (simp add: input_forward_cond_def readUInt32BE_def Let_def)
  have rd2: "readUInt32BE (relBuffer input_forward_cond)
               (int 0x80001000 - int (relPtr input_forward_cond) + 4) = Inr 0x60000000"
    by (simp add: input_forward_cond_def readUInt32BE_def Let_def)
  have d1: "decode_text 0x40820004 (int 0x80001000)
            = Inr (''bne-'' @ [CHR 0x09] @ '' ->0x80001004'')"
    by (simp add: decode_text_def decode_bne_4 fmt_defs Let_def)
  have d2: "decode_text 0x60000000 (int 0x80001000 + 4) = Inr (''nop'' @ [CHR 0x09])"
    by (simp add: decode_text_def decode_nop)
  have m1: "match_branch (''bne-'' @ [CHR 0x09] @ '' ->0x80001004'') = Some (''bne-'', ''80001004'')"
    by (simp add: match_branch_def match_tail_def is_space_def is_hex_lower_def Let_def)
  have m2: "match_branch (''nop'' @ [CHR 0x09]) = None"
    by (simp add: match_branch_def match_tail_def is_space_def is_hex_lower_def Let_def)
  have tg: "hex_val ''80001004'' = 0x80001000 + 4"
    by (simp add: hex_val_def hexdigit_val_def)
  have n0: "relMap input_forward_cond 0 = Some ''f''" "''f'' \<noteq> []"
    by (simp_all add: input_forward_cond_def)
  have n4: "\<not> truthy (relMap input_forward_cond 4)"
    by (simp add: input_forward_cond_def truthy_def)
  have f1: "fmt_08x (sint ((0x80000000 :: u32) OR word_of_nat 0x80001000)) = ''80001000''"
    by (simp add: fmt_defs Let_def)
  have f2: "fmt_08x (int (0x80001000 + 4)) = ''80001004''"
    by (simp add: fmt_defs Let_def)
  show ?thesis
    using forward_branch_label [OF rd1 rd2 d1 m1 _ tg d2 m2 n0 n4] f1 f2
    by (simp add: input_forward_cond_def)
qed

text \<open>
  The label depends on the branch being recognised by the regular expression.  When the
  first instruction's text does not match, as for a conditional branch with a \<open>crN\<close>
  or counter operand before the arrow, the analyzer records no destination and the
  section is written without any label line.
\<close>

lemma decode_bne_cr1_4:
  "disassemble st0 0x40860004 a True =
     Inr (''bne-'' @ [CHR 0x09] @ ''cr1 ->0x'' @ fmt_08x (a + 4),
          st0\<lparr>m_opcode := ''bne-'', m_operands := ''cr1 ->0x'' @ fmt_08x (a + 4),
              m_type := PPCINSTR_BRANCH, m_flags := 0, m_displacement := 4\<rparr>)"
  by (simp add: disassemble_def doDisassembly_def top_switch_16 bc_def branch_def field_defs
      table_defs dec_str.simps digit_char_def nth_str_def Let_def)

lemma unrecognised_branch_no_label:
  assumes rd1: "readUInt32BE (relBuffer inp) (int sa - int (relPtr inp)) = Inr w1"
    and rd2: "readUInt32BE (relBuffer inp) (int sa - int (relPtr inp) + 4) = Inr w2"
    and d1: "decode_text w1 (int sa) = Inr t1"
    and m1: "match_branch t1 = None"
    and d2: "decode_text w2 (int sa + 4) = Inr t2"
    and m2: "match_branch t2 = None"
    and n0: "relMap inp 0 = Some name" "name \<noteq> []"
    and n4: "\<not> truthy (relMap inp 4)"
  shows "processTextSection inp sa 8 =
     Inr (relName inp @ ''.rel'' @ nl @ nl
          @ EQUALS_DIVIDER
          @ ''0x0 '' @ fmt_08x (sint ((0x80000000 :: u32) OR word_of_nat sa)) @ '' '' @ name @ '':'' @ nl
          @ EQUALS_DIVIDER
          @ [CHR 0x09] @ t1 @ nl
          @ (if is_blr t1 then nl else [])
          @ [CHR 0x09] @ t2 @ nl)"
proof -
  obtain st1 where a1: "disassemble init_dstate w1 (int sa) True = Inr (t1, st1)"
    using decode_text_any [OF d1] by blast
  obtain st2 where a2: "disassemble st1 w2 (int sa + 4) True = Inr (t2, st2)"
    using decode_text_any [OF d2] by blast
  obtain st3 where a3: "disassemble st2 w1 (int sa) True = Inr (t1, st3)"
    using decode_text_any [OF d1] by blast
  obtain st4 where a4: "disassemble st3 w2 (int sa + 4) True = Inr (t2, st4)"
    using decode_text_any [OF d2] by blast
  have t0: "truthy (relMap inp 0)"
    using n0 by (simp add: truthy_def)
  let ?A0 = "\<lparr>a_obj = [], a_currRelFnOffset = 0\<rparr>"
  let ?A1 = "\<lparr>a_obj = [(0, [])], a_currRelFnOffset = 0\<rparr>"
  have c1: "populate_callback inp sa t1 0 ?A0 = Inr ?A1"
    using t0 m1 by (simp add: populate_callback_no_match)
  have c2: "populate_callback inp sa t2 4 ?A1 = Inr ?A1"
    using n4 m2 by (simp add: populate_callback_no_match)
  have scan: "disassembleSection inp sa 8 (populate_callback inp sa) (init_dstate, ?A0)
              = Inr (st2, ?A1)"
    by (rule loop_two [OF rd1 rd2 a1 c1 a2 c2])
  let ?bd = "[(0 :: nat, [] :: (nat \<times> string) list)]"
  have pop: "populateBranchDestinations inp sa 8 init_dstate = Inr (st2, ?bd)"
    by (simp add: populateBranchDestinations_def scan name_destinations_def object_keys_def
        sort_default_def)
  let ?hdr = "EQUALS_DIVIDER
          @ ''0x0 '' @ fmt_08x (sint ((0x80000000 :: u32) OR word_of_nat sa)) @ '' '' @ name @ '':'' @ nl
          @ EQUALS_DIVIDER"
  let ?E0 = "\<lparr>startingNewFn = True, leaveBlankLine = False, e_currRelFnOffset = 0,
              stream = relName inp @ ''.rel'' @ nl @ nl\<rparr>"
  let ?E1 = "\<lparr>startingNewFn = False, leaveBlankLine = is_blr t1, e_currRelFnOffset = 0,
              stream = relName inp @ ''.rel'' @ nl @ nl @ ?hdr @ [CHR 0x09] @ t1 @ nl\<rparr>"
  have e1: "emit_callback inp ?bd sa t1 0 ?E0 = Inr ?E1"
    using t0 n0 m1
    by (simp add: emit_callback_def Let_def annotate_no_match write_separator_def write_label_def
        after_instr_def stream_write_def fmt_x_def hex_str.simps digit_char_def)
  let ?E2 = "after_instr ?bd None t2 4
      (\<lparr>startingNewFn = False, leaveBlankLine = False, e_currRelFnOffset = 0,
        stream = relName inp @ ''.rel'' @ nl @ nl @ ?hdr @ [CHR 0x09] @ t1 @ nl
          @ (if is_blr t1 then nl else []) @ [CHR 0x09] @ t2 @ nl\<rparr>)"
  have e2: "emit_callback inp ?bd sa t2 4 ?E1 = Inr ?E2"
    using n4 m2
    by (simp add: emit_callback_def Let_def annotate_no_match write_separator_def write_label_def
        stream_write_def)
  have emit: "disassembleSection inp sa 8 (emit_callback inp ?bd sa) (st2, ?E0) = Inr (st4, ?E2)"
    by (rule loop_two [OF rd1 rd2 a3 e1 a4 e2])
  have st: "stream ?E2 = relName inp @ ''.rel'' @ nl @ nl @ ?hdr @ [CHR 0x09] @ t1 @ nl
          @ (if is_blr t1 then nl else []) @ [CHR 0x09] @ t2 @ nl"
    by (simp add: after_instr_def)
  have "processTextSection inp sa 8 = Inr (stream ?E2)"
    by (simp only: processTextSection_def pop emit Let_def sum.case fst_conv snd_conv)
  then show ?thesis
    unfolding st by (simp only: append_assoc)
qed

lemma cr_operand_branch_no_label:
  "processTextSection input_forward_cr 0x80001000 8 =
     Inr (''m.rel'' @ nl @ nl
          @ EQUALS_DIVIDER @ ''0x0 80001000 f:'' @ nl @ EQUALS_DIVIDER
          @ [CHR 0x09] @ ''bne-'' @ [CHR 0x09] @ ''cr1 ->0x80001004'' @ nl
          @ [CHR 0x09] @ ''nop'' @ [CHR 0x09] @ nl)"
  by (simp add: pass_defs input_forward_cr_def decode_bne_cr1_4 decode_nop fmt_defs)

end
